theory Spec2Isabelle
  imports Main "HOL-Library.Sublist"
begin

section \<open>Firestore helpers with retries (firebasefunctions.go)\<close>

text \<open>
  The five retrying helpers of \<^verbatim>\<open>firebasefunctions.go\<close> are embedded as HOL functions.
  A Go \<^verbatim>\<open>error\<close> is a value of \<open>error option\<close> (\<open>None\<close> is \<^verbatim>\<open>nil\<close>), a pointer is
  an optional handle, a Go result tuple is a HOL tuple, and a run-time panic (calling
  \<^verbatim>\<open>Error()\<close> on a nil error) is the outcome \<open>Panicked\<close>.

  The Firestore and Firebase SDKs, \<^verbatim>\<open>os.Getenv\<close> and \<^verbatim>\<open>strconv.Atoi\<close> are not code of
  the repository: they are the fields of the record \<open>externals\<close>. A backend operation
  and the SDK constructors receive, as their first argument, the number of earlier
  invocations of that kind within the call, so that a backend may answer differently
  on every attempt. The state threaded through a call counts the backend invocations
  and the connection refreshes and collects the arguments of every \<^verbatim>\<open>LogWrite\<close>.
  The \<^verbatim>\<open>context.Context\<close> argument is passed on unchanged by the source and is left out.
  Go's \<^verbatim>\<open>int\<close> is modelled by \<open>int\<close>: the only arithmetic is the loop counter, which stays
  between 0 and the value \<^verbatim>\<open>strconv.Atoi\<close> returned.
\<close>

subsection \<open>Values\<close>

type_synonym App = "nat option"
type_synonym Client = "nat option"
type_synonym DocumentRef = "nat option"
type_synonym DocumentSnapshot = "nat option"
type_synonym WriteResult = "nat option"
type_synonym DocumentIterator = "nat option"

text \<open>An entity is an \<^verbatim>\<open>interface{}\<close>: \<open>None\<close> is the nil interface.\<close>

type_synonym entity = "(string \<times> string) list option"

text \<open>
  Error values. \<^verbatim>\<open>iterator.Done\<close> is a sentinel compared by identity, so it is a
  constructor of its own; every other error is known by its message.
\<close>

datatype error = IteratorDone | ErrorString string

fun Error :: "error \<Rightarrow> string" where
  "Error IteratorDone = ''no more items in iterator''"
| "Error (ErrorString m) = m"

datatype 'a outcome = Returned 'a | Panicked

text \<open>\<^verbatim>\<open>err.Error()\<close> on an error variable: a nil error panics.\<close>

fun err_Error :: "error option \<Rightarrow> string outcome" where
  "err_Error None = Panicked"
| "err_Error (Some e) = Returned (Error e)"

record logEntry =
  logType :: string
  errorCode :: int
  errorMessage :: string
  userId :: string

record state =
  backendCalls :: nat
  refreshCalls :: nat
  logLines :: "logEntry list"

definition init :: state where
  "init = \<lparr>backendCalls = 0, refreshCalls = 0, logLines = []\<rparr>"

record externals =
  os_Getenv :: "string \<Rightarrow> string"
  strconv_Atoi :: "string \<Rightarrow> int \<times> error option"
  firebase_NewApp :: "nat \<Rightarrow> App \<times> error option"
  App_Firestore :: "nat \<Rightarrow> App \<Rightarrow> Client \<times> error option"
  Collection_Add :: "nat \<Rightarrow> Client \<Rightarrow> string \<Rightarrow> entity \<Rightarrow> DocumentRef \<times> error option"
  Doc_Get :: "nat \<Rightarrow> Client \<Rightarrow> string \<Rightarrow> string \<Rightarrow> DocumentSnapshot \<times> error option"
  Doc_Set :: "nat \<Rightarrow> Client \<Rightarrow> string \<Rightarrow> string \<Rightarrow> entity \<Rightarrow> error option"
  Doc_Delete :: "nat \<Rightarrow> Client \<Rightarrow> string \<Rightarrow> string \<Rightarrow> WriteResult \<times> error option"
  Iter_Next :: "nat \<Rightarrow> DocumentIterator \<Rightarrow> DocumentSnapshot \<times> error option"

subsection \<open>Constants and formatting\<close>

definition ClosingTransportError :: string where
  "ClosingTransportError = ''Unavailable desc = transport is closing''"

definition UnavailableServiceError :: string where
  "UnavailableServiceError = ''Unavailable desc = The service is temporarily unavailable''"

definition UsersCollection :: string where
  "UsersCollection = ''users''"

definition PromoItemsCollection :: string where
  "PromoItemsCollection = ''promo_items''"

definition FirestoreCollectionNames :: "string list" where
  "FirestoreCollectionNames = [UsersCollection, PromoItemsCollection]"

definition LogTypeInfo :: string where
  "LogTypeInfo = ''info''"

text \<open>\<^verbatim>\<open>strings.Contains(s, substr)\<close>: \<open>substr\<close> occurs in \<open>s\<close> as a contiguous block.\<close>

definition strings_Contains :: "string \<Rightarrow> string \<Rightarrow> bool" where
  "strings_Contains s substr = sublist substr s"

text \<open>The decimal text of an integer, as \<^verbatim>\<open>%d\<close> and \<^verbatim>\<open>%v\<close> print it.\<close>

fun decimal :: "nat \<Rightarrow> string" where
  "decimal n =
     (if n < 10 then [''0123456789'' ! n]
      else decimal (n div 10) @ [''0123456789'' ! (n mod 10)])"

definition format_int :: "int \<Rightarrow> string" where
  "format_int i = (if i < 0 then CHR ''-'' # decimal (nat (- i)) else decimal (nat i))"

text \<open>
  \<^verbatim>\<open>LogWrite\<close> hands one line to \<^verbatim>\<open>log.Printf\<close>; the model records the four arguments of
  the call.
\<close>

definition LogWrite :: "string \<Rightarrow> int \<Rightarrow> string \<Rightarrow> string \<Rightarrow> state \<Rightarrow> state" where
  "LogWrite lt code msg uid s =
     s\<lparr>logLines := logLines s @
        [\<lparr>logType = lt, errorCode = code, errorMessage = msg, userId = uid\<rparr>]\<rparr>"

subsection \<open>firestoreCollectionExists\<close>

fun rangeNames :: "string list \<Rightarrow> string \<Rightarrow> bool" where
  "rangeNames [] docName = False"
| "rangeNames (name # names) docName = (if name = docName then True else rangeNames names docName)"

definition firestoreCollectionExists :: "string \<Rightarrow> bool" where
  "firestoreCollectionExists docName = rangeNames FirestoreCollectionNames docName"

subsection \<open>getFirestoreAppAndClientWithContext\<close>

definition getFirestoreAppAndClientWithContext ::
    "externals \<Rightarrow> state \<Rightarrow> (App \<times> Client \<times> error option) \<times> state" where
  "getFirestoreAppAndClientWithContext x s =
     (let k = refreshCalls s;
          s' = s\<lparr>refreshCalls := k + 1\<rparr>
      in case firebase_NewApp x k of
           (fireapp, Some err) \<Rightarrow> ((None, None, Some err), s')
         | (fireapp, None) \<Rightarrow>
             (case App_Firestore x k fireapp of
                (fireclient, Some err) \<Rightarrow> ((None, None, Some err), s')
              | (fireclient, None) \<Rightarrow> ((fireapp, fireclient, None), s')))"

subsection \<open>The retry count\<close>

text \<open>
  The first five lines of each helper: the retry count is read from the environment; when
  \<^verbatim>\<open>strconv.Atoi\<close> fails it is set to 1 and a line is logged. The error variable keeps
  what \<^verbatim>\<open>strconv.Atoi\<close> returned.
\<close>

definition readRetriesNumber :: "externals \<Rightarrow> state \<Rightarrow> (int \<times> error option) \<times> state" where
  "readRetriesNumber x s =
     (case strconv_Atoi x (os_Getenv x ''FIRESTORE_RETRIES_NUMBER'') of
        (firestoreRetriesNumber, Some err) \<Rightarrow>
          ((1, Some err),
           LogWrite LogTypeInfo 0
             (''FIRESTORE_RETRIES_NUMBER is missing, was set to: '' @ format_int 1) [] s)
      | (firestoreRetriesNumber, None) \<Rightarrow> ((firestoreRetriesNumber, None), s))"

text \<open>A value printed between single quotes, as in \<^verbatim>\<open>'%v'\<close>.\<close>

definition quoted :: "string \<Rightarrow> string" where
  "quoted v = CHR 0x27 # v @ [CHR 0x27]"

subsection \<open>addEntityToFirestore\<close>

text \<open>
  The \<^verbatim>\<open>for\<close> loop of each helper is a recursive function of the loop counter \<open>i\<close>, the
  current \<^verbatim>\<open>fireclient\<close> and the current value of the variable \<^verbatim>\<open>err\<close>; the branch taken
  when \<open>i < firestoreRetriesNumber\<close> fails is the code after the loop.
\<close>

function addEntityLoop ::
    "externals \<Rightarrow> string \<Rightarrow> entity \<Rightarrow> int \<Rightarrow> int \<Rightarrow> Client \<Rightarrow> error option \<Rightarrow> state
      \<Rightarrow> (DocumentRef \<times> error option) outcome \<times> state" where
  "addEntityLoop x collectionName entity firestoreRetriesNumber i fireclient err s =
     (if i < firestoreRetriesNumber then
        (let k = backendCalls s; s1 = s\<lparr>backendCalls := k + 1\<rparr>
         in case Collection_Add x k fireclient collectionName entity of
              (docRef, None) \<Rightarrow> (Returned (docRef, None), s1)
            | (docRef, Some e) \<Rightarrow>
                if Error e = ClosingTransportError then
                  (case getFirestoreAppAndClientWithContext x s1 of
                     ((fireapp, fireclient', Some e'), s2) \<Rightarrow>
                       (Returned (None, Some (ErrorString
                          (''Error updating fireclient ('' @ format_int (firestoreRetriesNumber - i)
                            @ '' - retries left): '' @ Error e'))), s2)
                   | ((fireapp, fireclient', None), s2) \<Rightarrow>
                       addEntityLoop x collectionName entity firestoreRetriesNumber (i + 1)
                         fireclient' None s2)
                else
                  (Returned (None, Some (ErrorString
                     (''Unsuccessful adding data to the '' @ quoted collectionName
                       @ '' collection, Error: '' @ Error e))), s1))
      else
        (case err_Error err of
           Panicked \<Rightarrow> (Panicked, s)
         | Returned m \<Rightarrow>
             (Returned (None, Some (ErrorString
                (''Exceed retries number for adding data to the '' @ quoted collectionName
                  @ '' collection, Error: '' @ m))), s)))"
  by pat_completeness auto
termination
  by (relation "measure (\<lambda>(x, c, e, n, i, cl, err, s). nat (n - i))") auto

definition addEntityToFirestore ::
    "externals \<Rightarrow> Client \<Rightarrow> string \<Rightarrow> entity \<Rightarrow> state
      \<Rightarrow> (DocumentRef \<times> error option) outcome \<times> state" where
  "addEntityToFirestore x fireclient collectionName entity s =
     (case readRetriesNumber x s of
        ((firestoreRetriesNumber, err), s0) \<Rightarrow>
          if \<not> firestoreCollectionExists collectionName then
            (Returned (None, Some (ErrorString
               (''Collection name '' @ quoted collectionName @ '' does not exist''))), s0)
          else addEntityLoop x collectionName entity firestoreRetriesNumber 0 fireclient err s0)"

subsection \<open>getEntityFromFirestore\<close>

function getEntityLoop ::
    "externals \<Rightarrow> string \<Rightarrow> string \<Rightarrow> int \<Rightarrow> int \<Rightarrow> Client \<Rightarrow> error option \<Rightarrow> state
      \<Rightarrow> (DocumentSnapshot \<times> error option) outcome \<times> state" where
  "getEntityLoop x collectionName entityID firestoreRetriesNumber i fireclient err s =
     (if i < firestoreRetriesNumber then
        (let k = backendCalls s; s1 = s\<lparr>backendCalls := k + 1\<rparr>
         in case Doc_Get x k fireclient collectionName entityID of
              (doc, None) \<Rightarrow> (Returned (doc, None), s1)
            | (doc, Some e) \<Rightarrow>
                if Error e = ClosingTransportError
                   \<or> strings_Contains (Error e) ''The service is temporarily unavailable'' then
                  (let s1' = LogWrite LogTypeInfo 0
                       (''failed to get data from the '' @ quoted collectionName
                         @ '' collection, Error: '' @ Error e @ ''. Will do retry!'') [] s1
                   in case getFirestoreAppAndClientWithContext x s1' of
                        ((fireapp, fireclient', Some e'), s2) \<Rightarrow>
                          (Returned (None, Some (ErrorString
                             (''error updating fireclient ('' @ format_int (firestoreRetriesNumber - i)
                               @ '' - retries left): '' @ Error e'))), s2)
                      | ((fireapp, fireclient', None), s2) \<Rightarrow>
                          getEntityLoop x collectionName entityID firestoreRetriesNumber (i + 1)
                            fireclient' None s2)
                else
                  (Returned (None, Some (ErrorString
                     (''unsuccessful getting data from the '' @ quoted collectionName
                       @ '' collection, Error: '' @ Error e))), s1))
      else
        (case err_Error err of
           Panicked \<Rightarrow> (Panicked, s)
         | Returned m \<Rightarrow>
             (Returned (None, Some (ErrorString
                (''Exceed retries number for getting data from the '' @ quoted collectionName
                  @ '' collection, Error: '' @ m))), s)))"
  by pat_completeness auto
termination
  by (relation "measure (\<lambda>(x, c, e, n, i, cl, err, s). nat (n - i))") auto

definition getEntityFromFirestore ::
    "externals \<Rightarrow> Client \<Rightarrow> string \<Rightarrow> string \<Rightarrow> state
      \<Rightarrow> (DocumentSnapshot \<times> error option) outcome \<times> state" where
  "getEntityFromFirestore x fireclient collectionName entityID s =
     (case readRetriesNumber x s of
        ((firestoreRetriesNumber, err), s0) \<Rightarrow>
          if entityID = [] then
            (Returned (None, Some (ErrorString ''entity ID is required field for get'')), s0)
          else if \<not> firestoreCollectionExists collectionName then
            (Returned (None, Some (ErrorString
               (''document name '' @ quoted collectionName @ '' does not exist''))), s0)
          else getEntityLoop x collectionName entityID firestoreRetriesNumber 0 fireclient err s0)"

subsection \<open>editEntityInFirestore\<close>

function editEntityLoop ::
    "externals \<Rightarrow> string \<Rightarrow> string \<Rightarrow> entity \<Rightarrow> int \<Rightarrow> int \<Rightarrow> Client \<Rightarrow> error option \<Rightarrow> state
      \<Rightarrow> error option outcome \<times> state" where
  "editEntityLoop x collectionName entityID entity firestoreRetriesNumber i fireclient err s =
     (if i < firestoreRetriesNumber then
        (let k = backendCalls s; s1 = s\<lparr>backendCalls := k + 1\<rparr>
         in case Doc_Set x k fireclient collectionName entityID entity of
              None \<Rightarrow> (Returned None, s1)
            | Some e \<Rightarrow>
                if Error e = ClosingTransportError
                   \<or> strings_Contains (Error e) UnavailableServiceError then
                  (case getFirestoreAppAndClientWithContext x s1 of
                     ((fireapp, fireclient', Some e'), s2) \<Rightarrow>
                       (Returned (Some (ErrorString
                          (''Error updating fireclient ('' @ format_int (firestoreRetriesNumber - i)
                            @ '' - retries left): '' @ Error e'))), s2)
                   | ((fireapp, fireclient', None), s2) \<Rightarrow>
                       editEntityLoop x collectionName entityID entity firestoreRetriesNumber (i + 1)
                         fireclient' None s2)
                else
                  (Returned (Some (ErrorString
                     (''Unsuccessful updating '' @ quoted entityID @ '' in the ''
                       @ quoted collectionName @ '' collection, Error: '' @ Error e))), s1))
      else
        (case err_Error err of
           Panicked \<Rightarrow> (Panicked, s)
         | Returned m \<Rightarrow>
             (Returned (Some (ErrorString
                (''Exceed retries number for updating '' @ quoted entityID @ '' in the ''
                  @ quoted collectionName @ '' collection, Error: '' @ m))), s)))"
  by pat_completeness auto
termination
  by (relation "measure (\<lambda>(x, c, d, e, n, i, cl, err, s). nat (n - i))") auto

definition editEntityInFirestore ::
    "externals \<Rightarrow> Client \<Rightarrow> string \<Rightarrow> string \<Rightarrow> entity \<Rightarrow> state \<Rightarrow> error option outcome \<times> state" where
  "editEntityInFirestore x fireclient collectionName entityID entity s =
     (case readRetriesNumber x s of
        ((firestoreRetriesNumber, err), s0) \<Rightarrow>
          if entityID = [] then
            (Returned (Some (ErrorString ''Entity ID is required field for edit'')), s0)
          else if \<not> firestoreCollectionExists collectionName then
            (Returned (Some (ErrorString
               (''Document name '' @ quoted collectionName @ '' does not exist''))), s0)
          else editEntityLoop x collectionName entityID entity firestoreRetriesNumber 0
                 fireclient err s0)"

subsection \<open>deleteEntityFromFirestore\<close>

function deleteEntityLoop ::
    "externals \<Rightarrow> string \<Rightarrow> string \<Rightarrow> int \<Rightarrow> int \<Rightarrow> Client \<Rightarrow> error option \<Rightarrow> state
      \<Rightarrow> (WriteResult \<times> error option) outcome \<times> state" where
  "deleteEntityLoop x collectionName entityID firestoreRetriesNumber i fireclient err s =
     (if i < firestoreRetriesNumber then
        (let k = backendCalls s; s1 = s\<lparr>backendCalls := k + 1\<rparr>
         in case Doc_Delete x k fireclient collectionName entityID of
              (result, Some e) \<Rightarrow>
                if Error e = ClosingTransportError then
                  (case getFirestoreAppAndClientWithContext x s1 of
                     ((fireapp, fireclient', Some e'), s2) \<Rightarrow>
                       (Returned (result, Some (ErrorString
                          (''Error updating fireclient ('' @ format_int (firestoreRetriesNumber - i)
                            @ '' - retries left): '' @ Error e'))), s2)
                   | ((fireapp, fireclient', None), s2) \<Rightarrow>
                       deleteEntityLoop x collectionName entityID firestoreRetriesNumber (i + 1)
                         fireclient' None s2)
                else
                  (Returned (None, Some (ErrorString
                     (''Unsuccessful deletion '' @ entityID @ '' from '' @ collectionName
                       @ '' collection, Error: '' @ Error e))), s1)
            | (result, None) \<Rightarrow> (Returned (result, None), s1))
      else
        (case err_Error err of
           Panicked \<Rightarrow> (Panicked, s)
         | Returned m \<Rightarrow>
             (Returned (None, Some (ErrorString
                (''Exceed retries number for deletion '' @ entityID @ '' from '' @ collectionName
                  @ '' collection, Error: '' @ m))), s)))"
  by pat_completeness auto
termination
  by (relation "measure (\<lambda>(x, c, e, n, i, cl, err, s). nat (n - i))") auto

definition deleteEntityFromFirestore ::
    "externals \<Rightarrow> Client \<Rightarrow> string \<Rightarrow> string \<Rightarrow> state
      \<Rightarrow> (WriteResult \<times> error option) outcome \<times> state" where
  "deleteEntityFromFirestore x fireclient collectionName entityID s =
     (case readRetriesNumber x s of
        ((firestoreRetriesNumber, err), s0) \<Rightarrow>
          if entityID = [] then
            (Returned (None, Some (ErrorString ''Entity ID is required field for deletion'')), s0)
          else if \<not> firestoreCollectionExists collectionName then
            (Returned (None, Some (ErrorString ''Document name does not exist'')), s0)
          else deleteEntityLoop x collectionName entityID firestoreRetriesNumber 0 fireclient err s0)"

subsection \<open>firebaseDocumentIteratorWithRetry\<close>

text \<open>
  Inside the loop \<^verbatim>\<open>doc, err := iter.Next()\<close> declares a new \<^verbatim>\<open>err\<close>; the \<^verbatim>\<open>err\<close> read after
  the loop is the one \<^verbatim>\<open>strconv.Atoi\<close> assigned, which the loop never changes.
\<close>

function documentIteratorLoop ::
    "externals \<Rightarrow> DocumentIterator \<Rightarrow> int \<Rightarrow> int \<Rightarrow> error option \<Rightarrow> state
      \<Rightarrow> (DocumentSnapshot \<times> error option) outcome \<times> state" where
  "documentIteratorLoop x iter firestoreRetriesNumber i err s =
     (if i < firestoreRetriesNumber then
        (let k = backendCalls s; s1 = s\<lparr>backendCalls := k + 1\<rparr>
         in case Iter_Next x k iter of
              (doc, None) \<Rightarrow> (Returned (doc, None), s1)
            | (doc, Some e) \<Rightarrow>
                if Error e = ClosingTransportError then
                  documentIteratorLoop x iter firestoreRetriesNumber (i + 1) err s1
                else if e = IteratorDone then (Returned (None, Some e), s1)
                else
                  (Returned (None, Some (ErrorString
                     (''Unsuccessful document iteration, Error: '' @ Error e))), s1))
      else
        (case err_Error err of
           Panicked \<Rightarrow> (Panicked, s)
         | Returned m \<Rightarrow>
             (Returned (None, Some (ErrorString
                (''Unsuccessful document iteration, Error: '' @ m))), s)))"
  by pat_completeness auto
termination
  by (relation "measure (\<lambda>(x, it, n, i, err, s). nat (n - i))") auto

definition firebaseDocumentIteratorWithRetry ::
    "externals \<Rightarrow> DocumentIterator \<Rightarrow> state \<Rightarrow> (DocumentSnapshot \<times> error option) outcome \<times> state" where
  "firebaseDocumentIteratorWithRetry x iter s =
     (case readRetriesNumber x s of
        ((firestoreRetriesNumber, err), s0) \<Rightarrow>
          documentIteratorLoop x iter firestoreRetriesNumber 0 err s0)"

subsection \<open>Concrete externals for evaluation\<close>

text \<open>
  \<^verbatim>\<open>strconv.Atoi\<close> on a decimal numeral with an optional sign, within the range of a 64-bit
  \<^verbatim>\<open>int\<close>; every other text is a syntax error. The error text is the library's for an input
  that \<^verbatim>\<open>strconv.Quote\<close> only wraps in double quotes.
\<close>

fun digitsValue :: "string \<Rightarrow> int \<Rightarrow> int option" where
  "digitsValue [] acc = Some acc"
| "digitsValue (c # cs) acc =
     (if c \<in> set ''0123456789'' then digitsValue cs (10 * acc + (of_char c - 48)) else None)"

definition atoiError :: "string \<Rightarrow> string \<Rightarrow> error" where
  "atoiError s why = ErrorString (''strconv.Atoi: parsing '' @ CHR 0x22 # s @ CHR 0x22 # '': '' @ why)"

definition decimalAtoi :: "string \<Rightarrow> int \<times> error option" where
  "decimalAtoi s =
     (let neg = (case s of [] \<Rightarrow> False | c # cs \<Rightarrow> c = CHR ''-'');
          body = (case s of [] \<Rightarrow> [] | c # cs \<Rightarrow> if c = CHR ''-'' \<or> c = CHR ''+'' then cs else s)
      in if body = [] then (0, Some (atoiError s ''invalid syntax''))
         else case digitsValue body 0 of
                None \<Rightarrow> (0, Some (atoiError s ''invalid syntax''))
              | Some v \<Rightarrow>
                  if neg \<and> 9223372036854775808 < v
                  then (- 9223372036854775808, Some (atoiError s ''value out of range''))
                  else if \<not> neg \<and> 9223372036854775807 < v
                  then (9223372036854775807, Some (atoiError s ''value out of range''))
                  else (if neg then - v else v, None))"

text \<open>
  A scripted backend: the environment variable has the value \<open>envValue\<close> (the empty text
  when it is unset, as \<^verbatim>\<open>os.Getenv\<close> returns it), the \<open>k\<close>-th backend invocation fails with
  \<open>backendErr k\<close> or succeeds with the handle \<open>k\<close>, and the \<open>k\<close>-th connection refresh fails
  with \<open>refreshErr k\<close> in \<^verbatim>\<open>firebase.NewApp\<close> or succeeds.
\<close>

definition scripted ::
    "string \<Rightarrow> (nat \<Rightarrow> error option) \<Rightarrow> (nat \<Rightarrow> error option) \<Rightarrow> externals" where
  "scripted envValue backendErr refreshErr =
     \<lparr>os_Getenv = (\<lambda>name. if name = ''FIRESTORE_RETRIES_NUMBER'' then envValue else []),
      strconv_Atoi = decimalAtoi,
      firebase_NewApp = (\<lambda>k. case refreshErr k of None \<Rightarrow> (Some k, None) | Some e \<Rightarrow> (None, Some e)),
      App_Firestore = (\<lambda>k fireapp. (Some (Suc k), None)),
      Collection_Add = (\<lambda>k cl c ent. case backendErr k of None \<Rightarrow> (Some k, None) | Some e \<Rightarrow> (None, Some e)),
      Doc_Get = (\<lambda>k cl c d. case backendErr k of None \<Rightarrow> (Some k, None) | Some e \<Rightarrow> (None, Some e)),
      Doc_Set = (\<lambda>k cl c d ent. backendErr k),
      Doc_Delete = (\<lambda>k cl c d. case backendErr k of None \<Rightarrow> (Some k, None) | Some e \<Rightarrow> (None, Some e)),
      Iter_Next = (\<lambda>k it. case backendErr k of None \<Rightarrow> (Some k, None) | Some e \<Rightarrow> (None, Some e))\<rparr>"

definition alwaysClosing :: "nat \<Rightarrow> error option" where
  "alwaysClosing k = Some (ErrorString ClosingTransportError)"

definition closingUntil :: "nat \<Rightarrow> nat \<Rightarrow> error option" where
  "closingUntil m k = (if k < m then Some (ErrorString ClosingTransportError) else None)"

definition neverFails :: "nat \<Rightarrow> error option" where
  "neverFails k = None"

text \<open>
  \<open>extends s s'\<close>: the state \<open>s'\<close> is reached from \<open>s\<close> by further invocations and log lines.
\<close>

definition extends :: "state \<Rightarrow> state \<Rightarrow> bool" where
  "extends s s' =
     (backendCalls s \<le> backendCalls s' \<and> refreshCalls s \<le> refreshCalls s'
      \<and> prefix (logLines s) (logLines s'))"

text \<open>The log entry written when the retry count cannot be read from the environment.\<close>

definition retriesNumberMissingLine :: logEntry where
  "retriesNumberMissingLine =
     \<lparr>logType = LogTypeInfo, errorCode = 0,
      errorMessage = ''FIRESTORE_RETRIES_NUMBER is missing, was set to: 1'', userId = []\<rparr>"

text \<open>
  The \<open>k\<close>-th connection refresh succeeds: neither \<^verbatim>\<open>firebase.NewApp\<close> nor
  \<^verbatim>\<open>fireapp.Firestore\<close> returns an error.
\<close>

definition refreshSucceeds :: "externals \<Rightarrow> nat \<Rightarrow> bool" where
  "refreshSucceeds x k =
     (snd (firebase_NewApp x k) = None
      \<and> snd (App_Firestore x k (fst (firebase_NewApp x k))) = None)"

text \<open>
  A \<^verbatim>\<open>firestore.DocumentIterator\<close> keeps the first error it meets: once \<^verbatim>\<open>Next\<close> has
  returned an error, every later call returns that error.
\<close>

definition repeatsFirstError :: "externals \<Rightarrow> DocumentIterator \<Rightarrow> bool" where
  "repeatsFirstError x it =
     (\<forall>k j r e. Iter_Next x k it = (r, Some e) \<and> k \<le> j \<longrightarrow> snd (Iter_Next x j it) = Some e)"

text \<open>A backend script: \<open>m\<close> transport-is-closing failures, then the error \<open>e\<close> for good.\<close>

definition closingThen :: "nat \<Rightarrow> error \<Rightarrow> nat \<Rightarrow> error option" where
  "closingThen m e k = (if k < m then Some (ErrorString ClosingTransportError) else Some e)"

section \<open>Properties\<close>

subsection \<open>The loops, one iteration at a time\<close>

declare addEntityLoop.simps [simp del]
declare getEntityLoop.simps [simp del]
declare editEntityLoop.simps [simp del]
declare deleteEntityLoop.simps [simp del]
declare documentIteratorLoop.simps [simp del]

lemma extends_refl [simp]: "extends s s"
  by (simp add: extends_def)

lemma extends_trans: "extends s t \<Longrightarrow> extends t u \<Longrightarrow> extends s u"
  by (auto simp: extends_def)

lemma LogWrite_counts [simp]:
  "backendCalls (LogWrite lt code msg uid s) = backendCalls s"
  "refreshCalls (LogWrite lt code msg uid s) = refreshCalls s"
  "logLines (LogWrite lt code msg uid s) =
     logLines s @ [\<lparr>logType = lt, errorCode = code, errorMessage = msg, userId = uid\<rparr>]"
  by (simp_all add: LogWrite_def)

lemma refresh_ok:
  assumes "firebase_NewApp x (refreshCalls s) = (a, None)"
    and "App_Firestore x (refreshCalls s) a = (cl, None)"
  shows "getFirestoreAppAndClientWithContext x s =
         ((a, cl, None), s\<lparr>refreshCalls := Suc (refreshCalls s)\<rparr>)"
  using assms by (simp add: getFirestoreAppAndClientWithContext_def)

lemma refresh_disj:
  "(\<exists>e. getFirestoreAppAndClientWithContext x s =
          ((None, None, Some e), s\<lparr>refreshCalls := Suc (refreshCalls s)\<rparr>))
   \<or> (\<exists>a cl. getFirestoreAppAndClientWithContext x s =
          ((a, cl, None), s\<lparr>refreshCalls := Suc (refreshCalls s)\<rparr>))"
  by (simp add: getFirestoreAppAndClientWithContext_def Let_def split: prod.splits option.splits)

lemma readRetries_parsed:
  assumes "strconv_Atoi x (os_Getenv x ''FIRESTORE_RETRIES_NUMBER'') = (n, None)"
  shows "readRetriesNumber x s = ((n, None), s)"
  using assms by (simp add: readRetriesNumber_def)

lemma format_int_1: "format_int 1 = ''1''"
  by (simp add: format_int_def)

lemma readRetries_failed:
  assumes "strconv_Atoi x (os_Getenv x ''FIRESTORE_RETRIES_NUMBER'') = (n, Some e)"
  shows "readRetriesNumber x s =
         ((1, Some e),
          LogWrite LogTypeInfo 0 ''FIRESTORE_RETRIES_NUMBER is missing, was set to: 1'' [] s)"
  using assms by (simp add: readRetriesNumber_def format_int_1)

lemma readRetries_counts:
  "backendCalls (snd (readRetriesNumber x s)) = backendCalls s"
  "refreshCalls (snd (readRetriesNumber x s)) = refreshCalls s"
  by (simp_all add: readRetriesNumber_def split: prod.splits option.splits)


text \<open>addEntityLoop\<close>

lemma addEntityLoop_exit:
  assumes "\<not> i < n"
  shows "addEntityLoop x c ent n i cl err s =
         (case err_Error err of Panicked \<Rightarrow> (Panicked, s)
          | Returned m \<Rightarrow> (Returned (None, Some (ErrorString
              (''Exceed retries number for adding data to the '' @ quoted c
                @ '' collection, Error: '' @ m))), s))"
  using assms by (subst addEntityLoop.simps) simp

lemma addEntityLoop_success:
  assumes "i < n" and "Collection_Add x (backendCalls s) cl c ent = (r, None)"
  shows "addEntityLoop x c ent n i cl err s =
         (Returned (r, None), s\<lparr>backendCalls := Suc (backendCalls s)\<rparr>)"
  using assms by (subst addEntityLoop.simps) simp

lemma addEntityLoop_fatal:
  assumes "i < n" and "Collection_Add x (backendCalls s) cl c ent = (r, Some e)"
    and "Error e \<noteq> ClosingTransportError"
  shows "addEntityLoop x c ent n i cl err s =
         (Returned (None, Some (ErrorString
            (''Unsuccessful adding data to the '' @ quoted c @ '' collection, Error: '' @ Error e))),
          s\<lparr>backendCalls := Suc (backendCalls s)\<rparr>)"
  using assms by (subst addEntityLoop.simps) simp

lemma addEntityLoop_retry:
  assumes "i < n" and "Collection_Add x (backendCalls s) cl c ent = (r, Some e)"
    and "Error e = ClosingTransportError"
    and "firebase_NewApp x (refreshCalls s) = (a, None)"
    and "App_Firestore x (refreshCalls s) a = (cl', None)"
  shows "\<exists>s'. addEntityLoop x c ent n i cl err s = addEntityLoop x c ent n (i + 1) cl' None s'
           \<and> backendCalls s' = Suc (backendCalls s) \<and> refreshCalls s' = Suc (refreshCalls s)
           \<and> extends s s'"
proof -
  let ?s1 = "s\<lparr>backendCalls := Suc (backendCalls s)\<rparr>"
  let ?sr = "?s1"
  let ?s2 = "?sr\<lparr>refreshCalls := Suc (refreshCalls s)\<rparr>"
  have "getFirestoreAppAndClientWithContext x ?sr = ((a, cl', None), ?s2)"
    using assms(4,5) by (simp add: getFirestoreAppAndClientWithContext_def)
  with assms(1,2,3) have "addEntityLoop x c ent n i cl err s = addEntityLoop x c ent n (i + 1) cl' None ?s2"
    by (subst addEntityLoop.simps) simp
  moreover have "backendCalls ?s2 = Suc (backendCalls s)" "refreshCalls ?s2 = Suc (refreshCalls s)"
    "extends s ?s2" by (simp_all add: extends_def)
  ultimately show ?thesis by blast
qed

lemma addEntityLoop_step:
  assumes "i < n"
  shows "(\<exists>r s'. addEntityLoop x c ent n i cl err s = (r, s')
            \<and> backendCalls s' = Suc (backendCalls s) \<and> extends s s')
       \<or> (\<exists>cl' s'. addEntityLoop x c ent n i cl err s = addEntityLoop x c ent n (i + 1) cl' None s'
            \<and> backendCalls s' = Suc (backendCalls s) \<and> extends s s')"
proof (cases "Collection_Add x (backendCalls s) cl c ent")
  case (Pair r eo)
  let ?s1 = "s\<lparr>backendCalls := Suc (backendCalls s)\<rparr>"
  have e1: "extends s ?s1" by (simp add: extends_def)
  show ?thesis
  proof (cases eo)
    case None
    with Pair assms e1 show ?thesis by (simp add: addEntityLoop_success)
  next
    case (Some e)
    show ?thesis
    proof (cases "Error e = ClosingTransportError")
      case False
      with Pair Some assms e1 show ?thesis by (simp add: addEntityLoop_fatal)
    next
      case True
      let ?sr = "?s1"
      let ?s2 = "?sr\<lparr>refreshCalls := Suc (refreshCalls s)\<rparr>"
      have e2: "extends s ?s2" "backendCalls ?s2 = Suc (backendCalls s)"
        by (simp_all add: extends_def)
      from refresh_disj[of x ?sr] show ?thesis
      proof (elim disjE exE)
        fix e' assume "getFirestoreAppAndClientWithContext x ?sr =
          ((None, None, Some e'), ?sr\<lparr>refreshCalls := Suc (refreshCalls ?sr)\<rparr>)"
        with Pair Some True assms have "snd (addEntityLoop x c ent n i cl err s) = ?s2"
          by (subst addEntityLoop.simps) simp
        with e2 show ?thesis by (intro disjI1) (auto simp: prod_eq_iff)
      next
        fix a cl' assume "getFirestoreAppAndClientWithContext x ?sr =
          ((a, cl', None), ?sr\<lparr>refreshCalls := Suc (refreshCalls ?sr)\<rparr>)"
        with Pair Some True assms have
          "addEntityLoop x c ent n i cl err s = addEntityLoop x c ent n (i + 1) cl' None ?s2"
          by (subst addEntityLoop.simps) simp
        with e2 show ?thesis by (intro disjI2 exI[of _ cl'] exI[of _ ?s2]) simp
      qed
    qed
  qed
qed

lemma addEntityLoop_extends:
  "extends s (snd (addEntityLoop x c ent n i cl err s))"
proof (induction "nat (n - i)" arbitrary: i cl err s)
  case 0
  then have "\<not> i < n" by simp
  then show ?case by (simp add: addEntityLoop_exit split: outcome.splits)
next
  case (Suc k)
  then have lt: "i < n" by simp
  from addEntityLoop_step[OF lt, of x c ent cl err s] show ?case
  proof (elim disjE exE conjE)
    fix r s' assume "addEntityLoop x c ent n i cl err s = (r, s')" "extends s s'"
    then show ?thesis by simp
  next
    fix cl' s'
    assume eq: "addEntityLoop x c ent n i cl err s = addEntityLoop x c ent n (i + 1) cl' None s'"
      and ex: "extends s s'"
    have "k = nat (n - (i + 1))" using Suc.hyps(2) by simp
    from Suc.hyps(1)[OF this, of s' cl' None] ex eq show ?thesis
      by (auto intro: extends_trans)
  qed
qed

lemma addEntityLoop_invokes:
  assumes "i < n"
  shows "Suc (backendCalls s) \<le> backendCalls (snd (addEntityLoop x c ent n i cl err s))"
  using addEntityLoop_step[OF assms, of x c ent cl err s]
proof (elim disjE exE conjE)
  fix r s' assume "addEntityLoop x c ent n i cl err s = (r, s')" "backendCalls s' = Suc (backendCalls s)"
  then show ?thesis by simp
next
  fix cl' s'
  assume eq: "addEntityLoop x c ent n i cl err s = addEntityLoop x c ent n (i + 1) cl' None s'"
    and b: "backendCalls s' = Suc (backendCalls s)"
  from addEntityLoop_extends[of s' x c ent n "i + 1" cl' None] eq b show ?thesis
    by (simp add: extends_def)
qed

lemma addEntityLoop_run:
  assumes "\<And>j cl. j < m \<Longrightarrow>
             \<exists>r e. Collection_Add x (backendCalls s + j) cl c ent = (r, Some e)
                 \<and> (Error e = ClosingTransportError)"
    and "\<And>j. j < m \<Longrightarrow>
             \<exists>a cl. firebase_NewApp x (refreshCalls s + j) = (a, None)
                 \<and> App_Firestore x (refreshCalls s + j) a = (cl, None)"
    and "i + int m \<le> n"
  shows "\<exists>cl' err' s'. addEntityLoop x c ent n i cl err s = addEntityLoop x c ent n (i + int m) cl' err' s'
          \<and> (0 < m \<longrightarrow> err' = None)
          \<and> backendCalls s' = backendCalls s + m \<and> refreshCalls s' = refreshCalls s + m"
  using assms
proof (induction m arbitrary: i cl err s)
  case 0
  then show ?case by auto
next
  case (Suc m)
  from Suc.prems(1)[of 0 cl] obtain r e where
    bk: "Collection_Add x (backendCalls s) cl c ent = (r, Some e)"
        "Error e = ClosingTransportError"
    by auto
  from Suc.prems(2)[of 0] obtain a cl1 where
    rf: "firebase_NewApp x (refreshCalls s) = (a, None)"
        "App_Firestore x (refreshCalls s) a = (cl1, None)"
    by auto
  have lt: "i < n" using Suc.prems(3) by simp
  from addEntityLoop_retry[OF lt bk rf, of err] obtain s1 where
    step: "addEntityLoop x c ent n i cl err s = addEntityLoop x c ent n (i + 1) cl1 None s1"
      and c1: "backendCalls s1 = Suc (backendCalls s)" "refreshCalls s1 = Suc (refreshCalls s)"
    by blast
  have "\<exists>cl' err' s'. addEntityLoop x c ent n (i + 1) cl1 None s1 = addEntityLoop x c ent n (i + 1 + int m) cl' err' s'
          \<and> (0 < m \<longrightarrow> err' = None)
          \<and> backendCalls s' = backendCalls s1 + m \<and> refreshCalls s' = refreshCalls s1 + m"
  proof (rule Suc.IH)
    fix j cl assume "j < m"
    then show "\<exists>r e. Collection_Add x (backendCalls s1 + j) cl c ent = (r, Some e)
                 \<and> (Error e = ClosingTransportError)"
      using Suc.prems(1)[of "Suc j" cl] c1 by simp
  next
    fix j assume "j < m"
    then show "\<exists>a cl. firebase_NewApp x (refreshCalls s1 + j) = (a, None)
                 \<and> App_Firestore x (refreshCalls s1 + j) a = (cl, None)"
      using Suc.prems(2)[of "Suc j"] c1 by simp
  next
    show "i + 1 + int m \<le> n" using Suc.prems(3) by simp
  qed
  then obtain cl' err' s' where
    r: "addEntityLoop x c ent n (i + 1) cl1 None s1 = addEntityLoop x c ent n (i + 1 + int m) cl' err' s'"
       "0 < m \<longrightarrow> err' = None"
       "backendCalls s' = backendCalls s1 + m" "refreshCalls s' = refreshCalls s1 + m"
    by blast
  have e: "i + 1 + int m = i + int (Suc m)" by simp
  show ?case
  proof (cases "m = 0")
    case True
    with step have "addEntityLoop x c ent n i cl err s = addEntityLoop x c ent n (i + int (Suc m)) cl1 None s1"
      by simp
    moreover have "backendCalls s1 = backendCalls s + Suc m" "refreshCalls s1 = refreshCalls s + Suc m"
      using c1 True by simp_all
    ultimately show ?thesis by blast
  next
    case False
    have "addEntityLoop x c ent n i cl err s = addEntityLoop x c ent n (i + int (Suc m)) cl' err' s'"
      using step r(1) unfolding e by simp
    moreover have "err' = None" using r(2) False by simp
    moreover have "backendCalls s' = backendCalls s + Suc m" "refreshCalls s' = refreshCalls s + Suc m"
      using r(3,4) c1 by simp_all
    ultimately show ?thesis by blast
  qed
qed

lemma addEntityLoop_refreshes:
  assumes "i < n" and "Collection_Add x (backendCalls s) cl c ent = (r, Some e)"
    and "Error e = ClosingTransportError"
  shows "Suc (refreshCalls s) \<le> refreshCalls (snd (addEntityLoop x c ent n i cl err s))"
proof -
  let ?s1 = "s\<lparr>backendCalls := Suc (backendCalls s)\<rparr>"
  let ?sr = "?s1"
  let ?s2 = "?sr\<lparr>refreshCalls := Suc (refreshCalls s)\<rparr>"
  from refresh_disj[of x ?sr] show ?thesis
  proof (elim disjE exE)
    fix e' assume "getFirestoreAppAndClientWithContext x ?sr =
      ((None, None, Some e'), ?sr\<lparr>refreshCalls := Suc (refreshCalls ?sr)\<rparr>)"
    with assms have "snd (addEntityLoop x c ent n i cl err s) = ?s2"
      by (subst addEntityLoop.simps) simp
    then show ?thesis by simp
  next
    fix a cl' assume "getFirestoreAppAndClientWithContext x ?sr =
      ((a, cl', None), ?sr\<lparr>refreshCalls := Suc (refreshCalls ?sr)\<rparr>)"
    with assms have "addEntityLoop x c ent n i cl err s = addEntityLoop x c ent n (i + 1) cl' None ?s2"
      by (subst addEntityLoop.simps) simp
    with addEntityLoop_extends[of ?s2 x c ent n "i + 1" cl' None] show ?thesis
      by (simp add: extends_def)
  qed
qed

text \<open>Attempt number \<open>k\<close> of a call, after \<open>k\<close> attempts that were retried.\<close>

lemma addEntityLoop_attempt:
  assumes fail: "\<And>j cl. j < k \<Longrightarrow>
             \<exists>r e. Collection_Add x (backendCalls s + j) cl c ent = (r, Some e)
                 \<and> (Error e = ClosingTransportError)"
    and rf: "\<And>j. j < k \<Longrightarrow>
             \<exists>a cl. firebase_NewApp x (refreshCalls s + j) = (a, None)
                 \<and> App_Firestore x (refreshCalls s + j) a = (cl, None)"
    and lt: "i + int k < n"
    and at: "\<And>cl. \<exists>r. Collection_Add x (backendCalls s + k) cl c ent = (r, Some e)"
  shows "((Error e = ClosingTransportError) \<longrightarrow>
            Suc (refreshCalls s + k) \<le> refreshCalls (snd (addEntityLoop x c ent n i cl err s))
            \<and> ((\<exists>a cl. firebase_NewApp x (refreshCalls s + k) = (a, None)
                   \<and> App_Firestore x (refreshCalls s + k) a = (cl, None)) \<and> i + int k + 1 < n \<longrightarrow>
                 Suc (Suc (backendCalls s + k)) \<le> backendCalls (snd (addEntityLoop x c ent n i cl err s))))
       \<and> (Error e \<noteq> ClosingTransportError \<longrightarrow>
            fst (addEntityLoop x c ent n i cl err s) =
              Returned (None, Some (ErrorString
            (''Unsuccessful adding data to the '' @ quoted c @ '' collection, Error: '' @ Error e)))
            \<and> backendCalls (snd (addEntityLoop x c ent n i cl err s)) = Suc (backendCalls s + k)
            \<and> refreshCalls (snd (addEntityLoop x c ent n i cl err s)) = refreshCalls s + k)"
proof -
  have le: "i + int k \<le> n" using lt by simp
  from addEntityLoop_run[OF fail rf le, where cl = cl and err = err] obtain cl' err' s' where
    run: "addEntityLoop x c ent n i cl err s = addEntityLoop x c ent n (i + int k) cl' err' s'"
    and cnt: "backendCalls s' = backendCalls s + k" "refreshCalls s' = refreshCalls s + k"
    by blast
  from at[of cl'] cnt obtain r where
    bk: "Collection_Add x (backendCalls s') cl' c ent = (r, Some e)"
    by auto
  let ?G = "addEntityLoop x c ent n (i + int k) cl' err' s'"
  have c: "Suc (refreshCalls s') \<le> refreshCalls (snd ?G)"
    if "Error e = ClosingTransportError"
    by (rule addEntityLoop_refreshes[OF lt bk that])
  have b: "Suc (Suc (backendCalls s')) \<le> backendCalls (snd ?G)"
    if cd: "Error e = ClosingTransportError"
      and ex: "\<exists>a cl. firebase_NewApp x (refreshCalls s') = (a, None)
                   \<and> App_Firestore x (refreshCalls s') a = (cl, None)"
      and lt2: "i + int k + 1 < n"
  proof -
    from ex obtain a cl2 where
      rf2: "firebase_NewApp x (refreshCalls s') = (a, None)"
           "App_Firestore x (refreshCalls s') a = (cl2, None)"
      by blast
    from addEntityLoop_retry[OF lt bk cd rf2, where err = err'] obtain s2 where
      st: "?G = addEntityLoop x c ent n (i + int k + 1) cl2 None s2"
      and b2: "backendCalls s2 = Suc (backendCalls s')"
      by blast
    from addEntityLoop_invokes[OF lt2, where s = s2 and x = x and c = c and ent = ent and cl = cl2 and err = None] st b2
    show ?thesis by simp
  qed
  have f: "?G = (Returned (None, Some (ErrorString
            (''Unsuccessful adding data to the '' @ quoted c @ '' collection, Error: '' @ Error e))),
          s'\<lparr>backendCalls := Suc (backendCalls s')\<rparr>)"
    if "Error e \<noteq> ClosingTransportError"
    by (rule addEntityLoop_fatal[OF lt bk that])
  show ?thesis
    unfolding run using c b f cnt by auto
qed

text \<open>getEntityLoop\<close>

lemma getEntityLoop_exit:
  assumes "\<not> i < n"
  shows "getEntityLoop x c d n i cl err s =
         (case err_Error err of Panicked \<Rightarrow> (Panicked, s)
          | Returned m \<Rightarrow> (Returned (None, Some (ErrorString
              (''Exceed retries number for getting data from the '' @ quoted c
                @ '' collection, Error: '' @ m))), s))"
  using assms by (subst getEntityLoop.simps) simp

lemma getEntityLoop_success:
  assumes "i < n" and "Doc_Get x (backendCalls s) cl c d = (r, None)"
  shows "getEntityLoop x c d n i cl err s =
         (Returned (r, None), s\<lparr>backendCalls := Suc (backendCalls s)\<rparr>)"
  using assms by (subst getEntityLoop.simps) simp

lemma getEntityLoop_fatal:
  assumes "i < n" and "Doc_Get x (backendCalls s) cl c d = (r, Some e)"
    and "\<not> (Error e = ClosingTransportError
          \<or> strings_Contains (Error e) ''The service is temporarily unavailable'')"
  shows "getEntityLoop x c d n i cl err s =
         (Returned (None, Some (ErrorString
            (''unsuccessful getting data from the '' @ quoted c @ '' collection, Error: '' @ Error e))),
          s\<lparr>backendCalls := Suc (backendCalls s)\<rparr>)"
  using assms by (subst getEntityLoop.simps) simp

lemma getEntityLoop_retry:
  assumes "i < n" and "Doc_Get x (backendCalls s) cl c d = (r, Some e)"
    and "Error e = ClosingTransportError
          \<or> strings_Contains (Error e) ''The service is temporarily unavailable''"
    and "firebase_NewApp x (refreshCalls s) = (a, None)"
    and "App_Firestore x (refreshCalls s) a = (cl', None)"
  shows "\<exists>s'. getEntityLoop x c d n i cl err s = getEntityLoop x c d n (i + 1) cl' None s'
           \<and> backendCalls s' = Suc (backendCalls s) \<and> refreshCalls s' = Suc (refreshCalls s)
           \<and> extends s s'"
proof -
  let ?s1 = "s\<lparr>backendCalls := Suc (backendCalls s)\<rparr>"
  let ?sr = "(LogWrite LogTypeInfo 0 (''failed to get data from the '' @ quoted c
          @ '' collection, Error: '' @ Error e @ ''. Will do retry!'') [] ?s1)"
  let ?s2 = "?sr\<lparr>refreshCalls := Suc (refreshCalls s)\<rparr>"
  have "getFirestoreAppAndClientWithContext x ?sr = ((a, cl', None), ?s2)"
    using assms(4,5) by (simp add: getFirestoreAppAndClientWithContext_def)
  with assms(1,2,3) have "getEntityLoop x c d n i cl err s = getEntityLoop x c d n (i + 1) cl' None ?s2"
    by (subst getEntityLoop.simps) simp
  moreover have "backendCalls ?s2 = Suc (backendCalls s)" "refreshCalls ?s2 = Suc (refreshCalls s)"
    "extends s ?s2" by (simp_all add: extends_def)
  ultimately show ?thesis by blast
qed

lemma getEntityLoop_step:
  assumes "i < n"
  shows "(\<exists>r s'. getEntityLoop x c d n i cl err s = (r, s')
            \<and> backendCalls s' = Suc (backendCalls s) \<and> extends s s')
       \<or> (\<exists>cl' s'. getEntityLoop x c d n i cl err s = getEntityLoop x c d n (i + 1) cl' None s'
            \<and> backendCalls s' = Suc (backendCalls s) \<and> extends s s')"
proof (cases "Doc_Get x (backendCalls s) cl c d")
  case (Pair r eo)
  let ?s1 = "s\<lparr>backendCalls := Suc (backendCalls s)\<rparr>"
  have e1: "extends s ?s1" by (simp add: extends_def)
  show ?thesis
  proof (cases eo)
    case None
    with Pair assms e1 show ?thesis by (simp add: getEntityLoop_success)
  next
    case (Some e)
    show ?thesis
    proof (cases "Error e = ClosingTransportError
          \<or> strings_Contains (Error e) ''The service is temporarily unavailable''")
      case False
      with Pair Some assms e1 show ?thesis by (simp add: getEntityLoop_fatal)
    next
      case True
      let ?sr = "(LogWrite LogTypeInfo 0 (''failed to get data from the '' @ quoted c
          @ '' collection, Error: '' @ Error e @ ''. Will do retry!'') [] ?s1)"
      let ?s2 = "?sr\<lparr>refreshCalls := Suc (refreshCalls s)\<rparr>"
      have e2: "extends s ?s2" "backendCalls ?s2 = Suc (backendCalls s)"
        by (simp_all add: extends_def)
      from refresh_disj[of x ?sr] show ?thesis
      proof (elim disjE exE)
        fix e' assume "getFirestoreAppAndClientWithContext x ?sr =
          ((None, None, Some e'), ?sr\<lparr>refreshCalls := Suc (refreshCalls ?sr)\<rparr>)"
        with Pair Some True assms have "snd (getEntityLoop x c d n i cl err s) = ?s2"
          by (subst getEntityLoop.simps) simp
        with e2 show ?thesis by (intro disjI1) (auto simp: prod_eq_iff)
      next
        fix a cl' assume "getFirestoreAppAndClientWithContext x ?sr =
          ((a, cl', None), ?sr\<lparr>refreshCalls := Suc (refreshCalls ?sr)\<rparr>)"
        with Pair Some True assms have
          "getEntityLoop x c d n i cl err s = getEntityLoop x c d n (i + 1) cl' None ?s2"
          by (subst getEntityLoop.simps) simp
        with e2 show ?thesis by (intro disjI2 exI[of _ cl'] exI[of _ ?s2]) simp
      qed
    qed
  qed
qed

lemma getEntityLoop_extends:
  "extends s (snd (getEntityLoop x c d n i cl err s))"
proof (induction "nat (n - i)" arbitrary: i cl err s)
  case 0
  then have "\<not> i < n" by simp
  then show ?case by (simp add: getEntityLoop_exit split: outcome.splits)
next
  case (Suc k)
  then have lt: "i < n" by simp
  from getEntityLoop_step[OF lt, of x c d cl err s] show ?case
  proof (elim disjE exE conjE)
    fix r s' assume "getEntityLoop x c d n i cl err s = (r, s')" "extends s s'"
    then show ?thesis by simp
  next
    fix cl' s'
    assume eq: "getEntityLoop x c d n i cl err s = getEntityLoop x c d n (i + 1) cl' None s'"
      and ex: "extends s s'"
    have "k = nat (n - (i + 1))" using Suc.hyps(2) by simp
    from Suc.hyps(1)[OF this, of s' cl' None] ex eq show ?thesis
      by (auto intro: extends_trans)
  qed
qed

lemma getEntityLoop_invokes:
  assumes "i < n"
  shows "Suc (backendCalls s) \<le> backendCalls (snd (getEntityLoop x c d n i cl err s))"
  using getEntityLoop_step[OF assms, of x c d cl err s]
proof (elim disjE exE conjE)
  fix r s' assume "getEntityLoop x c d n i cl err s = (r, s')" "backendCalls s' = Suc (backendCalls s)"
  then show ?thesis by simp
next
  fix cl' s'
  assume eq: "getEntityLoop x c d n i cl err s = getEntityLoop x c d n (i + 1) cl' None s'"
    and b: "backendCalls s' = Suc (backendCalls s)"
  from getEntityLoop_extends[of s' x c d n "i + 1" cl' None] eq b show ?thesis
    by (simp add: extends_def)
qed

lemma getEntityLoop_run:
  assumes "\<And>j cl. j < m \<Longrightarrow>
             \<exists>r e. Doc_Get x (backendCalls s + j) cl c d = (r, Some e)
                 \<and> (Error e = ClosingTransportError
          \<or> strings_Contains (Error e) ''The service is temporarily unavailable'')"
    and "\<And>j. j < m \<Longrightarrow>
             \<exists>a cl. firebase_NewApp x (refreshCalls s + j) = (a, None)
                 \<and> App_Firestore x (refreshCalls s + j) a = (cl, None)"
    and "i + int m \<le> n"
  shows "\<exists>cl' err' s'. getEntityLoop x c d n i cl err s = getEntityLoop x c d n (i + int m) cl' err' s'
          \<and> (0 < m \<longrightarrow> err' = None)
          \<and> backendCalls s' = backendCalls s + m \<and> refreshCalls s' = refreshCalls s + m"
  using assms
proof (induction m arbitrary: i cl err s)
  case 0
  then show ?case by auto
next
  case (Suc m)
  from Suc.prems(1)[of 0 cl] obtain r e where
    bk: "Doc_Get x (backendCalls s) cl c d = (r, Some e)"
        "Error e = ClosingTransportError
          \<or> strings_Contains (Error e) ''The service is temporarily unavailable''"
    by auto
  from Suc.prems(2)[of 0] obtain a cl1 where
    rf: "firebase_NewApp x (refreshCalls s) = (a, None)"
        "App_Firestore x (refreshCalls s) a = (cl1, None)"
    by auto
  have lt: "i < n" using Suc.prems(3) by simp
  from getEntityLoop_retry[OF lt bk rf, of err] obtain s1 where
    step: "getEntityLoop x c d n i cl err s = getEntityLoop x c d n (i + 1) cl1 None s1"
      and c1: "backendCalls s1 = Suc (backendCalls s)" "refreshCalls s1 = Suc (refreshCalls s)"
    by blast
  have "\<exists>cl' err' s'. getEntityLoop x c d n (i + 1) cl1 None s1 = getEntityLoop x c d n (i + 1 + int m) cl' err' s'
          \<and> (0 < m \<longrightarrow> err' = None)
          \<and> backendCalls s' = backendCalls s1 + m \<and> refreshCalls s' = refreshCalls s1 + m"
  proof (rule Suc.IH)
    fix j cl assume "j < m"
    then show "\<exists>r e. Doc_Get x (backendCalls s1 + j) cl c d = (r, Some e)
                 \<and> (Error e = ClosingTransportError
          \<or> strings_Contains (Error e) ''The service is temporarily unavailable'')"
      using Suc.prems(1)[of "Suc j" cl] c1 by simp
  next
    fix j assume "j < m"
    then show "\<exists>a cl. firebase_NewApp x (refreshCalls s1 + j) = (a, None)
                 \<and> App_Firestore x (refreshCalls s1 + j) a = (cl, None)"
      using Suc.prems(2)[of "Suc j"] c1 by simp
  next
    show "i + 1 + int m \<le> n" using Suc.prems(3) by simp
  qed
  then obtain cl' err' s' where
    r: "getEntityLoop x c d n (i + 1) cl1 None s1 = getEntityLoop x c d n (i + 1 + int m) cl' err' s'"
       "0 < m \<longrightarrow> err' = None"
       "backendCalls s' = backendCalls s1 + m" "refreshCalls s' = refreshCalls s1 + m"
    by blast
  have e: "i + 1 + int m = i + int (Suc m)" by simp
  show ?case
  proof (cases "m = 0")
    case True
    with step have "getEntityLoop x c d n i cl err s = getEntityLoop x c d n (i + int (Suc m)) cl1 None s1"
      by simp
    moreover have "backendCalls s1 = backendCalls s + Suc m" "refreshCalls s1 = refreshCalls s + Suc m"
      using c1 True by simp_all
    ultimately show ?thesis by blast
  next
    case False
    have "getEntityLoop x c d n i cl err s = getEntityLoop x c d n (i + int (Suc m)) cl' err' s'"
      using step r(1) unfolding e by simp
    moreover have "err' = None" using r(2) False by simp
    moreover have "backendCalls s' = backendCalls s + Suc m" "refreshCalls s' = refreshCalls s + Suc m"
      using r(3,4) c1 by simp_all
    ultimately show ?thesis by blast
  qed
qed

lemma getEntityLoop_refreshes:
  assumes "i < n" and "Doc_Get x (backendCalls s) cl c d = (r, Some e)"
    and "Error e = ClosingTransportError
          \<or> strings_Contains (Error e) ''The service is temporarily unavailable''"
  shows "Suc (refreshCalls s) \<le> refreshCalls (snd (getEntityLoop x c d n i cl err s))"
proof -
  let ?s1 = "s\<lparr>backendCalls := Suc (backendCalls s)\<rparr>"
  let ?sr = "(LogWrite LogTypeInfo 0 (''failed to get data from the '' @ quoted c
          @ '' collection, Error: '' @ Error e @ ''. Will do retry!'') [] ?s1)"
  let ?s2 = "?sr\<lparr>refreshCalls := Suc (refreshCalls s)\<rparr>"
  from refresh_disj[of x ?sr] show ?thesis
  proof (elim disjE exE)
    fix e' assume "getFirestoreAppAndClientWithContext x ?sr =
      ((None, None, Some e'), ?sr\<lparr>refreshCalls := Suc (refreshCalls ?sr)\<rparr>)"
    with assms have "snd (getEntityLoop x c d n i cl err s) = ?s2"
      by (subst getEntityLoop.simps) simp
    then show ?thesis by simp
  next
    fix a cl' assume "getFirestoreAppAndClientWithContext x ?sr =
      ((a, cl', None), ?sr\<lparr>refreshCalls := Suc (refreshCalls ?sr)\<rparr>)"
    with assms have "getEntityLoop x c d n i cl err s = getEntityLoop x c d n (i + 1) cl' None ?s2"
      by (subst getEntityLoop.simps) simp
    with getEntityLoop_extends[of ?s2 x c d n "i + 1" cl' None] show ?thesis
      by (simp add: extends_def)
  qed
qed

text \<open>Attempt number \<open>k\<close> of a call, after \<open>k\<close> attempts that were retried.\<close>

lemma getEntityLoop_attempt:
  assumes fail: "\<And>j cl. j < k \<Longrightarrow>
             \<exists>r e. Doc_Get x (backendCalls s + j) cl c d = (r, Some e)
                 \<and> (Error e = ClosingTransportError
          \<or> strings_Contains (Error e) ''The service is temporarily unavailable'')"
    and rf: "\<And>j. j < k \<Longrightarrow>
             \<exists>a cl. firebase_NewApp x (refreshCalls s + j) = (a, None)
                 \<and> App_Firestore x (refreshCalls s + j) a = (cl, None)"
    and lt: "i + int k < n"
    and at: "\<And>cl. \<exists>r. Doc_Get x (backendCalls s + k) cl c d = (r, Some e)"
  shows "((Error e = ClosingTransportError
          \<or> strings_Contains (Error e) ''The service is temporarily unavailable'') \<longrightarrow>
            Suc (refreshCalls s + k) \<le> refreshCalls (snd (getEntityLoop x c d n i cl err s))
            \<and> ((\<exists>a cl. firebase_NewApp x (refreshCalls s + k) = (a, None)
                   \<and> App_Firestore x (refreshCalls s + k) a = (cl, None)) \<and> i + int k + 1 < n \<longrightarrow>
                 Suc (Suc (backendCalls s + k)) \<le> backendCalls (snd (getEntityLoop x c d n i cl err s))))
       \<and> (\<not> (Error e = ClosingTransportError
          \<or> strings_Contains (Error e) ''The service is temporarily unavailable'') \<longrightarrow>
            fst (getEntityLoop x c d n i cl err s) =
              Returned (None, Some (ErrorString
            (''unsuccessful getting data from the '' @ quoted c @ '' collection, Error: '' @ Error e)))
            \<and> backendCalls (snd (getEntityLoop x c d n i cl err s)) = Suc (backendCalls s + k)
            \<and> refreshCalls (snd (getEntityLoop x c d n i cl err s)) = refreshCalls s + k)"
proof -
  have le: "i + int k \<le> n" using lt by simp
  from getEntityLoop_run[OF fail rf le, where cl = cl and err = err] obtain cl' err' s' where
    run: "getEntityLoop x c d n i cl err s = getEntityLoop x c d n (i + int k) cl' err' s'"
    and cnt: "backendCalls s' = backendCalls s + k" "refreshCalls s' = refreshCalls s + k"
    by blast
  from at[of cl'] cnt obtain r where
    bk: "Doc_Get x (backendCalls s') cl' c d = (r, Some e)"
    by auto
  let ?G = "getEntityLoop x c d n (i + int k) cl' err' s'"
  have c: "Suc (refreshCalls s') \<le> refreshCalls (snd ?G)"
    if "Error e = ClosingTransportError
          \<or> strings_Contains (Error e) ''The service is temporarily unavailable''"
    by (rule getEntityLoop_refreshes[OF lt bk that])
  have b: "Suc (Suc (backendCalls s')) \<le> backendCalls (snd ?G)"
    if cd: "Error e = ClosingTransportError
          \<or> strings_Contains (Error e) ''The service is temporarily unavailable''"
      and ex: "\<exists>a cl. firebase_NewApp x (refreshCalls s') = (a, None)
                   \<and> App_Firestore x (refreshCalls s') a = (cl, None)"
      and lt2: "i + int k + 1 < n"
  proof -
    from ex obtain a cl2 where
      rf2: "firebase_NewApp x (refreshCalls s') = (a, None)"
           "App_Firestore x (refreshCalls s') a = (cl2, None)"
      by blast
    from getEntityLoop_retry[OF lt bk cd rf2, where err = err'] obtain s2 where
      st: "?G = getEntityLoop x c d n (i + int k + 1) cl2 None s2"
      and b2: "backendCalls s2 = Suc (backendCalls s')"
      by blast
    from getEntityLoop_invokes[OF lt2, where s = s2 and x = x and c = c and d = d and cl = cl2 and err = None] st b2
    show ?thesis by simp
  qed
  have f: "?G = (Returned (None, Some (ErrorString
            (''unsuccessful getting data from the '' @ quoted c @ '' collection, Error: '' @ Error e))),
          s'\<lparr>backendCalls := Suc (backendCalls s')\<rparr>)"
    if "\<not> (Error e = ClosingTransportError
          \<or> strings_Contains (Error e) ''The service is temporarily unavailable'')"
    by (rule getEntityLoop_fatal[OF lt bk that])
  show ?thesis
    unfolding run using c b f cnt by auto
qed

text \<open>editEntityLoop\<close>

lemma editEntityLoop_exit:
  assumes "\<not> i < n"
  shows "editEntityLoop x c d ent n i cl err s =
         (case err_Error err of Panicked \<Rightarrow> (Panicked, s)
          | Returned m \<Rightarrow> (Returned (Some (ErrorString
              (''Exceed retries number for updating '' @ quoted d @ '' in the ''
                @ quoted c @ '' collection, Error: '' @ m))), s))"
  using assms by (subst editEntityLoop.simps) simp

lemma editEntityLoop_success:
  assumes "i < n" and "Doc_Set x (backendCalls s) cl c d ent = None"
  shows "editEntityLoop x c d ent n i cl err s =
         (Returned None, s\<lparr>backendCalls := Suc (backendCalls s)\<rparr>)"
  using assms by (subst editEntityLoop.simps) simp

lemma editEntityLoop_fatal:
  assumes "i < n" and "Doc_Set x (backendCalls s) cl c d ent = Some e"
    and "\<not> (Error e = ClosingTransportError
          \<or> strings_Contains (Error e) UnavailableServiceError)"
  shows "editEntityLoop x c d ent n i cl err s =
         (Returned (Some (ErrorString
            (''Unsuccessful updating '' @ quoted d @ '' in the '' @ quoted c
              @ '' collection, Error: '' @ Error e))),
          s\<lparr>backendCalls := Suc (backendCalls s)\<rparr>)"
  using assms by (subst editEntityLoop.simps) simp

lemma editEntityLoop_retry:
  assumes "i < n" and "Doc_Set x (backendCalls s) cl c d ent = Some e"
    and "Error e = ClosingTransportError
          \<or> strings_Contains (Error e) UnavailableServiceError"
    and "firebase_NewApp x (refreshCalls s) = (a, None)"
    and "App_Firestore x (refreshCalls s) a = (cl', None)"
  shows "\<exists>s'. editEntityLoop x c d ent n i cl err s = editEntityLoop x c d ent n (i + 1) cl' None s'
           \<and> backendCalls s' = Suc (backendCalls s) \<and> refreshCalls s' = Suc (refreshCalls s)
           \<and> extends s s'"
proof -
  let ?s1 = "s\<lparr>backendCalls := Suc (backendCalls s)\<rparr>"
  let ?sr = "?s1"
  let ?s2 = "?sr\<lparr>refreshCalls := Suc (refreshCalls s)\<rparr>"
  have "getFirestoreAppAndClientWithContext x ?sr = ((a, cl', None), ?s2)"
    using assms(4,5) by (simp add: getFirestoreAppAndClientWithContext_def)
  with assms(1,2,3) have "editEntityLoop x c d ent n i cl err s = editEntityLoop x c d ent n (i + 1) cl' None ?s2"
    by (subst editEntityLoop.simps) simp
  moreover have "backendCalls ?s2 = Suc (backendCalls s)" "refreshCalls ?s2 = Suc (refreshCalls s)"
    "extends s ?s2" by (simp_all add: extends_def)
  ultimately show ?thesis by blast
qed

lemma editEntityLoop_step:
  assumes "i < n"
  shows "(\<exists>r s'. editEntityLoop x c d ent n i cl err s = (r, s')
            \<and> backendCalls s' = Suc (backendCalls s) \<and> extends s s')
       \<or> (\<exists>cl' s'. editEntityLoop x c d ent n i cl err s = editEntityLoop x c d ent n (i + 1) cl' None s'
            \<and> backendCalls s' = Suc (backendCalls s) \<and> extends s s')"
proof -
  obtain eo where Pair: "Doc_Set x (backendCalls s) cl c d ent = eo" by simp
  let ?s1 = "s\<lparr>backendCalls := Suc (backendCalls s)\<rparr>"
  have e1: "extends s ?s1" by (simp add: extends_def)
  show ?thesis
  proof (cases eo)
    case None
    with Pair assms e1 show ?thesis by (simp add: editEntityLoop_success)
  next
    case (Some e)
    show ?thesis
    proof (cases "Error e = ClosingTransportError
          \<or> strings_Contains (Error e) UnavailableServiceError")
      case False
      with Pair Some assms e1 show ?thesis by (simp add: editEntityLoop_fatal)
    next
      case True
      let ?sr = "?s1"
      let ?s2 = "?sr\<lparr>refreshCalls := Suc (refreshCalls s)\<rparr>"
      have e2: "extends s ?s2" "backendCalls ?s2 = Suc (backendCalls s)"
        by (simp_all add: extends_def)
      from refresh_disj[of x ?sr] show ?thesis
      proof (elim disjE exE)
        fix e' assume "getFirestoreAppAndClientWithContext x ?sr =
          ((None, None, Some e'), ?sr\<lparr>refreshCalls := Suc (refreshCalls ?sr)\<rparr>)"
        with Pair Some True assms have "snd (editEntityLoop x c d ent n i cl err s) = ?s2"
          by (subst editEntityLoop.simps) simp
        with e2 show ?thesis by (intro disjI1) (auto simp: prod_eq_iff)
      next
        fix a cl' assume "getFirestoreAppAndClientWithContext x ?sr =
          ((a, cl', None), ?sr\<lparr>refreshCalls := Suc (refreshCalls ?sr)\<rparr>)"
        with Pair Some True assms have
          "editEntityLoop x c d ent n i cl err s = editEntityLoop x c d ent n (i + 1) cl' None ?s2"
          by (subst editEntityLoop.simps) simp
        with e2 show ?thesis by (intro disjI2 exI[of _ cl'] exI[of _ ?s2]) simp
      qed
    qed
  qed
qed

lemma editEntityLoop_extends:
  "extends s (snd (editEntityLoop x c d ent n i cl err s))"
proof (induction "nat (n - i)" arbitrary: i cl err s)
  case 0
  then have "\<not> i < n" by simp
  then show ?case by (simp add: editEntityLoop_exit split: outcome.splits)
next
  case (Suc k)
  then have lt: "i < n" by simp
  from editEntityLoop_step[OF lt, of x c d ent cl err s] show ?case
  proof (elim disjE exE conjE)
    fix r s' assume "editEntityLoop x c d ent n i cl err s = (r, s')" "extends s s'"
    then show ?thesis by simp
  next
    fix cl' s'
    assume eq: "editEntityLoop x c d ent n i cl err s = editEntityLoop x c d ent n (i + 1) cl' None s'"
      and ex: "extends s s'"
    have "k = nat (n - (i + 1))" using Suc.hyps(2) by simp
    from Suc.hyps(1)[OF this, of s' cl' None] ex eq show ?thesis
      by (auto intro: extends_trans)
  qed
qed

lemma editEntityLoop_invokes:
  assumes "i < n"
  shows "Suc (backendCalls s) \<le> backendCalls (snd (editEntityLoop x c d ent n i cl err s))"
  using editEntityLoop_step[OF assms, of x c d ent cl err s]
proof (elim disjE exE conjE)
  fix r s' assume "editEntityLoop x c d ent n i cl err s = (r, s')" "backendCalls s' = Suc (backendCalls s)"
  then show ?thesis by simp
next
  fix cl' s'
  assume eq: "editEntityLoop x c d ent n i cl err s = editEntityLoop x c d ent n (i + 1) cl' None s'"
    and b: "backendCalls s' = Suc (backendCalls s)"
  from editEntityLoop_extends[of s' x c d ent n "i + 1" cl' None] eq b show ?thesis
    by (simp add: extends_def)
qed

lemma editEntityLoop_run:
  assumes "\<And>j cl. j < m \<Longrightarrow>
             \<exists>e. Doc_Set x (backendCalls s + j) cl c d ent = Some e
                 \<and> (Error e = ClosingTransportError
          \<or> strings_Contains (Error e) UnavailableServiceError)"
    and "\<And>j. j < m \<Longrightarrow>
             \<exists>a cl. firebase_NewApp x (refreshCalls s + j) = (a, None)
                 \<and> App_Firestore x (refreshCalls s + j) a = (cl, None)"
    and "i + int m \<le> n"
  shows "\<exists>cl' err' s'. editEntityLoop x c d ent n i cl err s = editEntityLoop x c d ent n (i + int m) cl' err' s'
          \<and> (0 < m \<longrightarrow> err' = None)
          \<and> backendCalls s' = backendCalls s + m \<and> refreshCalls s' = refreshCalls s + m"
  using assms
proof (induction m arbitrary: i cl err s)
  case 0
  then show ?case by auto
next
  case (Suc m)
  from Suc.prems(1)[of 0 cl] obtain  e where
    bk: "Doc_Set x (backendCalls s) cl c d ent = Some e"
        "Error e = ClosingTransportError
          \<or> strings_Contains (Error e) UnavailableServiceError"
    by auto
  from Suc.prems(2)[of 0] obtain a cl1 where
    rf: "firebase_NewApp x (refreshCalls s) = (a, None)"
        "App_Firestore x (refreshCalls s) a = (cl1, None)"
    by auto
  have lt: "i < n" using Suc.prems(3) by simp
  from editEntityLoop_retry[OF lt bk rf, of err] obtain s1 where
    step: "editEntityLoop x c d ent n i cl err s = editEntityLoop x c d ent n (i + 1) cl1 None s1"
      and c1: "backendCalls s1 = Suc (backendCalls s)" "refreshCalls s1 = Suc (refreshCalls s)"
    by blast
  have "\<exists>cl' err' s'. editEntityLoop x c d ent n (i + 1) cl1 None s1 = editEntityLoop x c d ent n (i + 1 + int m) cl' err' s'
          \<and> (0 < m \<longrightarrow> err' = None)
          \<and> backendCalls s' = backendCalls s1 + m \<and> refreshCalls s' = refreshCalls s1 + m"
  proof (rule Suc.IH)
    fix j cl assume "j < m"
    then show "\<exists>e. Doc_Set x (backendCalls s1 + j) cl c d ent = Some e
                 \<and> (Error e = ClosingTransportError
          \<or> strings_Contains (Error e) UnavailableServiceError)"
      using Suc.prems(1)[of "Suc j" cl] c1 by simp
  next
    fix j assume "j < m"
    then show "\<exists>a cl. firebase_NewApp x (refreshCalls s1 + j) = (a, None)
                 \<and> App_Firestore x (refreshCalls s1 + j) a = (cl, None)"
      using Suc.prems(2)[of "Suc j"] c1 by simp
  next
    show "i + 1 + int m \<le> n" using Suc.prems(3) by simp
  qed
  then obtain cl' err' s' where
    r: "editEntityLoop x c d ent n (i + 1) cl1 None s1 = editEntityLoop x c d ent n (i + 1 + int m) cl' err' s'"
       "0 < m \<longrightarrow> err' = None"
       "backendCalls s' = backendCalls s1 + m" "refreshCalls s' = refreshCalls s1 + m"
    by blast
  have e: "i + 1 + int m = i + int (Suc m)" by simp
  show ?case
  proof (cases "m = 0")
    case True
    with step have "editEntityLoop x c d ent n i cl err s = editEntityLoop x c d ent n (i + int (Suc m)) cl1 None s1"
      by simp
    moreover have "backendCalls s1 = backendCalls s + Suc m" "refreshCalls s1 = refreshCalls s + Suc m"
      using c1 True by simp_all
    ultimately show ?thesis by blast
  next
    case False
    have "editEntityLoop x c d ent n i cl err s = editEntityLoop x c d ent n (i + int (Suc m)) cl' err' s'"
      using step r(1) unfolding e by simp
    moreover have "err' = None" using r(2) False by simp
    moreover have "backendCalls s' = backendCalls s + Suc m" "refreshCalls s' = refreshCalls s + Suc m"
      using r(3,4) c1 by simp_all
    ultimately show ?thesis by blast
  qed
qed

lemma editEntityLoop_refreshes:
  assumes "i < n" and "Doc_Set x (backendCalls s) cl c d ent = Some e"
    and "Error e = ClosingTransportError
          \<or> strings_Contains (Error e) UnavailableServiceError"
  shows "Suc (refreshCalls s) \<le> refreshCalls (snd (editEntityLoop x c d ent n i cl err s))"
proof -
  let ?s1 = "s\<lparr>backendCalls := Suc (backendCalls s)\<rparr>"
  let ?sr = "?s1"
  let ?s2 = "?sr\<lparr>refreshCalls := Suc (refreshCalls s)\<rparr>"
  from refresh_disj[of x ?sr] show ?thesis
  proof (elim disjE exE)
    fix e' assume "getFirestoreAppAndClientWithContext x ?sr =
      ((None, None, Some e'), ?sr\<lparr>refreshCalls := Suc (refreshCalls ?sr)\<rparr>)"
    with assms have "snd (editEntityLoop x c d ent n i cl err s) = ?s2"
      by (subst editEntityLoop.simps) simp
    then show ?thesis by simp
  next
    fix a cl' assume "getFirestoreAppAndClientWithContext x ?sr =
      ((a, cl', None), ?sr\<lparr>refreshCalls := Suc (refreshCalls ?sr)\<rparr>)"
    with assms have "editEntityLoop x c d ent n i cl err s = editEntityLoop x c d ent n (i + 1) cl' None ?s2"
      by (subst editEntityLoop.simps) simp
    with editEntityLoop_extends[of ?s2 x c d ent n "i + 1" cl' None] show ?thesis
      by (simp add: extends_def)
  qed
qed

text \<open>Attempt number \<open>k\<close> of a call, after \<open>k\<close> attempts that were retried.\<close>

lemma editEntityLoop_attempt:
  assumes fail: "\<And>j cl. j < k \<Longrightarrow>
             \<exists>e. Doc_Set x (backendCalls s + j) cl c d ent = Some e
                 \<and> (Error e = ClosingTransportError
          \<or> strings_Contains (Error e) UnavailableServiceError)"
    and rf: "\<And>j. j < k \<Longrightarrow>
             \<exists>a cl. firebase_NewApp x (refreshCalls s + j) = (a, None)
                 \<and> App_Firestore x (refreshCalls s + j) a = (cl, None)"
    and lt: "i + int k < n"
    and at: "\<And>cl. Doc_Set x (backendCalls s + k) cl c d ent = Some e"
  shows "((Error e = ClosingTransportError
          \<or> strings_Contains (Error e) UnavailableServiceError) \<longrightarrow>
            Suc (refreshCalls s + k) \<le> refreshCalls (snd (editEntityLoop x c d ent n i cl err s))
            \<and> ((\<exists>a cl. firebase_NewApp x (refreshCalls s + k) = (a, None)
                   \<and> App_Firestore x (refreshCalls s + k) a = (cl, None)) \<and> i + int k + 1 < n \<longrightarrow>
                 Suc (Suc (backendCalls s + k)) \<le> backendCalls (snd (editEntityLoop x c d ent n i cl err s))))
       \<and> (\<not> (Error e = ClosingTransportError
          \<or> strings_Contains (Error e) UnavailableServiceError) \<longrightarrow>
            fst (editEntityLoop x c d ent n i cl err s) =
              Returned (Some (ErrorString
            (''Unsuccessful updating '' @ quoted d @ '' in the '' @ quoted c
              @ '' collection, Error: '' @ Error e)))
            \<and> backendCalls (snd (editEntityLoop x c d ent n i cl err s)) = Suc (backendCalls s + k)
            \<and> refreshCalls (snd (editEntityLoop x c d ent n i cl err s)) = refreshCalls s + k)"
proof -
  have le: "i + int k \<le> n" using lt by simp
  from editEntityLoop_run[OF fail rf le, where cl = cl and err = err] obtain cl' err' s' where
    run: "editEntityLoop x c d ent n i cl err s = editEntityLoop x c d ent n (i + int k) cl' err' s'"
    and cnt: "backendCalls s' = backendCalls s + k" "refreshCalls s' = refreshCalls s + k"
    by blast
  from at[of cl'] cnt have
    bk: "Doc_Set x (backendCalls s') cl' c d ent = Some e"
    by simp
  let ?G = "editEntityLoop x c d ent n (i + int k) cl' err' s'"
  have c: "Suc (refreshCalls s') \<le> refreshCalls (snd ?G)"
    if "Error e = ClosingTransportError
          \<or> strings_Contains (Error e) UnavailableServiceError"
    by (rule editEntityLoop_refreshes[OF lt bk that])
  have b: "Suc (Suc (backendCalls s')) \<le> backendCalls (snd ?G)"
    if cd: "Error e = ClosingTransportError
          \<or> strings_Contains (Error e) UnavailableServiceError"
      and ex: "\<exists>a cl. firebase_NewApp x (refreshCalls s') = (a, None)
                   \<and> App_Firestore x (refreshCalls s') a = (cl, None)"
      and lt2: "i + int k + 1 < n"
  proof -
    from ex obtain a cl2 where
      rf2: "firebase_NewApp x (refreshCalls s') = (a, None)"
           "App_Firestore x (refreshCalls s') a = (cl2, None)"
      by blast
    from editEntityLoop_retry[OF lt bk cd rf2, where err = err'] obtain s2 where
      st: "?G = editEntityLoop x c d ent n (i + int k + 1) cl2 None s2"
      and b2: "backendCalls s2 = Suc (backendCalls s')"
      by blast
    from editEntityLoop_invokes[OF lt2, where s = s2 and x = x and c = c and d = d and ent = ent and cl = cl2 and err = None] st b2
    show ?thesis by simp
  qed
  have f: "?G = (Returned (Some (ErrorString
            (''Unsuccessful updating '' @ quoted d @ '' in the '' @ quoted c
              @ '' collection, Error: '' @ Error e))),
          s'\<lparr>backendCalls := Suc (backendCalls s')\<rparr>)"
    if "\<not> (Error e = ClosingTransportError
          \<or> strings_Contains (Error e) UnavailableServiceError)"
    by (rule editEntityLoop_fatal[OF lt bk that])
  show ?thesis
    unfolding run using c b f cnt by auto
qed

text \<open>deleteEntityLoop\<close>

lemma deleteEntityLoop_exit:
  assumes "\<not> i < n"
  shows "deleteEntityLoop x c d n i cl err s =
         (case err_Error err of Panicked \<Rightarrow> (Panicked, s)
          | Returned m \<Rightarrow> (Returned (None, Some (ErrorString
              (''Exceed retries number for deletion '' @ d @ '' from '' @ c
                @ '' collection, Error: '' @ m))), s))"
  using assms by (subst deleteEntityLoop.simps) simp

lemma deleteEntityLoop_success:
  assumes "i < n" and "Doc_Delete x (backendCalls s) cl c d = (r, None)"
  shows "deleteEntityLoop x c d n i cl err s =
         (Returned (r, None), s\<lparr>backendCalls := Suc (backendCalls s)\<rparr>)"
  using assms by (subst deleteEntityLoop.simps) simp

lemma deleteEntityLoop_fatal:
  assumes "i < n" and "Doc_Delete x (backendCalls s) cl c d = (r, Some e)"
    and "Error e \<noteq> ClosingTransportError"
  shows "deleteEntityLoop x c d n i cl err s =
         (Returned (None, Some (ErrorString
            (''Unsuccessful deletion '' @ d @ '' from '' @ c @ '' collection, Error: '' @ Error e))),
          s\<lparr>backendCalls := Suc (backendCalls s)\<rparr>)"
  using assms by (subst deleteEntityLoop.simps) simp

lemma deleteEntityLoop_retry:
  assumes "i < n" and "Doc_Delete x (backendCalls s) cl c d = (r, Some e)"
    and "Error e = ClosingTransportError"
    and "firebase_NewApp x (refreshCalls s) = (a, None)"
    and "App_Firestore x (refreshCalls s) a = (cl', None)"
  shows "\<exists>s'. deleteEntityLoop x c d n i cl err s = deleteEntityLoop x c d n (i + 1) cl' None s'
           \<and> backendCalls s' = Suc (backendCalls s) \<and> refreshCalls s' = Suc (refreshCalls s)
           \<and> extends s s'"
proof -
  let ?s1 = "s\<lparr>backendCalls := Suc (backendCalls s)\<rparr>"
  let ?sr = "?s1"
  let ?s2 = "?sr\<lparr>refreshCalls := Suc (refreshCalls s)\<rparr>"
  have "getFirestoreAppAndClientWithContext x ?sr = ((a, cl', None), ?s2)"
    using assms(4,5) by (simp add: getFirestoreAppAndClientWithContext_def)
  with assms(1,2,3) have "deleteEntityLoop x c d n i cl err s = deleteEntityLoop x c d n (i + 1) cl' None ?s2"
    by (subst deleteEntityLoop.simps) simp
  moreover have "backendCalls ?s2 = Suc (backendCalls s)" "refreshCalls ?s2 = Suc (refreshCalls s)"
    "extends s ?s2" by (simp_all add: extends_def)
  ultimately show ?thesis by blast
qed

lemma deleteEntityLoop_step:
  assumes "i < n"
  shows "(\<exists>r s'. deleteEntityLoop x c d n i cl err s = (r, s')
            \<and> backendCalls s' = Suc (backendCalls s) \<and> extends s s')
       \<or> (\<exists>cl' s'. deleteEntityLoop x c d n i cl err s = deleteEntityLoop x c d n (i + 1) cl' None s'
            \<and> backendCalls s' = Suc (backendCalls s) \<and> extends s s')"
proof (cases "Doc_Delete x (backendCalls s) cl c d")
  case (Pair r eo)
  let ?s1 = "s\<lparr>backendCalls := Suc (backendCalls s)\<rparr>"
  have e1: "extends s ?s1" by (simp add: extends_def)
  show ?thesis
  proof (cases eo)
    case None
    with Pair assms e1 show ?thesis by (simp add: deleteEntityLoop_success)
  next
    case (Some e)
    show ?thesis
    proof (cases "Error e = ClosingTransportError")
      case False
      with Pair Some assms e1 show ?thesis by (simp add: deleteEntityLoop_fatal)
    next
      case True
      let ?sr = "?s1"
      let ?s2 = "?sr\<lparr>refreshCalls := Suc (refreshCalls s)\<rparr>"
      have e2: "extends s ?s2" "backendCalls ?s2 = Suc (backendCalls s)"
        by (simp_all add: extends_def)
      from refresh_disj[of x ?sr] show ?thesis
      proof (elim disjE exE)
        fix e' assume "getFirestoreAppAndClientWithContext x ?sr =
          ((None, None, Some e'), ?sr\<lparr>refreshCalls := Suc (refreshCalls ?sr)\<rparr>)"
        with Pair Some True assms have "snd (deleteEntityLoop x c d n i cl err s) = ?s2"
          by (subst deleteEntityLoop.simps) simp
        with e2 show ?thesis by (intro disjI1) (auto simp: prod_eq_iff)
      next
        fix a cl' assume "getFirestoreAppAndClientWithContext x ?sr =
          ((a, cl', None), ?sr\<lparr>refreshCalls := Suc (refreshCalls ?sr)\<rparr>)"
        with Pair Some True assms have
          "deleteEntityLoop x c d n i cl err s = deleteEntityLoop x c d n (i + 1) cl' None ?s2"
          by (subst deleteEntityLoop.simps) simp
        with e2 show ?thesis by (intro disjI2 exI[of _ cl'] exI[of _ ?s2]) simp
      qed
    qed
  qed
qed

lemma deleteEntityLoop_extends:
  "extends s (snd (deleteEntityLoop x c d n i cl err s))"
proof (induction "nat (n - i)" arbitrary: i cl err s)
  case 0
  then have "\<not> i < n" by simp
  then show ?case by (simp add: deleteEntityLoop_exit split: outcome.splits)
next
  case (Suc k)
  then have lt: "i < n" by simp
  from deleteEntityLoop_step[OF lt, of x c d cl err s] show ?case
  proof (elim disjE exE conjE)
    fix r s' assume "deleteEntityLoop x c d n i cl err s = (r, s')" "extends s s'"
    then show ?thesis by simp
  next
    fix cl' s'
    assume eq: "deleteEntityLoop x c d n i cl err s = deleteEntityLoop x c d n (i + 1) cl' None s'"
      and ex: "extends s s'"
    have "k = nat (n - (i + 1))" using Suc.hyps(2) by simp
    from Suc.hyps(1)[OF this, of s' cl' None] ex eq show ?thesis
      by (auto intro: extends_trans)
  qed
qed

lemma deleteEntityLoop_invokes:
  assumes "i < n"
  shows "Suc (backendCalls s) \<le> backendCalls (snd (deleteEntityLoop x c d n i cl err s))"
  using deleteEntityLoop_step[OF assms, of x c d cl err s]
proof (elim disjE exE conjE)
  fix r s' assume "deleteEntityLoop x c d n i cl err s = (r, s')" "backendCalls s' = Suc (backendCalls s)"
  then show ?thesis by simp
next
  fix cl' s'
  assume eq: "deleteEntityLoop x c d n i cl err s = deleteEntityLoop x c d n (i + 1) cl' None s'"
    and b: "backendCalls s' = Suc (backendCalls s)"
  from deleteEntityLoop_extends[of s' x c d n "i + 1" cl' None] eq b show ?thesis
    by (simp add: extends_def)
qed

lemma deleteEntityLoop_run:
  assumes "\<And>j cl. j < m \<Longrightarrow>
             \<exists>r e. Doc_Delete x (backendCalls s + j) cl c d = (r, Some e)
                 \<and> (Error e = ClosingTransportError)"
    and "\<And>j. j < m \<Longrightarrow>
             \<exists>a cl. firebase_NewApp x (refreshCalls s + j) = (a, None)
                 \<and> App_Firestore x (refreshCalls s + j) a = (cl, None)"
    and "i + int m \<le> n"
  shows "\<exists>cl' err' s'. deleteEntityLoop x c d n i cl err s = deleteEntityLoop x c d n (i + int m) cl' err' s'
          \<and> (0 < m \<longrightarrow> err' = None)
          \<and> backendCalls s' = backendCalls s + m \<and> refreshCalls s' = refreshCalls s + m"
  using assms
proof (induction m arbitrary: i cl err s)
  case 0
  then show ?case by auto
next
  case (Suc m)
  from Suc.prems(1)[of 0 cl] obtain r e where
    bk: "Doc_Delete x (backendCalls s) cl c d = (r, Some e)"
        "Error e = ClosingTransportError"
    by auto
  from Suc.prems(2)[of 0] obtain a cl1 where
    rf: "firebase_NewApp x (refreshCalls s) = (a, None)"
        "App_Firestore x (refreshCalls s) a = (cl1, None)"
    by auto
  have lt: "i < n" using Suc.prems(3) by simp
  from deleteEntityLoop_retry[OF lt bk rf, of err] obtain s1 where
    step: "deleteEntityLoop x c d n i cl err s = deleteEntityLoop x c d n (i + 1) cl1 None s1"
      and c1: "backendCalls s1 = Suc (backendCalls s)" "refreshCalls s1 = Suc (refreshCalls s)"
    by blast
  have "\<exists>cl' err' s'. deleteEntityLoop x c d n (i + 1) cl1 None s1 = deleteEntityLoop x c d n (i + 1 + int m) cl' err' s'
          \<and> (0 < m \<longrightarrow> err' = None)
          \<and> backendCalls s' = backendCalls s1 + m \<and> refreshCalls s' = refreshCalls s1 + m"
  proof (rule Suc.IH)
    fix j cl assume "j < m"
    then show "\<exists>r e. Doc_Delete x (backendCalls s1 + j) cl c d = (r, Some e)
                 \<and> (Error e = ClosingTransportError)"
      using Suc.prems(1)[of "Suc j" cl] c1 by simp
  next
    fix j assume "j < m"
    then show "\<exists>a cl. firebase_NewApp x (refreshCalls s1 + j) = (a, None)
                 \<and> App_Firestore x (refreshCalls s1 + j) a = (cl, None)"
      using Suc.prems(2)[of "Suc j"] c1 by simp
  next
    show "i + 1 + int m \<le> n" using Suc.prems(3) by simp
  qed
  then obtain cl' err' s' where
    r: "deleteEntityLoop x c d n (i + 1) cl1 None s1 = deleteEntityLoop x c d n (i + 1 + int m) cl' err' s'"
       "0 < m \<longrightarrow> err' = None"
       "backendCalls s' = backendCalls s1 + m" "refreshCalls s' = refreshCalls s1 + m"
    by blast
  have e: "i + 1 + int m = i + int (Suc m)" by simp
  show ?case
  proof (cases "m = 0")
    case True
    with step have "deleteEntityLoop x c d n i cl err s = deleteEntityLoop x c d n (i + int (Suc m)) cl1 None s1"
      by simp
    moreover have "backendCalls s1 = backendCalls s + Suc m" "refreshCalls s1 = refreshCalls s + Suc m"
      using c1 True by simp_all
    ultimately show ?thesis by blast
  next
    case False
    have "deleteEntityLoop x c d n i cl err s = deleteEntityLoop x c d n (i + int (Suc m)) cl' err' s'"
      using step r(1) unfolding e by simp
    moreover have "err' = None" using r(2) False by simp
    moreover have "backendCalls s' = backendCalls s + Suc m" "refreshCalls s' = refreshCalls s + Suc m"
      using r(3,4) c1 by simp_all
    ultimately show ?thesis by blast
  qed
qed

lemma deleteEntityLoop_refreshes:
  assumes "i < n" and "Doc_Delete x (backendCalls s) cl c d = (r, Some e)"
    and "Error e = ClosingTransportError"
  shows "Suc (refreshCalls s) \<le> refreshCalls (snd (deleteEntityLoop x c d n i cl err s))"
proof -
  let ?s1 = "s\<lparr>backendCalls := Suc (backendCalls s)\<rparr>"
  let ?sr = "?s1"
  let ?s2 = "?sr\<lparr>refreshCalls := Suc (refreshCalls s)\<rparr>"
  from refresh_disj[of x ?sr] show ?thesis
  proof (elim disjE exE)
    fix e' assume "getFirestoreAppAndClientWithContext x ?sr =
      ((None, None, Some e'), ?sr\<lparr>refreshCalls := Suc (refreshCalls ?sr)\<rparr>)"
    with assms have "snd (deleteEntityLoop x c d n i cl err s) = ?s2"
      by (subst deleteEntityLoop.simps) simp
    then show ?thesis by simp
  next
    fix a cl' assume "getFirestoreAppAndClientWithContext x ?sr =
      ((a, cl', None), ?sr\<lparr>refreshCalls := Suc (refreshCalls ?sr)\<rparr>)"
    with assms have "deleteEntityLoop x c d n i cl err s = deleteEntityLoop x c d n (i + 1) cl' None ?s2"
      by (subst deleteEntityLoop.simps) simp
    with deleteEntityLoop_extends[of ?s2 x c d n "i + 1" cl' None] show ?thesis
      by (simp add: extends_def)
  qed
qed

text \<open>Attempt number \<open>k\<close> of a call, after \<open>k\<close> attempts that were retried.\<close>

lemma deleteEntityLoop_attempt:
  assumes fail: "\<And>j cl. j < k \<Longrightarrow>
             \<exists>r e. Doc_Delete x (backendCalls s + j) cl c d = (r, Some e)
                 \<and> (Error e = ClosingTransportError)"
    and rf: "\<And>j. j < k \<Longrightarrow>
             \<exists>a cl. firebase_NewApp x (refreshCalls s + j) = (a, None)
                 \<and> App_Firestore x (refreshCalls s + j) a = (cl, None)"
    and lt: "i + int k < n"
    and at: "\<And>cl. \<exists>r. Doc_Delete x (backendCalls s + k) cl c d = (r, Some e)"
  shows "((Error e = ClosingTransportError) \<longrightarrow>
            Suc (refreshCalls s + k) \<le> refreshCalls (snd (deleteEntityLoop x c d n i cl err s))
            \<and> ((\<exists>a cl. firebase_NewApp x (refreshCalls s + k) = (a, None)
                   \<and> App_Firestore x (refreshCalls s + k) a = (cl, None)) \<and> i + int k + 1 < n \<longrightarrow>
                 Suc (Suc (backendCalls s + k)) \<le> backendCalls (snd (deleteEntityLoop x c d n i cl err s))))
       \<and> (Error e \<noteq> ClosingTransportError \<longrightarrow>
            fst (deleteEntityLoop x c d n i cl err s) =
              Returned (None, Some (ErrorString
            (''Unsuccessful deletion '' @ d @ '' from '' @ c @ '' collection, Error: '' @ Error e)))
            \<and> backendCalls (snd (deleteEntityLoop x c d n i cl err s)) = Suc (backendCalls s + k)
            \<and> refreshCalls (snd (deleteEntityLoop x c d n i cl err s)) = refreshCalls s + k)"
proof -
  have le: "i + int k \<le> n" using lt by simp
  from deleteEntityLoop_run[OF fail rf le, where cl = cl and err = err] obtain cl' err' s' where
    run: "deleteEntityLoop x c d n i cl err s = deleteEntityLoop x c d n (i + int k) cl' err' s'"
    and cnt: "backendCalls s' = backendCalls s + k" "refreshCalls s' = refreshCalls s + k"
    by blast
  from at[of cl'] cnt obtain r where
    bk: "Doc_Delete x (backendCalls s') cl' c d = (r, Some e)"
    by auto
  let ?G = "deleteEntityLoop x c d n (i + int k) cl' err' s'"
  have c: "Suc (refreshCalls s') \<le> refreshCalls (snd ?G)"
    if "Error e = ClosingTransportError"
    by (rule deleteEntityLoop_refreshes[OF lt bk that])
  have b: "Suc (Suc (backendCalls s')) \<le> backendCalls (snd ?G)"
    if cd: "Error e = ClosingTransportError"
      and ex: "\<exists>a cl. firebase_NewApp x (refreshCalls s') = (a, None)
                   \<and> App_Firestore x (refreshCalls s') a = (cl, None)"
      and lt2: "i + int k + 1 < n"
  proof -
    from ex obtain a cl2 where
      rf2: "firebase_NewApp x (refreshCalls s') = (a, None)"
           "App_Firestore x (refreshCalls s') a = (cl2, None)"
      by blast
    from deleteEntityLoop_retry[OF lt bk cd rf2, where err = err'] obtain s2 where
      st: "?G = deleteEntityLoop x c d n (i + int k + 1) cl2 None s2"
      and b2: "backendCalls s2 = Suc (backendCalls s')"
      by blast
    from deleteEntityLoop_invokes[OF lt2, where s = s2 and x = x and c = c and d = d and cl = cl2 and err = None] st b2
    show ?thesis by simp
  qed
  have f: "?G = (Returned (None, Some (ErrorString
            (''Unsuccessful deletion '' @ d @ '' from '' @ c @ '' collection, Error: '' @ Error e))),
          s'\<lparr>backendCalls := Suc (backendCalls s')\<rparr>)"
    if "Error e \<noteq> ClosingTransportError"
    by (rule deleteEntityLoop_fatal[OF lt bk that])
  show ?thesis
    unfolding run using c b f cnt by auto
qed

text \<open>documentIteratorLoop\<close>

lemma documentIteratorLoop_exit:
  assumes "\<not> i < n"
  shows "documentIteratorLoop x it n i err s =
         (case err_Error err of Panicked \<Rightarrow> (Panicked, s)
          | Returned m \<Rightarrow> (Returned (None, Some (ErrorString
              (''Unsuccessful document iteration, Error: '' @ m))), s))"
  using assms by (subst documentIteratorLoop.simps) simp

lemma documentIteratorLoop_success:
  assumes "i < n" and "Iter_Next x (backendCalls s) it = (r, None)"
  shows "documentIteratorLoop x it n i err s =
         (Returned (r, None), s\<lparr>backendCalls := Suc (backendCalls s)\<rparr>)"
  using assms by (subst documentIteratorLoop.simps) simp

lemma documentIteratorLoop_done:
  assumes "i < n" and "Iter_Next x (backendCalls s) it = (r, Some IteratorDone)"
  shows "documentIteratorLoop x it n i err s =
         (Returned (None, Some IteratorDone), s\<lparr>backendCalls := Suc (backendCalls s)\<rparr>)"
  using assms by (subst documentIteratorLoop.simps) (simp add: ClosingTransportError_def)

lemma documentIteratorLoop_fatal:
  assumes "i < n" and "Iter_Next x (backendCalls s) it = (r, Some e)"
    and "Error e \<noteq> ClosingTransportError" and "e \<noteq> IteratorDone"
  shows "documentIteratorLoop x it n i err s =
         (Returned (None, Some (ErrorString
            (''Unsuccessful document iteration, Error: '' @ Error e))),
          s\<lparr>backendCalls := Suc (backendCalls s)\<rparr>)"
  using assms by (subst documentIteratorLoop.simps) simp

lemma documentIteratorLoop_retry:
  assumes "i < n" and "Iter_Next x (backendCalls s) it = (r, Some e)"
    and "Error e = ClosingTransportError"
  shows "documentIteratorLoop x it n i err s =
         documentIteratorLoop x it n (i + 1) err (s\<lparr>backendCalls := Suc (backendCalls s)\<rparr>)"
  using assms by (subst documentIteratorLoop.simps) simp

lemma documentIteratorLoop_step:
  assumes "i < n"
  shows "(\<exists>r. documentIteratorLoop x it n i err s =
              (r, s\<lparr>backendCalls := Suc (backendCalls s)\<rparr>))
       \<or> documentIteratorLoop x it n i err s =
           documentIteratorLoop x it n (i + 1) err (s\<lparr>backendCalls := Suc (backendCalls s)\<rparr>)"
proof (cases "Iter_Next x (backendCalls s) it")
  case (Pair r eo)
  show ?thesis
  proof (cases eo)
    case None
    with Pair assms show ?thesis by (simp add: documentIteratorLoop_success)
  next
    case (Some e)
    show ?thesis
    proof (cases "Error e = ClosingTransportError")
      case True
      with Pair Some assms show ?thesis by (simp add: documentIteratorLoop_retry)
    next
      case False
      with Pair Some assms show ?thesis
        by (cases "e = IteratorDone")
           (simp_all add: documentIteratorLoop_done documentIteratorLoop_fatal)
    qed
  qed
qed

lemma documentIteratorLoop_state:
  "extends s (snd (documentIteratorLoop x it n i err s))
   \<and> refreshCalls (snd (documentIteratorLoop x it n i err s)) = refreshCalls s
   \<and> logLines (snd (documentIteratorLoop x it n i err s)) = logLines s"
proof (induction "nat (n - i)" arbitrary: i s)
  case 0
  then have "\<not> i < n" by simp
  then show ?case by (simp add: documentIteratorLoop_exit split: outcome.splits)
next
  case (Suc k)
  then have lt: "i < n" by simp
  let ?s1 = "s\<lparr>backendCalls := Suc (backendCalls s)\<rparr>"
  from documentIteratorLoop_step[OF lt, of x it err s] show ?case
  proof (elim disjE exE)
    fix r assume "documentIteratorLoop x it n i err s = (r, ?s1)"
    then show ?thesis by (simp add: extends_def)
  next
    assume eq: "documentIteratorLoop x it n i err s = documentIteratorLoop x it n (i + 1) err ?s1"
    have "k = nat (n - (i + 1))" using Suc.hyps(2) by simp
    from Suc.hyps(1)[OF this, of ?s1] eq show ?thesis
      by (simp add: extends_def)
  qed
qed

lemma documentIteratorLoop_invokes:
  assumes "i < n"
  shows "Suc (backendCalls s) \<le> backendCalls (snd (documentIteratorLoop x it n i err s))"
  using documentIteratorLoop_step[OF assms, of x it err s]
    documentIteratorLoop_state[of "s\<lparr>backendCalls := Suc (backendCalls s)\<rparr>" x it n "i + 1" err]
  by (auto simp: extends_def)

lemma documentIteratorLoop_run:
  assumes "\<And>j. j < m \<Longrightarrow>
             \<exists>r e. Iter_Next x (backendCalls s + j) it = (r, Some e)
                 \<and> Error e = ClosingTransportError"
    and "i + int m \<le> n"
  shows "documentIteratorLoop x it n i err s =
         documentIteratorLoop x it n (i + int m) err (s\<lparr>backendCalls := backendCalls s + m\<rparr>)"
  using assms
proof (induction m arbitrary: i s)
  case 0
  then show ?case by simp
next
  case (Suc m)
  from Suc.prems(1)[of 0] obtain r e where
    bk: "Iter_Next x (backendCalls s) it = (r, Some e)" "Error e = ClosingTransportError"
    by auto
  have lt: "i < n" using Suc.prems(2) by simp
  let ?s1 = "s\<lparr>backendCalls := Suc (backendCalls s)\<rparr>"
  have step: "documentIteratorLoop x it n i err s = documentIteratorLoop x it n (i + 1) err ?s1"
    by (rule documentIteratorLoop_retry[OF lt bk])
  have "documentIteratorLoop x it n (i + 1) err ?s1 =
        documentIteratorLoop x it n (i + 1 + int m) err (?s1\<lparr>backendCalls := backendCalls ?s1 + m\<rparr>)"
  proof (rule Suc.IH)
    fix j assume "j < m"
    then show "\<exists>r e. Iter_Next x (backendCalls ?s1 + j) it = (r, Some e)
                 \<and> Error e = ClosingTransportError"
      using Suc.prems(1)[of "Suc j"] by simp
  next
    show "i + 1 + int m \<le> n" using Suc.prems(2) by simp
  qed
  moreover have "i + 1 + int m = i + int (Suc m)" by simp
  moreover have "?s1\<lparr>backendCalls := backendCalls ?s1 + m\<rparr> = s\<lparr>backendCalls := backendCalls s + Suc m\<rparr>"
    by simp
  ultimately show ?case using step by (simp only:)
qed

text \<open>Attempt number \<open>k\<close> of the iterator, after \<open>k\<close> attempts that were retried.\<close>

lemma documentIteratorLoop_attempt:
  assumes fail: "\<And>j. j < k \<Longrightarrow>
             \<exists>r e. Iter_Next x (backendCalls s + j) it = (r, Some e)
                 \<and> Error e = ClosingTransportError"
    and lt: "i + int k < n"
    and at: "Iter_Next x (backendCalls s + k) it = (r, Some e)"
  shows "(Error e = ClosingTransportError \<and> i + int k + 1 < n \<longrightarrow>
            Suc (Suc (backendCalls s + k)) \<le> backendCalls (snd (documentIteratorLoop x it n i err s)))
       \<and> (Error e \<noteq> ClosingTransportError \<longrightarrow>
            fst (documentIteratorLoop x it n i err s) =
              Returned (None, Some (if e = IteratorDone then IteratorDone
                 else ErrorString (''Unsuccessful document iteration, Error: '' @ Error e)))
            \<and> backendCalls (snd (documentIteratorLoop x it n i err s)) = Suc (backendCalls s + k))"
proof -
  have le: "i + int k \<le> n" using lt by simp
  let ?s' = "s\<lparr>backendCalls := backendCalls s + k\<rparr>"
  let ?G = "documentIteratorLoop x it n (i + int k) err ?s'"
  have run: "documentIteratorLoop x it n i err s = ?G"
    by (rule documentIteratorLoop_run[OF fail le])
  have bk: "Iter_Next x (backendCalls ?s') it = (r, Some e)" using at by simp
  have b: "Suc (Suc (backendCalls s + k)) \<le> backendCalls (snd ?G)"
    if cd: "Error e = ClosingTransportError" and lt2: "i + int k + 1 < n"
    using documentIteratorLoop_retry[OF lt bk cd, where err = err]
      documentIteratorLoop_invokes[OF lt2, where s = "?s'\<lparr>backendCalls := Suc (backendCalls ?s')\<rparr>"
        and x = x and it = it and err = err]
    by simp
  have f: "?G = (Returned (None, Some (if e = IteratorDone then IteratorDone
                 else ErrorString (''Unsuccessful document iteration, Error: '' @ Error e))),
               ?s'\<lparr>backendCalls := Suc (backendCalls ?s')\<rparr>)"
    if nc: "Error e \<noteq> ClosingTransportError"
  proof (cases "e = IteratorDone")
    case True
    with documentIteratorLoop_done[OF lt, where s = ?s' and x = x and it = it and r = r and err = err] bk
    show ?thesis by simp
  next
    case False
    with documentIteratorLoop_fatal[OF lt bk nc False, where err = err] show ?thesis by simp
  qed
  show ?thesis unfolding run using b f by auto
qed


subsection \<open>Facts about the concrete externals\<close>

lemma scripted_sel:
  "os_Getenv (scripted v b rf) ''FIRESTORE_RETRIES_NUMBER'' = v"
  "strconv_Atoi (scripted v b rf) = decimalAtoi"
  "firebase_NewApp (scripted v b rf) k =
     (case rf k of None \<Rightarrow> (Some k, None) | Some e \<Rightarrow> (None, Some e))"
  "App_Firestore (scripted v b rf) k a = (Some (Suc k), None)"
  "Collection_Add (scripted v b rf) k cl c ent =
     (case b k of None \<Rightarrow> (Some k, None) | Some e \<Rightarrow> (None, Some e))"
  "Doc_Get (scripted v b rf) k cl c d =
     (case b k of None \<Rightarrow> (Some k, None) | Some e \<Rightarrow> (None, Some e))"
  "Doc_Set (scripted v b rf) k cl c d ent = b k"
  "Doc_Delete (scripted v b rf) k cl c d =
     (case b k of None \<Rightarrow> (Some k, None) | Some e \<Rightarrow> (None, Some e))"
  "Iter_Next (scripted v b rf) k it =
     (case b k of None \<Rightarrow> (Some k, None) | Some e \<Rightarrow> (None, Some e))"
  by (simp_all add: scripted_def)

lemma users_exists: "firestoreCollectionExists ''users''"
  by (simp add: firestoreCollectionExists_def FirestoreCollectionNames_def UsersCollection_def)

lemma orders_not_exists: "\<not> firestoreCollectionExists ''orders''"
  by (simp add: firestoreCollectionExists_def FirestoreCollectionNames_def UsersCollection_def
      PromoItemsCollection_def)

lemma firestoreCollectionExists_iff:
  "firestoreCollectionExists c \<longleftrightarrow> c = ''users'' \<or> c = ''promo_items''"
  by (auto simp: firestoreCollectionExists_def FirestoreCollectionNames_def UsersCollection_def
      PromoItemsCollection_def)

lemma readRetries_fst: "fst (readRetriesNumber x s) = fst (readRetriesNumber x s')"
  by (simp add: readRetriesNumber_def split: prod.splits option.splits)

subsection \<open>Validation\<close>

lemma get_empty_id:
  "getEntityFromFirestore x cl c [] s =
     (Returned (None, Some (ErrorString ''entity ID is required field for get'')),
      snd (readRetriesNumber x s))"
  by (simp add: getEntityFromFirestore_def split: prod.splits)

lemma edit_empty_id:
  "editEntityInFirestore x cl c [] ent s =
     (Returned (Some (ErrorString ''Entity ID is required field for edit'')),
      snd (readRetriesNumber x s))"
  by (simp add: editEntityInFirestore_def split: prod.splits)

lemma delete_empty_id:
  "deleteEntityFromFirestore x cl c [] s =
     (Returned (None, Some (ErrorString ''Entity ID is required field for deletion'')),
      snd (readRetriesNumber x s))"
  by (simp add: deleteEntityFromFirestore_def split: prod.splits)

lemma add_unknown_collection:
  assumes "\<not> firestoreCollectionExists c"
  shows "addEntityToFirestore x cl c ent s =
     (Returned (None, Some (ErrorString (''Collection name '' @ quoted c @ '' does not exist''))),
      snd (readRetriesNumber x s))"
  using assms by (simp add: addEntityToFirestore_def split: prod.splits)

lemma get_unknown_collection:
  assumes "\<not> firestoreCollectionExists c" and "d \<noteq> []"
  shows "getEntityFromFirestore x cl c d s =
     (Returned (None, Some (ErrorString (''document name '' @ quoted c @ '' does not exist''))),
      snd (readRetriesNumber x s))"
  using assms by (simp add: getEntityFromFirestore_def split: prod.splits)

lemma edit_unknown_collection:
  assumes "\<not> firestoreCollectionExists c" and "d \<noteq> []"
  shows "editEntityInFirestore x cl c d ent s =
     (Returned (Some (ErrorString (''Document name '' @ quoted c @ '' does not exist''))),
      snd (readRetriesNumber x s))"
  using assms by (simp add: editEntityInFirestore_def split: prod.splits)

lemma delete_unknown_collection:
  assumes "\<not> firestoreCollectionExists c" and "d \<noteq> []"
  shows "deleteEntityFromFirestore x cl c d s =
     (Returned (None, Some (ErrorString ''Document name does not exist'')),
      snd (readRetriesNumber x s))"
  using assms by (simp add: deleteEntityFromFirestore_def split: prod.splits)

text \<open>
  When validation passes, a helper is its loop, started at \<open>i = 0\<close> with the retry count
  and the error that reading the configuration left.
\<close>

lemma add_valid:
  assumes "firestoreCollectionExists c"
  shows "addEntityToFirestore x cl c ent s =
         addEntityLoop x c ent (fst (fst (readRetriesNumber x s))) 0 cl
           (snd (fst (readRetriesNumber x s))) (snd (readRetriesNumber x s))"
  using assms by (simp add: addEntityToFirestore_def split: prod.splits)

lemma get_valid:
  assumes "firestoreCollectionExists c" and "d \<noteq> []"
  shows "getEntityFromFirestore x cl c d s =
         getEntityLoop x c d (fst (fst (readRetriesNumber x s))) 0 cl
           (snd (fst (readRetriesNumber x s))) (snd (readRetriesNumber x s))"
  using assms by (simp add: getEntityFromFirestore_def split: prod.splits)

lemma edit_valid:
  assumes "firestoreCollectionExists c" and "d \<noteq> []"
  shows "editEntityInFirestore x cl c d ent s =
         editEntityLoop x c d ent (fst (fst (readRetriesNumber x s))) 0 cl
           (snd (fst (readRetriesNumber x s))) (snd (readRetriesNumber x s))"
  using assms by (simp add: editEntityInFirestore_def split: prod.splits)

lemma delete_valid:
  assumes "firestoreCollectionExists c" and "d \<noteq> []"
  shows "deleteEntityFromFirestore x cl c d s =
         deleteEntityLoop x c d (fst (fst (readRetriesNumber x s))) 0 cl
           (snd (fst (readRetriesNumber x s))) (snd (readRetriesNumber x s))"
  using assms by (simp add: deleteEntityFromFirestore_def split: prod.splits)

lemma iterator_valid:
  "firebaseDocumentIteratorWithRetry x it s =
         documentIteratorLoop x it (fst (fst (readRetriesNumber x s))) 0
           (snd (fst (readRetriesNumber x s))) (snd (readRetriesNumber x s))"
  by (simp add: firebaseDocumentIteratorWithRetry_def split: prod.splits)

lemma readRetries_init:
  "backendCalls (snd (readRetriesNumber x init)) = 0"
  "refreshCalls (snd (readRetriesNumber x init)) = 0"
  by (simp_all add: readRetries_counts init_def)

lemma init_counts [simp]: "backendCalls init = 0" "refreshCalls init = 0" "logLines init = []"
  by (simp_all add: init_def)

subsection \<open>A retry count of one\<close>

lemma addEntityLoop_once:
  "backendCalls (snd (addEntityLoop x c ent 1 0 cl err s)) = Suc (backendCalls s)"
  using addEntityLoop_step[of 0 1 x c ent cl err s]
  by (auto simp: addEntityLoop_exit split: outcome.splits)

lemma getEntityLoop_once:
  "backendCalls (snd (getEntityLoop x c d 1 0 cl err s)) = Suc (backendCalls s)"
  using getEntityLoop_step[of 0 1 x c d cl err s]
  by (auto simp: getEntityLoop_exit split: outcome.splits)

lemma editEntityLoop_once:
  "backendCalls (snd (editEntityLoop x c d ent 1 0 cl err s)) = Suc (backendCalls s)"
  using editEntityLoop_step[of 0 1 x c d ent cl err s]
  by (auto simp: editEntityLoop_exit split: outcome.splits)

lemma deleteEntityLoop_once:
  "backendCalls (snd (deleteEntityLoop x c d 1 0 cl err s)) = Suc (backendCalls s)"
  using deleteEntityLoop_step[of 0 1 x c d cl err s]
  by (auto simp: deleteEntityLoop_exit split: outcome.splits)

lemma documentIteratorLoop_once:
  "backendCalls (snd (documentIteratorLoop x it 1 0 err s)) = Suc (backendCalls s)"
  using documentIteratorLoop_step[of 0 1 x it err s]
  by (auto simp: documentIteratorLoop_exit split: outcome.splits)

lemma add_extends:
  "extends (snd (readRetriesNumber x s)) (snd (addEntityToFirestore x cl c ent s))"
  by (cases "firestoreCollectionExists c")
     (simp_all add: add_valid add_unknown_collection addEntityLoop_extends)

lemma get_extends:
  "extends (snd (readRetriesNumber x s)) (snd (getEntityFromFirestore x cl c d s))"
  by (cases "d = []"; cases "firestoreCollectionExists c")
     (simp_all add: get_valid get_unknown_collection get_empty_id getEntityLoop_extends)

lemma edit_extends:
  "extends (snd (readRetriesNumber x s)) (snd (editEntityInFirestore x cl c d ent s))"
  by (cases "d = []"; cases "firestoreCollectionExists c")
     (simp_all add: edit_valid edit_unknown_collection edit_empty_id editEntityLoop_extends)

lemma delete_extends:
  "extends (snd (readRetriesNumber x s)) (snd (deleteEntityFromFirestore x cl c d s))"
  by (cases "d = []"; cases "firestoreCollectionExists c")
     (simp_all add: delete_valid delete_unknown_collection delete_empty_id deleteEntityLoop_extends)

lemma iterator_extends:
  "extends (snd (readRetriesNumber x s)) (snd (firebaseDocumentIteratorWithRetry x it s))"
  by (simp add: iterator_valid documentIteratorLoop_state)

subsection \<open>Refreshes and iterators\<close>

lemma refreshSucceeds_ex:
  assumes "refreshSucceeds x k"
  shows "\<exists>a cl. firebase_NewApp x k = (a, None) \<and> App_Firestore x k a = (cl, None)"
proof -
  obtain a e where na: "firebase_NewApp x k = (a, e)" by (cases "firebase_NewApp x k")
  obtain cl e' where fs: "App_Firestore x k a = (cl, e')" by (cases "App_Firestore x k a")
  from assms na fs show ?thesis by (simp add: refreshSucceeds_def)
qed

lemma refreshSucceeds_iff:
  "refreshSucceeds x k \<longleftrightarrow>
     (\<exists>a cl. firebase_NewApp x k = (a, None) \<and> App_Firestore x k a = (cl, None))"
  using refreshSucceeds_ex by (auto simp: refreshSucceeds_def)

lemma scripted_refreshSucceeds: "refreshSucceeds (scripted v b rf) k \<longleftrightarrow> rf k = None"
  by (simp add: refreshSucceeds_def scripted_sel split: option.splits)

lemma scripted_repeatsFirstError:
  assumes "\<And>k j. k \<le> j \<Longrightarrow> b k \<noteq> None \<Longrightarrow> b j = b k"
  shows "repeatsFirstError (scripted v b rf) it"
  unfolding repeatsFirstError_def
proof (intro allI impI)
  fix k j r e
  assume h: "Iter_Next (scripted v b rf) k it = (r, Some e) \<and> k \<le> j"
  then have bk: "b k = Some e" by (simp add: scripted_sel split: option.splits)
  with assms[of k j] h have "b j = Some e" by simp
  then show "snd (Iter_Next (scripted v b rf) j it) = Some e" by (simp add: scripted_sel)
qed

lemma readRetries_valid:
  assumes "fst (readRetriesNumber x init) = (n, err)"
  shows "fst (fst (readRetriesNumber x init)) = n" "snd (fst (readRetriesNumber x init)) = err"
  using assms by simp_all
section \<open>The claims\<close>

text \<open>
  C1, what the code does instead. Let the retry count be \<open>N \<ge> 1\<close>, let every backend
  invocation fail with a message the operation retries on, and let every connection refresh
  succeed. Each CRUD operation makes \<open>N\<close> backend invocations and \<open>N\<close> refreshes and then
  panics instead of returning the exceeded-retries error: the refresh has assigned nil to
  \<^verbatim>\<open>err\<close>, and the code after the loop calls \<^verbatim>\<open>err.Error()\<close>. The iterator makes \<open>N\<close>
  invocations and panics as well: the \<^verbatim>\<open>err\<close> read after its loop is the nil error of
  \<^verbatim>\<open>strconv.Atoi\<close>, not the error of \<^verbatim>\<open>iter.Next\<close>.
\<close>

theorem exhausted_retries_panic:
  fixes N :: nat
  assumes "strconv_Atoi x (os_Getenv x ''FIRESTORE_RETRIES_NUMBER'') = (int N, None)"
    and "1 \<le> N"
    and "firestoreCollectionExists c"
    and "d \<noteq> []"
    and "\<forall>k. \<exists>a cl'. firebase_NewApp x k = (a, None) \<and> App_Firestore x k a = (cl', None)"
    and "\<forall>k cl'. \<exists>r e. Collection_Add x k cl' c ent = (r, Some e)
            \<and> Error e = ClosingTransportError"
    and "\<forall>k cl'. \<exists>r e. Doc_Get x k cl' c d = (r, Some e)
            \<and> (Error e = ClosingTransportError
                \<or> strings_Contains (Error e) ''The service is temporarily unavailable'')"
    and "\<forall>k cl'. \<exists>e. Doc_Set x k cl' c d ent = Some e
            \<and> (Error e = ClosingTransportError
                \<or> strings_Contains (Error e) UnavailableServiceError)"
    and "\<forall>k cl'. \<exists>r e. Doc_Delete x k cl' c d = (r, Some e)
            \<and> Error e = ClosingTransportError"
    and "\<forall>k. \<exists>r e. Iter_Next x k it = (r, Some e) \<and> Error e = ClosingTransportError"
  shows "fst (addEntityToFirestore x cl c ent init) = Panicked
       \<and> backendCalls (snd (addEntityToFirestore x cl c ent init)) = N
       \<and> refreshCalls (snd (addEntityToFirestore x cl c ent init)) = N
       \<and> fst (getEntityFromFirestore x cl c d init) = Panicked
       \<and> backendCalls (snd (getEntityFromFirestore x cl c d init)) = N
       \<and> refreshCalls (snd (getEntityFromFirestore x cl c d init)) = N
       \<and> fst (editEntityInFirestore x cl c d ent init) = Panicked
       \<and> backendCalls (snd (editEntityInFirestore x cl c d ent init)) = N
       \<and> refreshCalls (snd (editEntityInFirestore x cl c d ent init)) = N
       \<and> fst (deleteEntityFromFirestore x cl c d init) = Panicked
       \<and> backendCalls (snd (deleteEntityFromFirestore x cl c d init)) = N
       \<and> refreshCalls (snd (deleteEntityFromFirestore x cl c d init)) = N
       \<and> fst (firebaseDocumentIteratorWithRetry x it init) = Panicked
       \<and> backendCalls (snd (firebaseDocumentIteratorWithRetry x it init)) = N
       \<and> refreshCalls (snd (firebaseDocumentIteratorWithRetry x it init)) = 0"
proof -
  have rr: "readRetriesNumber x init = ((int N, None), init)"
    by (rule readRetries_parsed[OF assms(1)])
  have le: "0 + int N \<le> int N" by simp
  have ex: "\<not> 0 + int N < int N" by simp
  have pos: "0 < N" using assms(2) by simp
  have rf: "\<And>j. j < N \<Longrightarrow>
      \<exists>a cl. firebase_NewApp x (refreshCalls init + j) = (a, None)
            \<and> App_Firestore x (refreshCalls init + j) a = (cl, None)"
    using assms(5) by simp
  have A: "fst (addEntityToFirestore x cl c ent init) = Panicked
       \<and> backendCalls (snd (addEntityToFirestore x cl c ent init)) = N
       \<and> refreshCalls (snd (addEntityToFirestore x cl c ent init)) = N"
  proof -
    have "\<And>j cl. j < N \<Longrightarrow>
        \<exists>r e. Collection_Add x (backendCalls init + j) cl c ent = (r, Some e)
            \<and> (Error e = ClosingTransportError)"
      using assms(6) by simp
    from addEntityLoop_run[OF this rf le, where cl = cl and err = None] pos obtain cl' s' where
      run: "addEntityLoop x c ent (int N) 0 cl None init =
            addEntityLoop x c ent (int N) (0 + int N) cl' None s'"
      and cnt: "backendCalls s' = N" "refreshCalls s' = N"
      by auto
    from addEntityLoop_exit[OF ex, where err = None] run cnt assms(3) show ?thesis
      by (simp add: add_valid rr)
  qed
  have B: "fst (getEntityFromFirestore x cl c d init) = Panicked
       \<and> backendCalls (snd (getEntityFromFirestore x cl c d init)) = N
       \<and> refreshCalls (snd (getEntityFromFirestore x cl c d init)) = N"
  proof -
    have "\<And>j cl. j < N \<Longrightarrow>
        \<exists>r e. Doc_Get x (backendCalls init + j) cl c d = (r, Some e)
            \<and> (Error e = ClosingTransportError
                \<or> strings_Contains (Error e) ''The service is temporarily unavailable'')"
      using assms(7) by simp
    from getEntityLoop_run[OF this rf le, where cl = cl and err = None] pos obtain cl' s' where
      run: "getEntityLoop x c d (int N) 0 cl None init =
            getEntityLoop x c d (int N) (0 + int N) cl' None s'"
      and cnt: "backendCalls s' = N" "refreshCalls s' = N"
      by auto
    from getEntityLoop_exit[OF ex, where err = None] run cnt assms(3,4) show ?thesis
      by (simp add: get_valid rr)
  qed
  have C: "fst (editEntityInFirestore x cl c d ent init) = Panicked
       \<and> backendCalls (snd (editEntityInFirestore x cl c d ent init)) = N
       \<and> refreshCalls (snd (editEntityInFirestore x cl c d ent init)) = N"
  proof -
    have "\<And>j cl. j < N \<Longrightarrow>
        \<exists>e. Doc_Set x (backendCalls init + j) cl c d ent = Some e
            \<and> (Error e = ClosingTransportError
                \<or> strings_Contains (Error e) UnavailableServiceError)"
      using assms(8) by simp
    from editEntityLoop_run[OF this rf le, where cl = cl and err = None] pos obtain cl' s' where
      run: "editEntityLoop x c d ent (int N) 0 cl None init =
            editEntityLoop x c d ent (int N) (0 + int N) cl' None s'"
      and cnt: "backendCalls s' = N" "refreshCalls s' = N"
      by auto
    from editEntityLoop_exit[OF ex, where err = None] run cnt assms(3,4) show ?thesis
      by (simp add: edit_valid rr)
  qed
  have D: "fst (deleteEntityFromFirestore x cl c d init) = Panicked
       \<and> backendCalls (snd (deleteEntityFromFirestore x cl c d init)) = N
       \<and> refreshCalls (snd (deleteEntityFromFirestore x cl c d init)) = N"
  proof -
    have "\<And>j cl. j < N \<Longrightarrow>
        \<exists>r e. Doc_Delete x (backendCalls init + j) cl c d = (r, Some e)
            \<and> (Error e = ClosingTransportError)"
      using assms(9) by simp
    from deleteEntityLoop_run[OF this rf le, where cl = cl and err = None] pos obtain cl' s' where
      run: "deleteEntityLoop x c d (int N) 0 cl None init =
            deleteEntityLoop x c d (int N) (0 + int N) cl' None s'"
      and cnt: "backendCalls s' = N" "refreshCalls s' = N"
      by auto
    from deleteEntityLoop_exit[OF ex, where err = None] run cnt assms(3,4) show ?thesis
      by (simp add: delete_valid rr)
  qed
  have E: "fst (firebaseDocumentIteratorWithRetry x it init) = Panicked
       \<and> backendCalls (snd (firebaseDocumentIteratorWithRetry x it init)) = N
       \<and> refreshCalls (snd (firebaseDocumentIteratorWithRetry x it init)) = 0"
  proof -
    have "\<And>j. j < N \<Longrightarrow>
        \<exists>r e. Iter_Next x (backendCalls init + j) it = (r, Some e)
            \<and> Error e = ClosingTransportError"
      using assms(10) by simp
    from documentIteratorLoop_run[OF this le, where err = None] have
      run: "documentIteratorLoop x it (int N) 0 None init =
            documentIteratorLoop x it (int N) (0 + int N) None
              (init\<lparr>backendCalls := backendCalls init + N\<rparr>)"
      by simp
    from documentIteratorLoop_exit[OF ex, where err = None] run show ?thesis
      by (simp add: iterator_valid rr)
  qed
  from A B C D E show ?thesis by blast
qed

theorem exhausted_retries_panic_witness:
  "addEntityToFirestore (scripted ''2'' alwaysClosing neverFails) (Some 0) ''users'' (Some []) init
     = (Panicked, \<lparr>backendCalls = 2, refreshCalls = 2, logLines = []\<rparr>)
   \<and> fst (getEntityFromFirestore (scripted ''2'' alwaysClosing neverFails) (Some 0) ''users'' ''u1'' init)
     = Panicked
   \<and> backendCalls (snd (getEntityFromFirestore (scripted ''2'' alwaysClosing neverFails)
        (Some 0) ''users'' ''u1'' init)) = 2
   \<and> fst (editEntityInFirestore (scripted ''2'' alwaysClosing neverFails) (Some 0) ''users'' ''u1''
        (Some []) init) = Panicked
   \<and> fst (deleteEntityFromFirestore (scripted ''2'' alwaysClosing neverFails) (Some 0) ''users'' ''u1'' init)
     = Panicked
   \<and> firebaseDocumentIteratorWithRetry (scripted ''2'' alwaysClosing neverFails) (Some 0) init
     = (Panicked, \<lparr>backendCalls = 2, refreshCalls = 0, logLines = []\<rparr>)"
proof -
  let ?x = "scripted ''2'' alwaysClosing neverFails"
  have h1: "strconv_Atoi ?x (os_Getenv ?x ''FIRESTORE_RETRIES_NUMBER'') = (int 2, None)"
    by (simp add: scripted_sel decimalAtoi_def)
  have h2: "(1::nat) \<le> 2" "''u1'' \<noteq> []" by simp_all
  have h3: "\<forall>k. \<exists>a cl'. firebase_NewApp ?x k = (a, None) \<and> App_Firestore ?x k a = (cl', None)"
    by (simp add: scripted_sel neverFails_def)
  have h4: "\<forall>k cl'. \<exists>r e. Collection_Add ?x k cl' ''users'' (Some []) = (r, Some e)
            \<and> Error e = ClosingTransportError"
    "\<forall>k cl'. \<exists>r e. Doc_Get ?x k cl' ''users'' ''u1'' = (r, Some e)
            \<and> (Error e = ClosingTransportError
                \<or> strings_Contains (Error e) ''The service is temporarily unavailable'')"
    "\<forall>k cl'. \<exists>e. Doc_Set ?x k cl' ''users'' ''u1'' (Some []) = Some e
            \<and> (Error e = ClosingTransportError
                \<or> strings_Contains (Error e) UnavailableServiceError)"
    "\<forall>k cl'. \<exists>r e. Doc_Delete ?x k cl' ''users'' ''u1'' = (r, Some e)
            \<and> Error e = ClosingTransportError"
    "\<forall>k. \<exists>r e. Iter_Next ?x k (Some 0) = (r, Some e) \<and> Error e = ClosingTransportError"
    by (simp_all add: scripted_sel alwaysClosing_def)
  from exhausted_retries_panic[OF h1 h2(1) users_exists h2(2) h3 h4, of "Some 0"]
  have "fst (addEntityToFirestore ?x (Some 0) ''users'' (Some []) init) = Panicked
      \<and> fst (getEntityFromFirestore ?x (Some 0) ''users'' ''u1'' init) = Panicked
      \<and> backendCalls (snd (getEntityFromFirestore ?x (Some 0) ''users'' ''u1'' init)) = 2
      \<and> fst (editEntityInFirestore ?x (Some 0) ''users'' ''u1'' (Some []) init) = Panicked
      \<and> fst (deleteEntityFromFirestore ?x (Some 0) ''users'' ''u1'' init) = Panicked"
    by simp
  moreover have "addEntityToFirestore ?x (Some 0) ''users'' (Some []) init
     = (Panicked, \<lparr>backendCalls = 2, refreshCalls = 2, logLines = []\<rparr>)"
    by code_simp
  moreover have "firebaseDocumentIteratorWithRetry ?x (Some 0) init
     = (Panicked, \<lparr>backendCalls = 2, refreshCalls = 0, logLines = []\<rparr>)"
    by code_simp
  ultimately show ?thesis by blast
qed

text \<open>
  C2, a steady-state call that panics. The environment variable is unset, so the retry
  count is 1; the only backend invocation fails with the transport-is-closing message and
  the connection refresh succeeds. Each CRUD operation then leaves its loop with a nil
  \<^verbatim>\<open>err\<close> and panics on \<^verbatim>\<open>err.Error()\<close>, after one backend invocation and one refresh.
  The iterator panics in the same way when the variable is set to 1.
\<close>

theorem default_configuration_panic:
  "fst (addEntityToFirestore (scripted [] (closingUntil 1) neverFails) (Some 0) ''users'' (Some []) init)
     = Panicked
   \<and> fst (getEntityFromFirestore (scripted [] (closingUntil 1) neverFails) (Some 0) ''users'' ''u1'' init)
     = Panicked
   \<and> fst (editEntityInFirestore (scripted [] (closingUntil 1) neverFails) (Some 0) ''users'' ''u1''
        (Some []) init) = Panicked
   \<and> fst (deleteEntityFromFirestore (scripted [] (closingUntil 1) neverFails) (Some 0) ''users'' ''u1'' init)
     = Panicked
   \<and> backendCalls (snd (getEntityFromFirestore (scripted [] (closingUntil 1) neverFails)
        (Some 0) ''users'' ''u1'' init)) = 1
   \<and> refreshCalls (snd (getEntityFromFirestore (scripted [] (closingUntil 1) neverFails)
        (Some 0) ''users'' ''u1'' init)) = 1
   \<and> fst (firebaseDocumentIteratorWithRetry (scripted ''1'' (closingUntil 1) neverFails) (Some 0) init)
     = Panicked"
  by code_simp

text \<open>
  C3, as the code has it. The five operations do not share one rule; each applies its own
  to the backend error of every attempt. Take attempt number \<open>k\<close> of a call (counted from
  0, within the retry count), reached after \<open>k\<close> retried attempts. In add and delete the
  error of that attempt is retried exactly when its message equals the transport-is-closing
  text; in get exactly when it equals that text or contains ``The service is temporarily
  unavailable''; in edit exactly when it equals that text or contains the whole text of
  \<open>UnavailableServiceError\<close>. A retried error makes these four operations refresh the
  connection, and when that refresh succeeds and the retry count is not used up another
  backend invocation follows. An error that is not retried ends the call at once with the
  operation's wrapped error, after \<open>k + 1\<close> backend invocations and \<open>k\<close> refreshes. The
  iterator retries exactly on the transport-is-closing text, never refreshes a connection,
  invokes \<^verbatim>\<open>Next\<close> again when the retry count is not used up, and otherwise ends the call
  at once with \<^verbatim>\<open>iterator.Done\<close> as it is or with any other error wrapped.
\<close>

theorem retry_rule_of_each_operation:
  assumes "fst (readRetriesNumber x init) = (n, err)"
    and "int k < n"
  shows "(firestoreCollectionExists c
          \<and> (\<forall>j<k. refreshSucceeds x j)
          \<and> (\<forall>j<k. \<forall>cl'. \<exists>r e. Collection_Add x j cl' c ent = (r, Some e)
              \<and> (Error e = ClosingTransportError))
          \<and> (\<forall>cl'. \<exists>r. Collection_Add x k cl' c ent = (r, Some e1))
        \<longrightarrow> ((Error e1 = ClosingTransportError) \<longrightarrow>
               Suc k \<le> refreshCalls (snd (addEntityToFirestore x cl c ent init))
               \<and> (refreshSucceeds x k \<and> int k + 1 < n \<longrightarrow>
                    Suc (Suc k) \<le> backendCalls (snd (addEntityToFirestore x cl c ent init))))
          \<and> (Error e1 \<noteq> ClosingTransportError \<longrightarrow>
               fst (addEntityToFirestore x cl c ent init) =
                 Returned (None, Some (ErrorString
                (''Unsuccessful adding data to the '' @ quoted c @ '' collection, Error: '' @ Error e1)))
               \<and> backendCalls (snd (addEntityToFirestore x cl c ent init)) = Suc k
               \<and> refreshCalls (snd (addEntityToFirestore x cl c ent init)) = k))
       \<and> (firestoreCollectionExists c \<and> d \<noteq> []
          \<and> (\<forall>j<k. refreshSucceeds x j)
          \<and> (\<forall>j<k. \<forall>cl'. \<exists>r e. Doc_Get x j cl' c d = (r, Some e)
              \<and> (Error e = ClosingTransportError
              \<or> strings_Contains (Error e) ''The service is temporarily unavailable''))
          \<and> (\<forall>cl'. \<exists>r. Doc_Get x k cl' c d = (r, Some e2))
        \<longrightarrow> ((Error e2 = ClosingTransportError
              \<or> strings_Contains (Error e2) ''The service is temporarily unavailable'') \<longrightarrow>
               Suc k \<le> refreshCalls (snd (getEntityFromFirestore x cl c d init))
               \<and> (refreshSucceeds x k \<and> int k + 1 < n \<longrightarrow>
                    Suc (Suc k) \<le> backendCalls (snd (getEntityFromFirestore x cl c d init))))
          \<and> (\<not> (Error e2 = ClosingTransportError
              \<or> strings_Contains (Error e2) ''The service is temporarily unavailable'') \<longrightarrow>
               fst (getEntityFromFirestore x cl c d init) =
                 Returned (None, Some (ErrorString
                (''unsuccessful getting data from the '' @ quoted c @ '' collection, Error: '' @ Error e2)))
               \<and> backendCalls (snd (getEntityFromFirestore x cl c d init)) = Suc k
               \<and> refreshCalls (snd (getEntityFromFirestore x cl c d init)) = k))
       \<and> (firestoreCollectionExists c \<and> d \<noteq> []
          \<and> (\<forall>j<k. refreshSucceeds x j)
          \<and> (\<forall>j<k. \<forall>cl'. \<exists>e. Doc_Set x j cl' c d ent = Some e
              \<and> (Error e = ClosingTransportError
              \<or> strings_Contains (Error e) UnavailableServiceError))
          \<and> (\<forall>cl'. Doc_Set x k cl' c d ent = Some e3)
        \<longrightarrow> ((Error e3 = ClosingTransportError
              \<or> strings_Contains (Error e3) UnavailableServiceError) \<longrightarrow>
               Suc k \<le> refreshCalls (snd (editEntityInFirestore x cl c d ent init))
               \<and> (refreshSucceeds x k \<and> int k + 1 < n \<longrightarrow>
                    Suc (Suc k) \<le> backendCalls (snd (editEntityInFirestore x cl c d ent init))))
          \<and> (\<not> (Error e3 = ClosingTransportError
              \<or> strings_Contains (Error e3) UnavailableServiceError) \<longrightarrow>
               fst (editEntityInFirestore x cl c d ent init) =
                 Returned (Some (ErrorString
                (''Unsuccessful updating '' @ quoted d @ '' in the '' @ quoted c
                  @ '' collection, Error: '' @ Error e3)))
               \<and> backendCalls (snd (editEntityInFirestore x cl c d ent init)) = Suc k
               \<and> refreshCalls (snd (editEntityInFirestore x cl c d ent init)) = k))
       \<and> (firestoreCollectionExists c \<and> d \<noteq> []
          \<and> (\<forall>j<k. refreshSucceeds x j)
          \<and> (\<forall>j<k. \<forall>cl'. \<exists>r e. Doc_Delete x j cl' c d = (r, Some e)
              \<and> (Error e = ClosingTransportError))
          \<and> (\<forall>cl'. \<exists>r. Doc_Delete x k cl' c d = (r, Some e4))
        \<longrightarrow> ((Error e4 = ClosingTransportError) \<longrightarrow>
               Suc k \<le> refreshCalls (snd (deleteEntityFromFirestore x cl c d init))
               \<and> (refreshSucceeds x k \<and> int k + 1 < n \<longrightarrow>
                    Suc (Suc k) \<le> backendCalls (snd (deleteEntityFromFirestore x cl c d init))))
          \<and> (Error e4 \<noteq> ClosingTransportError \<longrightarrow>
               fst (deleteEntityFromFirestore x cl c d init) =
                 Returned (None, Some (ErrorString
                (''Unsuccessful deletion '' @ d @ '' from '' @ c @ '' collection, Error: '' @ Error e4)))
               \<and> backendCalls (snd (deleteEntityFromFirestore x cl c d init)) = Suc k
               \<and> refreshCalls (snd (deleteEntityFromFirestore x cl c d init)) = k))
       \<and> ((\<forall>j<k. \<exists>r e. Iter_Next x j it = (r, Some e) \<and> Error e = ClosingTransportError)
          \<and> Iter_Next x k it = (r5, Some e5)
        \<longrightarrow> refreshCalls (snd (firebaseDocumentIteratorWithRetry x it init)) = 0
          \<and> (Error e5 = ClosingTransportError \<and> int k + 1 < n \<longrightarrow>
               Suc (Suc k) \<le> backendCalls (snd (firebaseDocumentIteratorWithRetry x it init)))
          \<and> (Error e5 \<noteq> ClosingTransportError \<longrightarrow>
               fst (firebaseDocumentIteratorWithRetry x it init) =
                 Returned (None, Some (if e5 = IteratorDone then IteratorDone
                   else ErrorString (''Unsuccessful document iteration, Error: '' @ Error e5)))
               \<and> backendCalls (snd (firebaseDocumentIteratorWithRetry x it init)) = Suc k))"
proof -
  let ?s0 = "snd (readRetriesNumber x init)"
  have nv: "fst (fst (readRetriesNumber x init)) = n" "snd (fst (readRetriesNumber x init)) = err"
    using assms(1) by simp_all
  have b0: "backendCalls ?s0 = 0" and r0: "refreshCalls ?s0 = 0"
    by (simp_all add: readRetries_init)
  have lt: "0 + int k < n" using assms(2) by simp
  show ?thesis
    apply (intro conjI)
    subgoal
      apply (rule impI)
      subgoal premises h
      proof -
        from h have ex: "firestoreCollectionExists c" by simp
        have eq: "addEntityToFirestore x cl c ent init = addEntityLoop x c ent n 0 cl err ?s0"
          using add_valid[OF ex, of x cl ent init] nv by simp
        have fail: "\<And>j cl. j < k \<Longrightarrow> \<exists>r e. Collection_Add x (backendCalls ?s0 + j) cl c ent = (r, Some e)
            \<and> (Error e = ClosingTransportError)"
          using h b0 by simp
        have rf: "\<And>j. j < k \<Longrightarrow> \<exists>a cl. firebase_NewApp x (refreshCalls ?s0 + j) = (a, None)
            \<and> App_Firestore x (refreshCalls ?s0 + j) a = (cl, None)"
          using h r0 by (simp add: refreshSucceeds_iff)
        have at: "\<And>cl. \<exists>r. Collection_Add x (backendCalls ?s0 + k) cl c ent = (r, Some e1)"
          using h b0 by simp
        from addEntityLoop_attempt[OF fail rf lt at, where cl = cl and err = err]
        show ?thesis
          unfolding eq using b0 r0 by (simp add: refreshSucceeds_iff)
      qed
      done
    subgoal
      apply (rule impI)
      subgoal premises h
      proof -
        from h have ex: "firestoreCollectionExists c" by simp
        from h have ne: "d \<noteq> []" by simp
        have eq: "getEntityFromFirestore x cl c d init = getEntityLoop x c d n 0 cl err ?s0"
          using get_valid[OF ex ne, of x cl init] nv by simp
        have fail: "\<And>j cl. j < k \<Longrightarrow> \<exists>r e. Doc_Get x (backendCalls ?s0 + j) cl c d = (r, Some e)
            \<and> (Error e = ClosingTransportError
              \<or> strings_Contains (Error e) ''The service is temporarily unavailable'')"
          using h b0 by simp
        have rf: "\<And>j. j < k \<Longrightarrow> \<exists>a cl. firebase_NewApp x (refreshCalls ?s0 + j) = (a, None)
            \<and> App_Firestore x (refreshCalls ?s0 + j) a = (cl, None)"
          using h r0 by (simp add: refreshSucceeds_iff)
        have at: "\<And>cl. \<exists>r. Doc_Get x (backendCalls ?s0 + k) cl c d = (r, Some e2)"
          using h b0 by simp
        from getEntityLoop_attempt[OF fail rf lt at, where cl = cl and err = err]
        show ?thesis
          unfolding eq using b0 r0 by (simp add: refreshSucceeds_iff)
      qed
      done
    subgoal
      apply (rule impI)
      subgoal premises h
      proof -
        from h have ex: "firestoreCollectionExists c" by simp
        from h have ne: "d \<noteq> []" by simp
        have eq: "editEntityInFirestore x cl c d ent init = editEntityLoop x c d ent n 0 cl err ?s0"
          using edit_valid[OF ex ne, of x cl ent init] nv by simp
        have fail: "\<And>j cl. j < k \<Longrightarrow> \<exists>e. Doc_Set x (backendCalls ?s0 + j) cl c d ent = Some e
            \<and> (Error e = ClosingTransportError
              \<or> strings_Contains (Error e) UnavailableServiceError)"
          using h b0 by simp
        have rf: "\<And>j. j < k \<Longrightarrow> \<exists>a cl. firebase_NewApp x (refreshCalls ?s0 + j) = (a, None)
            \<and> App_Firestore x (refreshCalls ?s0 + j) a = (cl, None)"
          using h r0 by (simp add: refreshSucceeds_iff)
        have at: "\<And>cl. Doc_Set x (backendCalls ?s0 + k) cl c d ent = Some e3"
          using h b0 by simp
        from editEntityLoop_attempt[OF fail rf lt at, where cl = cl and err = err]
        show ?thesis
          unfolding eq using b0 r0 by (simp add: refreshSucceeds_iff)
      qed
      done
    subgoal
      apply (rule impI)
      subgoal premises h
      proof -
        from h have ex: "firestoreCollectionExists c" by simp
        from h have ne: "d \<noteq> []" by simp
        have eq: "deleteEntityFromFirestore x cl c d init = deleteEntityLoop x c d n 0 cl err ?s0"
          using delete_valid[OF ex ne, of x cl init] nv by simp
        have fail: "\<And>j cl. j < k \<Longrightarrow> \<exists>r e. Doc_Delete x (backendCalls ?s0 + j) cl c d = (r, Some e)
            \<and> (Error e = ClosingTransportError)"
          using h b0 by simp
        have rf: "\<And>j. j < k \<Longrightarrow> \<exists>a cl. firebase_NewApp x (refreshCalls ?s0 + j) = (a, None)
            \<and> App_Firestore x (refreshCalls ?s0 + j) a = (cl, None)"
          using h r0 by (simp add: refreshSucceeds_iff)
        have at: "\<And>cl. \<exists>r. Doc_Delete x (backendCalls ?s0 + k) cl c d = (r, Some e4)"
          using h b0 by simp
        from deleteEntityLoop_attempt[OF fail rf lt at, where cl = cl and err = err]
        show ?thesis
          unfolding eq using b0 r0 by (simp add: refreshSucceeds_iff)
      qed
      done
    subgoal
      apply (rule impI)
      subgoal premises h
      proof -
        have eq: "firebaseDocumentIteratorWithRetry x it init = documentIteratorLoop x it n 0 err ?s0"
          using iterator_valid[of x it init] nv by simp
        have fail: "\<And>j. j < k \<Longrightarrow> \<exists>r e. Iter_Next x (backendCalls ?s0 + j) it = (r, Some e)
            \<and> Error e = ClosingTransportError"
          using h b0 by simp
        have at: "Iter_Next x (backendCalls ?s0 + k) it = (r5, Some e5)"
          using h b0 by simp
        from documentIteratorLoop_attempt[OF fail lt at, where err = err]
          documentIteratorLoop_state[of ?s0 x it n 0 err]
        show ?thesis
          unfolding eq using b0 r0 by simp
      qed
      done
    done
qed

theorem retry_rule_of_each_operation_witness:
  "fst (addEntityToFirestore (scripted ''3'' (closingThen 1 (ErrorString ''permission denied'')) neverFails)
         (Some 0) ''users'' (Some []) init) =
     Returned (None, Some (ErrorString
       (''Unsuccessful adding data to the '' @ quoted ''users''
         @ '' collection, Error: permission denied'')))
   \<and> backendCalls (snd (addEntityToFirestore
         (scripted ''3'' (closingThen 1 (ErrorString ''permission denied'')) neverFails)
         (Some 0) ''users'' (Some []) init)) = 2
   \<and> refreshCalls (snd (addEntityToFirestore
         (scripted ''3'' (closingThen 1 (ErrorString ''permission denied'')) neverFails)
         (Some 0) ''users'' (Some []) init)) = 1
   \<and> backendCalls (snd (getEntityFromFirestore
         (scripted ''3'' (closingThen 1 (ErrorString ''permission denied'')) neverFails)
         (Some 0) ''users'' ''u1'' init)) = 2
   \<and> refreshCalls (snd (editEntityInFirestore
         (scripted ''3'' (closingThen 1 (ErrorString ''permission denied'')) neverFails)
         (Some 0) ''users'' ''u1'' (Some []) init)) = 1
   \<and> backendCalls (snd (deleteEntityFromFirestore
         (scripted ''3'' (closingThen 1 (ErrorString ''permission denied'')) neverFails)
         (Some 0) ''users'' ''u1'' init)) = 2
   \<and> 2 \<le> refreshCalls (snd (getEntityFromFirestore (scripted ''3'' alwaysClosing neverFails)
         (Some 0) ''users'' ''u1'' init))
   \<and> 3 \<le> backendCalls (snd (getEntityFromFirestore (scripted ''3'' alwaysClosing neverFails)
         (Some 0) ''users'' ''u1'' init))
   \<and> 3 \<le> backendCalls (snd (firebaseDocumentIteratorWithRetry (scripted ''3'' alwaysClosing neverFails)
         (Some 0) init))
   \<and> refreshCalls (snd (firebaseDocumentIteratorWithRetry (scripted ''3'' alwaysClosing neverFails)
         (Some 0) init)) = 0"
proof -
  let ?e = "ErrorString ''permission denied''"
  let ?x = "scripted ''3'' (closingThen 1 ?e) neverFails"
  let ?y = "scripted ''3'' alwaysClosing neverFails"
  let ?c = "ErrorString ClosingTransportError"
  have hx: "fst (readRetriesNumber ?x init) = (3, None)"
    by (simp add: readRetriesNumber_def scripted_sel decimalAtoi_def)
  have hy: "fst (readRetriesNumber ?y init) = (3, None)"
    by (simp add: readRetriesNumber_def scripted_sel decimalAtoi_def)
  have k: "int 1 < 3" by simp
  have ne: "Error ?e \<noteq> ClosingTransportError"
    "\<not> strings_Contains (Error ?e) ''The service is temporarily unavailable''"
    "\<not> strings_Contains (Error ?e) UnavailableServiceError"
    by (simp_all add: ClosingTransportError_def UnavailableServiceError_def strings_Contains_def
        sublist_code)
  note tx = retry_rule_of_each_operation[OF hx k, where c = "''users''" and d = "''u1''"
      and ent = "Some []" and cl = "Some 0" and it = "Some 0"
      and ?e1.0 = ?e and ?e2.0 = ?e and ?e3.0 = ?e and ?e4.0 = ?e and ?e5.0 = ?e and ?r5.0 = None]
  note ty = retry_rule_of_each_operation[OF hy k, where c = "''users''" and d = "''u1''"
      and ent = "Some []" and cl = "Some 0" and it = "Some 0"
      and ?e1.0 = ?c and ?e2.0 = ?c and ?e3.0 = ?c and ?e4.0 = ?c and ?e5.0 = ?c and ?r5.0 = None]
  have A: "fst (addEntityToFirestore ?x (Some 0) ''users'' (Some []) init) =
       Returned (None, Some (ErrorString
         (''Unsuccessful adding data to the '' @ quoted ''users''
           @ '' collection, Error: permission denied'')))
     \<and> backendCalls (snd (addEntityToFirestore ?x (Some 0) ''users'' (Some []) init)) = 2
     \<and> refreshCalls (snd (addEntityToFirestore ?x (Some 0) ''users'' (Some []) init)) = 1"
    using tx[THEN conjunct1] ne
    by (simp add: users_exists scripted_refreshSucceeds scripted_sel closingThen_def neverFails_def)
  have B: "backendCalls (snd (getEntityFromFirestore ?x (Some 0) ''users'' ''u1'' init)) = 2"
    using tx[THEN conjunct2, THEN conjunct1] ne
    by (simp add: users_exists scripted_refreshSucceeds scripted_sel closingThen_def neverFails_def)
  have C: "refreshCalls (snd (editEntityInFirestore ?x (Some 0) ''users'' ''u1'' (Some []) init)) = 1"
    using tx[THEN conjunct2, THEN conjunct2, THEN conjunct1] ne
    by (simp add: users_exists scripted_refreshSucceeds scripted_sel closingThen_def neverFails_def)
  have D: "backendCalls (snd (deleteEntityFromFirestore ?x (Some 0) ''users'' ''u1'' init)) = 2"
    using tx[THEN conjunct2, THEN conjunct2, THEN conjunct2, THEN conjunct1] ne
    by (simp add: users_exists scripted_refreshSucceeds scripted_sel closingThen_def neverFails_def)
  have G: "2 \<le> refreshCalls (snd (getEntityFromFirestore ?y (Some 0) ''users'' ''u1'' init))
     \<and> 3 \<le> backendCalls (snd (getEntityFromFirestore ?y (Some 0) ''users'' ''u1'' init))"
    using ty[THEN conjunct2, THEN conjunct1]
    by (simp add: users_exists scripted_refreshSucceeds scripted_sel alwaysClosing_def neverFails_def)
  have I: "3 \<le> backendCalls (snd (firebaseDocumentIteratorWithRetry ?y (Some 0) init))
     \<and> refreshCalls (snd (firebaseDocumentIteratorWithRetry ?y (Some 0) init)) = 0"
    using ty[THEN conjunct2, THEN conjunct2, THEN conjunct2, THEN conjunct2]
    by (simp add: scripted_sel alwaysClosing_def)
  from A B C D G I show ?thesis by blast
qed

text \<open>
  The claim C3 as it is written fails for add: a backend error whose message is exactly the
  service-temporarily-unavailable text is not retried. With a retry count of 3 the call
  returns the wrapped error after one invocation and no refresh, while get, given the same
  backend, refreshes and invokes the backend three times.
\<close>

theorem add_service_unavailable_counterexample:
  "addEntityToFirestore (scripted ''3'' (\<lambda>k. Some (ErrorString UnavailableServiceError)) neverFails)
       (Some 0) ''users'' (Some []) init
     = (Returned (None, Some (ErrorString
          (''Unsuccessful adding data to the '' @ quoted ''users'' @ '' collection, Error: ''
            @ UnavailableServiceError))),
        \<lparr>backendCalls = 1, refreshCalls = 0, logLines = []\<rparr>)
   \<and> backendCalls (snd (getEntityFromFirestore
        (scripted ''3'' (\<lambda>k. Some (ErrorString UnavailableServiceError)) neverFails)
        (Some 0) ''users'' ''u1'' init)) = 3
   \<and> refreshCalls (snd (getEntityFromFirestore
        (scripted ''3'' (\<lambda>k. Some (ErrorString UnavailableServiceError)) neverFails)
        (Some 0) ''users'' ''u1'' init)) = 3"
  by code_simp

text \<open>
  C4, as the code has it. Let the retry count be \<open>N \<ge> 1\<close>, let the first \<open>N - 1\<close> backend
  invocations fail with a message that the operation retries on, and let invocation \<open>N\<close>
  succeed. Each of the four CRUD operations, provided that every connection refresh
  succeeds, returns the result of the last invocation after exactly \<open>N\<close> backend
  invocations and \<open>N - 1\<close> connection refreshes. The same holds for the iterator; as a
  \<^verbatim>\<open>firestore.DocumentIterator\<close> repeats its first error, a failure of \<^verbatim>\<open>Next\<close> is never
  followed by a success, so for the iterator the condition can only be met with \<open>N = 1\<close>.
\<close>

theorem transient_failures_then_success:
  fixes N :: nat
  assumes "fst (readRetriesNumber x init) = (int N, err)"
    and "1 \<le> N"
  shows "(firestoreCollectionExists c
          \<and> (\<forall>k<N - 1. refreshSucceeds x k)
          \<and> (\<forall>k<N - 1. \<forall>cl'. \<exists>r e. Collection_Add x k cl' c ent = (r, Some e)
              \<and> (Error e = ClosingTransportError))
          \<and> (\<forall>cl'. Collection_Add x (N - 1) cl' c ent = (r1, None))
        \<longrightarrow> fst (addEntityToFirestore x cl c ent init) = Returned (r1, None)
          \<and> backendCalls (snd (addEntityToFirestore x cl c ent init)) = N
          \<and> refreshCalls (snd (addEntityToFirestore x cl c ent init)) = N - 1)
       \<and> (firestoreCollectionExists c \<and> d \<noteq> []
          \<and> (\<forall>k<N - 1. refreshSucceeds x k)
          \<and> (\<forall>k<N - 1. \<forall>cl'. \<exists>r e. Doc_Get x k cl' c d = (r, Some e)
              \<and> (Error e = ClosingTransportError
              \<or> strings_Contains (Error e) ''The service is temporarily unavailable''))
          \<and> (\<forall>cl'. Doc_Get x (N - 1) cl' c d = (r2, None))
        \<longrightarrow> fst (getEntityFromFirestore x cl c d init) = Returned (r2, None)
          \<and> backendCalls (snd (getEntityFromFirestore x cl c d init)) = N
          \<and> refreshCalls (snd (getEntityFromFirestore x cl c d init)) = N - 1)
       \<and> (firestoreCollectionExists c \<and> d \<noteq> []
          \<and> (\<forall>k<N - 1. refreshSucceeds x k)
          \<and> (\<forall>k<N - 1. \<forall>cl'. \<exists>e. Doc_Set x k cl' c d ent = Some e
              \<and> (Error e = ClosingTransportError
              \<or> strings_Contains (Error e) UnavailableServiceError))
          \<and> (\<forall>cl'. Doc_Set x (N - 1) cl' c d ent = None)
        \<longrightarrow> fst (editEntityInFirestore x cl c d ent init) = Returned None
          \<and> backendCalls (snd (editEntityInFirestore x cl c d ent init)) = N
          \<and> refreshCalls (snd (editEntityInFirestore x cl c d ent init)) = N - 1)
       \<and> (firestoreCollectionExists c \<and> d \<noteq> []
          \<and> (\<forall>k<N - 1. refreshSucceeds x k)
          \<and> (\<forall>k<N - 1. \<forall>cl'. \<exists>r e. Doc_Delete x k cl' c d = (r, Some e)
              \<and> (Error e = ClosingTransportError))
          \<and> (\<forall>cl'. Doc_Delete x (N - 1) cl' c d = (r4, None))
        \<longrightarrow> fst (deleteEntityFromFirestore x cl c d init) = Returned (r4, None)
          \<and> backendCalls (snd (deleteEntityFromFirestore x cl c d init)) = N
          \<and> refreshCalls (snd (deleteEntityFromFirestore x cl c d init)) = N - 1)
       \<and> (repeatsFirstError x it
          \<and> (\<forall>k<N - 1. \<exists>r e. Iter_Next x k it = (r, Some e) \<and> Error e = ClosingTransportError)
          \<and> Iter_Next x (N - 1) it = (r5, None)
        \<longrightarrow> N = 1
          \<and> fst (firebaseDocumentIteratorWithRetry x it init) = Returned (r5, None)
          \<and> backendCalls (snd (firebaseDocumentIteratorWithRetry x it init)) = N
          \<and> refreshCalls (snd (firebaseDocumentIteratorWithRetry x it init)) = N - 1)"
proof -
  let ?s0 = "snd (readRetriesNumber x init)"
  have nv: "fst (fst (readRetriesNumber x init)) = int N" "snd (fst (readRetriesNumber x init)) = err"
    using assms(1) by simp_all
  have b0: "backendCalls ?s0 = 0" and r0: "refreshCalls ?s0 = 0"
    by (simp_all add: readRetries_init)
  have le: "0 + int (N - 1) \<le> int N" by simp
  have lt: "0 + int (N - 1) < int N" using assms(2) by simp
  show ?thesis
    apply (intro conjI)
    subgoal
      apply (rule impI)
      subgoal premises h
      proof -
        from h have ex: "firestoreCollectionExists c" by simp
        have eq: "addEntityToFirestore x cl c ent init = addEntityLoop x c ent (int N) 0 cl err ?s0"
          using add_valid[OF ex, of x cl ent init] nv by simp
        have fail: "\<And>j cl. j < N - 1 \<Longrightarrow> \<exists>r e. Collection_Add x (backendCalls ?s0 + j) cl c ent = (r, Some e)
            \<and> (Error e = ClosingTransportError)"
          using h b0 by simp
        have rf: "\<And>j. j < N - 1 \<Longrightarrow> \<exists>a cl. firebase_NewApp x (refreshCalls ?s0 + j) = (a, None)
            \<and> App_Firestore x (refreshCalls ?s0 + j) a = (cl, None)"
          using h r0 by (simp add: refreshSucceeds_iff)
        from addEntityLoop_run[OF fail rf le, where cl = cl and err = err] obtain cl' err' s' where
          run: "addEntityLoop x c ent (int N) 0 cl err ?s0 =
                addEntityLoop x c ent (int N) (0 + int (N - 1)) cl' err' s'"
          and cnt: "backendCalls s' = N - 1" "refreshCalls s' = N - 1"
          using b0 r0 by auto
        have ok: "Collection_Add x (backendCalls s') cl' c ent = (r1, None)"
          using h cnt by simp
        from addEntityLoop_success[OF lt ok, where err = "err'"] run cnt assms(2)
        show ?thesis
          unfolding eq by simp
      qed
      done
    subgoal
      apply (rule impI)
      subgoal premises h
      proof -
        from h have ex: "firestoreCollectionExists c" by simp
        from h have ne: "d \<noteq> []" by simp
        have eq: "getEntityFromFirestore x cl c d init = getEntityLoop x c d (int N) 0 cl err ?s0"
          using get_valid[OF ex ne, of x cl init] nv by simp
        have fail: "\<And>j cl. j < N - 1 \<Longrightarrow> \<exists>r e. Doc_Get x (backendCalls ?s0 + j) cl c d = (r, Some e)
            \<and> (Error e = ClosingTransportError
              \<or> strings_Contains (Error e) ''The service is temporarily unavailable'')"
          using h b0 by simp
        have rf: "\<And>j. j < N - 1 \<Longrightarrow> \<exists>a cl. firebase_NewApp x (refreshCalls ?s0 + j) = (a, None)
            \<and> App_Firestore x (refreshCalls ?s0 + j) a = (cl, None)"
          using h r0 by (simp add: refreshSucceeds_iff)
        from getEntityLoop_run[OF fail rf le, where cl = cl and err = err] obtain cl' err' s' where
          run: "getEntityLoop x c d (int N) 0 cl err ?s0 =
                getEntityLoop x c d (int N) (0 + int (N - 1)) cl' err' s'"
          and cnt: "backendCalls s' = N - 1" "refreshCalls s' = N - 1"
          using b0 r0 by auto
        have ok: "Doc_Get x (backendCalls s') cl' c d = (r2, None)"
          using h cnt by simp
        from getEntityLoop_success[OF lt ok, where err = "err'"] run cnt assms(2)
        show ?thesis
          unfolding eq by simp
      qed
      done
    subgoal
      apply (rule impI)
      subgoal premises h
      proof -
        from h have ex: "firestoreCollectionExists c" by simp
        from h have ne: "d \<noteq> []" by simp
        have eq: "editEntityInFirestore x cl c d ent init = editEntityLoop x c d ent (int N) 0 cl err ?s0"
          using edit_valid[OF ex ne, of x cl ent init] nv by simp
        have fail: "\<And>j cl. j < N - 1 \<Longrightarrow> \<exists>e. Doc_Set x (backendCalls ?s0 + j) cl c d ent = Some e
            \<and> (Error e = ClosingTransportError
              \<or> strings_Contains (Error e) UnavailableServiceError)"
          using h b0 by simp
        have rf: "\<And>j. j < N - 1 \<Longrightarrow> \<exists>a cl. firebase_NewApp x (refreshCalls ?s0 + j) = (a, None)
            \<and> App_Firestore x (refreshCalls ?s0 + j) a = (cl, None)"
          using h r0 by (simp add: refreshSucceeds_iff)
        from editEntityLoop_run[OF fail rf le, where cl = cl and err = err] obtain cl' err' s' where
          run: "editEntityLoop x c d ent (int N) 0 cl err ?s0 =
                editEntityLoop x c d ent (int N) (0 + int (N - 1)) cl' err' s'"
          and cnt: "backendCalls s' = N - 1" "refreshCalls s' = N - 1"
          using b0 r0 by auto
        have ok: "Doc_Set x (backendCalls s') cl' c d ent = None"
          using h cnt by simp
        from editEntityLoop_success[OF lt ok, where err = "err'"] run cnt assms(2)
        show ?thesis
          unfolding eq by simp
      qed
      done
    subgoal
      apply (rule impI)
      subgoal premises h
      proof -
        from h have ex: "firestoreCollectionExists c" by simp
        from h have ne: "d \<noteq> []" by simp
        have eq: "deleteEntityFromFirestore x cl c d init = deleteEntityLoop x c d (int N) 0 cl err ?s0"
          using delete_valid[OF ex ne, of x cl init] nv by simp
        have fail: "\<And>j cl. j < N - 1 \<Longrightarrow> \<exists>r e. Doc_Delete x (backendCalls ?s0 + j) cl c d = (r, Some e)
            \<and> (Error e = ClosingTransportError)"
          using h b0 by simp
        have rf: "\<And>j. j < N - 1 \<Longrightarrow> \<exists>a cl. firebase_NewApp x (refreshCalls ?s0 + j) = (a, None)
            \<and> App_Firestore x (refreshCalls ?s0 + j) a = (cl, None)"
          using h r0 by (simp add: refreshSucceeds_iff)
        from deleteEntityLoop_run[OF fail rf le, where cl = cl and err = err] obtain cl' err' s' where
          run: "deleteEntityLoop x c d (int N) 0 cl err ?s0 =
                deleteEntityLoop x c d (int N) (0 + int (N - 1)) cl' err' s'"
          and cnt: "backendCalls s' = N - 1" "refreshCalls s' = N - 1"
          using b0 r0 by auto
        have ok: "Doc_Delete x (backendCalls s') cl' c d = (r4, None)"
          using h cnt by simp
        from deleteEntityLoop_success[OF lt ok, where err = "err'"] run cnt assms(2)
        show ?thesis
          unfolding eq by simp
      qed
      done
    subgoal
      apply (rule impI)
      subgoal premises h
      proof -
        have eq: "firebaseDocumentIteratorWithRetry x it init = documentIteratorLoop x it (int N) 0 err ?s0"
          using iterator_valid[of x it init] nv by simp
        have one: "N = 1"
        proof (rule ccontr)
          assume "N \<noteq> 1"
          with assms(2) have pos: "0 < N - 1" by simp
          with h obtain r e where first: "Iter_Next x 0 it = (r, Some e)" by blast
          from h have "repeatsFirstError x it" by simp
          with first have "snd (Iter_Next x (N - 1) it) = Some e"
            unfolding repeatsFirstError_def by blast
          with h show False by simp
        qed
        have ok: "Iter_Next x (backendCalls ?s0) it = (r5, None)"
          using h one b0 by simp
        have l1: "(0::int) < int N" using assms(2) by simp
        from documentIteratorLoop_success[OF l1 ok, where err = err] one b0 r0
        show ?thesis
          unfolding eq by simp
      qed
      done
    done
qed

theorem transient_failures_then_success_witness:
  "fst (addEntityToFirestore (scripted ''3'' (closingUntil 2) neverFails) (Some 0) ''users'' (Some []) init)
     = Returned (Some 2, None)
   \<and> backendCalls (snd (getEntityFromFirestore (scripted ''3'' (closingUntil 2) neverFails)
        (Some 0) ''users'' ''u1'' init)) = 3
   \<and> refreshCalls (snd (editEntityInFirestore (scripted ''3'' (closingUntil 2) neverFails)
        (Some 0) ''users'' ''u1'' (Some []) init)) = 2
   \<and> refreshCalls (snd (deleteEntityFromFirestore (scripted ''3'' (closingUntil 2) neverFails)
        (Some 0) ''users'' ''u1'' init)) = 2
   \<and> fst (firebaseDocumentIteratorWithRetry (scripted ''1'' neverFails neverFails) (Some 0) init)
     = Returned (Some 0, None)
   \<and> backendCalls (snd (firebaseDocumentIteratorWithRetry (scripted ''1'' neverFails neverFails)
        (Some 0) init)) = 1
   \<and> refreshCalls (snd (firebaseDocumentIteratorWithRetry (scripted ''1'' neverFails neverFails)
        (Some 0) init)) = 0"
proof -
  let ?x = "scripted ''3'' (closingUntil 2) neverFails"
  let ?y = "scripted ''1'' neverFails neverFails"
  have hx: "fst (readRetriesNumber ?x init) = (int 3, None)"
    by (simp add: readRetriesNumber_def scripted_sel decimalAtoi_def)
  have hy: "fst (readRetriesNumber ?y init) = (int 1, None)"
    by (simp add: readRetriesNumber_def scripted_sel decimalAtoi_def)
  have n3: "(1::nat) \<le> 3" and n1: "(1::nat) \<le> 1" by simp_all
  have st: "repeatsFirstError ?y (Some 0)"
    by (rule scripted_repeatsFirstError) (simp add: neverFails_def)
  note tx = transient_failures_then_success[OF hx n3, where c = "''users''" and d = "''u1''"
      and ent = "Some []" and cl = "Some 0" and it = "Some 0"
      and ?r1.0 = "Some 2" and ?r2.0 = "Some 2" and ?r4.0 = "Some 2" and ?r5.0 = "Some 2"]
  note ty = transient_failures_then_success[OF hy n1, where c = "''users''" and d = "''u1''"
      and ent = "Some []" and cl = "Some 0" and it = "Some 0"
      and ?r1.0 = "Some 0" and ?r2.0 = "Some 0" and ?r4.0 = "Some 0" and ?r5.0 = "Some 0"]
  have A: "fst (addEntityToFirestore ?x (Some 0) ''users'' (Some []) init) = Returned (Some 2, None)"
    using tx[THEN conjunct1]
    by (simp add: users_exists scripted_refreshSucceeds scripted_sel closingUntil_def neverFails_def)
  have B: "backendCalls (snd (getEntityFromFirestore ?x (Some 0) ''users'' ''u1'' init)) = 3"
    using tx[THEN conjunct2, THEN conjunct1]
    by (simp add: users_exists scripted_refreshSucceeds scripted_sel closingUntil_def neverFails_def)
  have C: "refreshCalls (snd (editEntityInFirestore ?x (Some 0) ''users'' ''u1'' (Some []) init)) = 2"
    using tx[THEN conjunct2, THEN conjunct2, THEN conjunct1]
    by (simp add: users_exists scripted_refreshSucceeds scripted_sel closingUntil_def neverFails_def)
  have D: "refreshCalls (snd (deleteEntityFromFirestore ?x (Some 0) ''users'' ''u1'' init)) = 2"
    using tx[THEN conjunct2, THEN conjunct2, THEN conjunct2, THEN conjunct1]
    by (simp add: users_exists scripted_refreshSucceeds scripted_sel closingUntil_def neverFails_def)
  have I: "fst (firebaseDocumentIteratorWithRetry ?y (Some 0) init) = Returned (Some 0, None)
     \<and> backendCalls (snd (firebaseDocumentIteratorWithRetry ?y (Some 0) init)) = 1
     \<and> refreshCalls (snd (firebaseDocumentIteratorWithRetry ?y (Some 0) init)) = 0"
    using ty[THEN conjunct2, THEN conjunct2, THEN conjunct2, THEN conjunct2] st
    by (simp add: scripted_sel neverFails_def)
  from A B C D I show ?thesis by blast
qed

text \<open>
  The claim C4 as it is written fails when a connection refresh fails. With a retry count
  of 2 and a backend that fails once with the transport-is-closing message and succeeds
  from then on, add returns the error of the refresh after one backend invocation and one
  refresh; it does not return the successful result after two invocations.
\<close>

theorem refresh_failure_counterexample:
  "addEntityToFirestore
       (scripted ''2'' (closingUntil 1) (\<lambda>k. Some (ErrorString ''credentials unavailable'')))
       (Some 0) ''users'' (Some []) init
     = (Returned (None, Some (ErrorString
          ''Error updating fireclient (2 - retries left): credentials unavailable'')),
        \<lparr>backendCalls = 1, refreshCalls = 1, logLines = []\<rparr>)
   \<and> closingUntil 1 0 = Some (ErrorString ClosingTransportError)
   \<and> closingUntil 1 1 = None"
  by code_simp

text \<open>
  C5, as the code has it. A collection name outside \<open>FirestoreCollectionNames\<close> makes each of
  the four operations return a validation error with no backend invocation and no
  connection refresh. For add the error says that the collection does not exist; for get,
  edit and delete it says so when the identifier is not empty, and with an empty
  identifier it is the identifier error, which these three check first.
\<close>

theorem unknown_collection_rejected:
  assumes "\<not> firestoreCollectionExists c"
  shows "fst (addEntityToFirestore x cl c ent s) =
           Returned (None, Some (ErrorString (''Collection name '' @ quoted c @ '' does not exist'')))
       \<and> fst (getEntityFromFirestore x cl c d s) =
           Returned (None, Some (ErrorString
             (if d = [] then ''entity ID is required field for get''
              else ''document name '' @ quoted c @ '' does not exist'')))
       \<and> fst (editEntityInFirestore x cl c d ent s) =
           Returned (Some (ErrorString
             (if d = [] then ''Entity ID is required field for edit''
              else ''Document name '' @ quoted c @ '' does not exist'')))
       \<and> fst (deleteEntityFromFirestore x cl c d s) =
           Returned (None, Some (ErrorString
             (if d = [] then ''Entity ID is required field for deletion''
              else ''Document name does not exist'')))
       \<and> backendCalls (snd (addEntityToFirestore x cl c ent s)) = backendCalls s
       \<and> backendCalls (snd (getEntityFromFirestore x cl c d s)) = backendCalls s
       \<and> backendCalls (snd (editEntityInFirestore x cl c d ent s)) = backendCalls s
       \<and> backendCalls (snd (deleteEntityFromFirestore x cl c d s)) = backendCalls s
       \<and> refreshCalls (snd (addEntityToFirestore x cl c ent s)) = refreshCalls s
       \<and> refreshCalls (snd (getEntityFromFirestore x cl c d s)) = refreshCalls s
       \<and> refreshCalls (snd (editEntityInFirestore x cl c d ent s)) = refreshCalls s
       \<and> refreshCalls (snd (deleteEntityFromFirestore x cl c d s)) = refreshCalls s"
proof (cases "d = []")
  case True
  with assms show ?thesis
    by (simp add: add_unknown_collection get_empty_id edit_empty_id delete_empty_id
        readRetries_counts)
next
  case False
  with assms show ?thesis
    by (simp add: add_unknown_collection get_unknown_collection edit_unknown_collection
        delete_unknown_collection readRetries_counts)
qed

theorem unknown_collection_rejected_witness:
  "fst (addEntityToFirestore (scripted ''3'' neverFails neverFails) (Some 0) ''orders'' None init) =
     Returned (None, Some (ErrorString (''Collection name '' @ quoted ''orders'' @ '' does not exist'')))
   \<and> fst (deleteEntityFromFirestore (scripted ''3'' neverFails neverFails) (Some 0) ''orders'' ''o1'' init) =
     Returned (None, Some (ErrorString ''Document name does not exist''))
   \<and> backendCalls (snd (getEntityFromFirestore (scripted ''3'' neverFails neverFails) (Some 0) ''orders'' ''o1'' init)) = 0
   \<and> refreshCalls (snd (editEntityInFirestore (scripted ''3'' neverFails neverFails) (Some 0) ''orders'' ''o1'' None init)) = 0"
  using unknown_collection_rejected[OF orders_not_exists,
      of "scripted ''3'' neverFails neverFails" "Some 0" None init "''o1''"]
  by (simp add: init_def)

text \<open>
  The claim C5 as it is written fails for get with an empty identifier: the collection
  \<open>orders\<close> is not in the list, and the error returned is the identifier error, not one
  that says the collection does not exist.
\<close>

theorem unknown_collection_counterexample:
  "\<not> firestoreCollectionExists ''orders''
   \<and> fst (getEntityFromFirestore (scripted ''3'' neverFails neverFails) (Some 0) ''orders'' [] init) =
       Returned (None, Some (ErrorString ''entity ID is required field for get''))
   \<and> fst (getEntityFromFirestore (scripted ''3'' neverFails neverFails) (Some 0) ''orders'' [] init) \<noteq>
       Returned (None, Some (ErrorString (''document name '' @ quoted ''orders'' @ '' does not exist'')))"
  by (simp add: orders_not_exists get_empty_id quoted_def)

text \<open>
  C6. Read, update and delete with the empty entity identifier return their validation
  error at once: no backend invocation and no connection refresh happens, whatever the
  collection name, the retry count in the environment and the backend are.
\<close>

theorem empty_identifier_rejected:
  "fst (getEntityFromFirestore x cl c [] s) =
     Returned (None, Some (ErrorString ''entity ID is required field for get''))
   \<and> fst (editEntityInFirestore x cl c [] ent s) =
     Returned (Some (ErrorString ''Entity ID is required field for edit''))
   \<and> fst (deleteEntityFromFirestore x cl c [] s) =
     Returned (None, Some (ErrorString ''Entity ID is required field for deletion''))
   \<and> backendCalls (snd (getEntityFromFirestore x cl c [] s)) = backendCalls s
   \<and> backendCalls (snd (editEntityInFirestore x cl c [] ent s)) = backendCalls s
   \<and> backendCalls (snd (deleteEntityFromFirestore x cl c [] s)) = backendCalls s
   \<and> refreshCalls (snd (getEntityFromFirestore x cl c [] s)) = refreshCalls s
   \<and> refreshCalls (snd (editEntityInFirestore x cl c [] ent s)) = refreshCalls s
   \<and> refreshCalls (snd (deleteEntityFromFirestore x cl c [] s)) = refreshCalls s"
  by (simp add: get_empty_id edit_empty_id delete_empty_id readRetries_counts)

theorem empty_identifier_rejected_witness:
  "fst (getEntityFromFirestore (scripted ''3'' neverFails neverFails) (Some 0) ''users'' [] init) =
     Returned (None, Some (ErrorString ''entity ID is required field for get''))
   \<and> fst (editEntityInFirestore (scripted ''3'' neverFails neverFails) (Some 0) ''users'' [] None init) =
     Returned (Some (ErrorString ''Entity ID is required field for edit''))
   \<and> fst (deleteEntityFromFirestore (scripted ''3'' neverFails neverFails) (Some 0) ''users'' [] init) =
     Returned (None, Some (ErrorString ''Entity ID is required field for deletion''))
   \<and> backendCalls (snd (getEntityFromFirestore (scripted ''3'' neverFails neverFails) (Some 0) ''users'' [] init)) = 0
   \<and> backendCalls (snd (deleteEntityFromFirestore (scripted ''3'' neverFails neverFails) (Some 0) ''users'' [] init)) = 0"
  using empty_identifier_rejected[of "scripted ''3'' neverFails neverFails" "Some 0" "''users''" init None]
  by (simp add: init_def)

text \<open>
  C7, as the code has it. \<^verbatim>\<open>addEntityToFirestore\<close> never inspects the entity. With a nil
  entity, an allowlisted collection and an effective retry count of at least 1 it invokes
  the backend with the nil entity. What the backend answers decides the result: its
  success is returned, and an error that is not the transport-is-closing message comes back
  wrapped as ``Unsuccessful adding data'', after exactly one invocation and no refresh.
\<close>

theorem nil_entity_reaches_backend:
  assumes "fst (readRetriesNumber x init) = (n, err)"
    and "1 \<le> n"
    and "firestoreCollectionExists c"
    and "Collection_Add x 0 cl c None = (r, eo)"
  shows "1 \<le> backendCalls (snd (addEntityToFirestore x cl c None init))
       \<and> (eo = None \<longrightarrow>
            fst (addEntityToFirestore x cl c None init) = Returned (r, None)
            \<and> backendCalls (snd (addEntityToFirestore x cl c None init)) = 1
            \<and> refreshCalls (snd (addEntityToFirestore x cl c None init)) = 0)
       \<and> (\<forall>e. eo = Some e \<and> Error e \<noteq> ClosingTransportError \<longrightarrow>
            fst (addEntityToFirestore x cl c None init) =
              Returned (None, Some (ErrorString
                (''Unsuccessful adding data to the '' @ quoted c @ '' collection, Error: '' @ Error e)))
            \<and> backendCalls (snd (addEntityToFirestore x cl c None init)) = 1
            \<and> refreshCalls (snd (addEntityToFirestore x cl c None init)) = 0)"
proof -
  let ?s0 = "snd (readRetriesNumber x init)"
  have n: "fst (fst (readRetriesNumber x init)) = n" using assms(1) by simp
  have lt: "0 < n" using assms(2) by simp
  have b0: "backendCalls ?s0 = 0" and r0: "refreshCalls ?s0 = 0"
    by (simp_all add: readRetries_init)
  have call: "Collection_Add x (backendCalls ?s0) cl c None = (r, eo)"
    using assms(4) b0 by simp
  have eq: "addEntityToFirestore x cl c None init =
      addEntityLoop x c None n 0 cl (snd (fst (readRetriesNumber x init))) ?s0"
    using add_valid[OF assms(3), of x cl None init] n by simp
  have "1 \<le> backendCalls (snd (addEntityToFirestore x cl c None init))"
    using addEntityLoop_invokes[OF lt, of ?s0 x c None cl] b0 unfolding eq by simp
  moreover have "eo = None \<Longrightarrow>
      addEntityToFirestore x cl c None init =
        (Returned (r, None), ?s0\<lparr>backendCalls := Suc (backendCalls ?s0)\<rparr>)"
    unfolding eq using call by (intro addEntityLoop_success[OF lt]) simp
  moreover have "\<And>e. eo = Some e \<Longrightarrow> Error e \<noteq> ClosingTransportError \<Longrightarrow>
      addEntityToFirestore x cl c None init =
        (Returned (None, Some (ErrorString
           (''Unsuccessful adding data to the '' @ quoted c @ '' collection, Error: '' @ Error e))),
         ?s0\<lparr>backendCalls := Suc (backendCalls ?s0)\<rparr>)"
    unfolding eq using call by (intro addEntityLoop_fatal[OF lt]) simp_all
  ultimately show ?thesis using b0 r0 by simp
qed

theorem nil_entity_reaches_backend_witness:
  "1 \<le> backendCalls (snd (addEntityToFirestore (scripted ''2'' neverFails neverFails)
         (Some 0) ''users'' None init))
   \<and> fst (addEntityToFirestore (scripted ''2'' neverFails neverFails) (Some 0) ''users'' None init)
       = Returned (Some 0, None)"
proof -
  let ?x = "scripted ''2'' neverFails neverFails"
  have h1: "fst (readRetriesNumber ?x init) = (2, None)"
    by (simp add: readRetriesNumber_def scripted_sel decimalAtoi_def)
  have h2: "(1::int) \<le> 2" by simp
  have h3: "Collection_Add ?x 0 (Some 0) ''users'' None = (Some 0, None)"
    by (simp add: scripted_sel neverFails_def)
  from nil_entity_reaches_backend[OF h1 h2 users_exists h3] show ?thesis by simp
qed

text \<open>
  The claim C7 as it is written fails: called with a nil entity and the allowlisted
  collection \<open>users\<close>, the operation invokes the backend once, and the error it returns is
  the backend's, wrapped, not a validation error raised before the backend is reached.
\<close>

theorem nil_entity_counterexample:
  "firestoreCollectionExists ''users''
   \<and> backendCalls (snd (addEntityToFirestore
        (scripted ''1'' (\<lambda>k. Some (ErrorString ''firestore: nil document contents'')) neverFails)
        (Some 0) ''users'' None init)) = 1
   \<and> fst (addEntityToFirestore
        (scripted ''1'' (\<lambda>k. Some (ErrorString ''firestore: nil document contents'')) neverFails)
        (Some 0) ''users'' None init) =
       Returned (None, Some (ErrorString
         (''Unsuccessful adding data to the '' @ quoted ''users''
           @ '' collection, Error: firestore: nil document contents'')))"
  by (simp add: users_exists) code_simp

text \<open>
  C8, as the code has it. With an effective retry count of at least 1 and arguments that
  pass validation, a first backend error that the operation does not classify as transient
  (and, for the iterator, is not \<^verbatim>\<open>iterator.Done\<close>) is returned wrapped, after exactly one
  backend invocation, with no retry and no connection refresh. The wrapper of the four CRUD
  operations names the operation and the collection; the iterator has no collection, and
  its wrapper names the operation only.
\<close>

theorem non_transient_error_fatal:
  assumes "fst (readRetriesNumber x init) = (n, err)"
    and "1 \<le> n"
  shows "(firestoreCollectionExists c
          \<and> Collection_Add x 0 cl c ent = (r1, Some e1)
          \<and> Error e1 \<noteq> ClosingTransportError
        \<longrightarrow> fst (addEntityToFirestore x cl c ent init) =
            Returned (None, Some (ErrorString
                (''Unsuccessful adding data to the '' @ quoted c @ '' collection, Error: '' @ Error e1)))
          \<and> backendCalls (snd (addEntityToFirestore x cl c ent init)) = 1
          \<and> refreshCalls (snd (addEntityToFirestore x cl c ent init)) = 0)
       \<and> (firestoreCollectionExists c \<and> d \<noteq> []
          \<and> Doc_Get x 0 cl c d = (r2, Some e2)
          \<and> \<not> (Error e2 = ClosingTransportError
              \<or> strings_Contains (Error e2) ''The service is temporarily unavailable'')
        \<longrightarrow> fst (getEntityFromFirestore x cl c d init) =
            Returned (None, Some (ErrorString
                (''unsuccessful getting data from the '' @ quoted c @ '' collection, Error: '' @ Error e2)))
          \<and> backendCalls (snd (getEntityFromFirestore x cl c d init)) = 1
          \<and> refreshCalls (snd (getEntityFromFirestore x cl c d init)) = 0)
       \<and> (firestoreCollectionExists c \<and> d \<noteq> []
          \<and> Doc_Set x 0 cl c d ent = Some e3
          \<and> \<not> (Error e3 = ClosingTransportError
              \<or> strings_Contains (Error e3) UnavailableServiceError)
        \<longrightarrow> fst (editEntityInFirestore x cl c d ent init) =
            Returned (Some (ErrorString
                (''Unsuccessful updating '' @ quoted d @ '' in the '' @ quoted c
                  @ '' collection, Error: '' @ Error e3)))
          \<and> backendCalls (snd (editEntityInFirestore x cl c d ent init)) = 1
          \<and> refreshCalls (snd (editEntityInFirestore x cl c d ent init)) = 0)
       \<and> (firestoreCollectionExists c \<and> d \<noteq> []
          \<and> Doc_Delete x 0 cl c d = (r4, Some e4)
          \<and> Error e4 \<noteq> ClosingTransportError
        \<longrightarrow> fst (deleteEntityFromFirestore x cl c d init) =
            Returned (None, Some (ErrorString
                (''Unsuccessful deletion '' @ d @ '' from '' @ c @ '' collection, Error: '' @ Error e4)))
          \<and> backendCalls (snd (deleteEntityFromFirestore x cl c d init)) = 1
          \<and> refreshCalls (snd (deleteEntityFromFirestore x cl c d init)) = 0)
       \<and> (Iter_Next x 0 it = (r5, Some e5)
          \<and> Error e5 \<noteq> ClosingTransportError \<and> e5 \<noteq> IteratorDone
        \<longrightarrow> fst (firebaseDocumentIteratorWithRetry x it init) =
            Returned (None, Some (ErrorString
                (''Unsuccessful document iteration, Error: '' @ Error e5)))
          \<and> backendCalls (snd (firebaseDocumentIteratorWithRetry x it init)) = 1
          \<and> refreshCalls (snd (firebaseDocumentIteratorWithRetry x it init)) = 0)"
proof -
  let ?s0 = "snd (readRetriesNumber x init)"
  have nv: "fst (fst (readRetriesNumber x init)) = n" "snd (fst (readRetriesNumber x init)) = err"
    using assms(1) by simp_all
  have b0: "backendCalls ?s0 = 0" and r0: "refreshCalls ?s0 = 0"
    by (simp_all add: readRetries_init)
  have lt: "0 < n" using assms(2) by simp
  show ?thesis
    apply (intro conjI)
    subgoal
      apply (rule impI)
      subgoal premises h
      proof -
        from h have ex: "firestoreCollectionExists c" by simp
        have eq: "addEntityToFirestore x cl c ent init = addEntityLoop x c ent n 0 cl err ?s0"
          using add_valid[OF ex, of x cl ent init] nv by simp
        have bk: "Collection_Add x (backendCalls ?s0) cl c ent = (r1, Some e1)"
          using h b0 by simp
        have nc: "Error e1 \<noteq> ClosingTransportError"
          using h by simp
        from addEntityLoop_fatal[OF lt bk nc, where err = err] b0 r0
        show ?thesis
          unfolding eq by simp
      qed
      done
    subgoal
      apply (rule impI)
      subgoal premises h
      proof -
        from h have ex: "firestoreCollectionExists c" by simp
        from h have ne: "d \<noteq> []" by simp
        have eq: "getEntityFromFirestore x cl c d init = getEntityLoop x c d n 0 cl err ?s0"
          using get_valid[OF ex ne, of x cl init] nv by simp
        have bk: "Doc_Get x (backendCalls ?s0) cl c d = (r2, Some e2)"
          using h b0 by simp
        have nc: "\<not> (Error e2 = ClosingTransportError
              \<or> strings_Contains (Error e2) ''The service is temporarily unavailable'')"
          using h by simp
        from getEntityLoop_fatal[OF lt bk nc, where err = err] b0 r0
        show ?thesis
          unfolding eq by simp
      qed
      done
    subgoal
      apply (rule impI)
      subgoal premises h
      proof -
        from h have ex: "firestoreCollectionExists c" by simp
        from h have ne: "d \<noteq> []" by simp
        have eq: "editEntityInFirestore x cl c d ent init = editEntityLoop x c d ent n 0 cl err ?s0"
          using edit_valid[OF ex ne, of x cl ent init] nv by simp
        have bk: "Doc_Set x (backendCalls ?s0) cl c d ent = Some e3"
          using h b0 by simp
        have nc: "\<not> (Error e3 = ClosingTransportError
              \<or> strings_Contains (Error e3) UnavailableServiceError)"
          using h by simp
        from editEntityLoop_fatal[OF lt bk nc, where err = err] b0 r0
        show ?thesis
          unfolding eq by simp
      qed
      done
    subgoal
      apply (rule impI)
      subgoal premises h
      proof -
        from h have ex: "firestoreCollectionExists c" by simp
        from h have ne: "d \<noteq> []" by simp
        have eq: "deleteEntityFromFirestore x cl c d init = deleteEntityLoop x c d n 0 cl err ?s0"
          using delete_valid[OF ex ne, of x cl init] nv by simp
        have bk: "Doc_Delete x (backendCalls ?s0) cl c d = (r4, Some e4)"
          using h b0 by simp
        have nc: "Error e4 \<noteq> ClosingTransportError"
          using h by simp
        from deleteEntityLoop_fatal[OF lt bk nc, where err = err] b0 r0
        show ?thesis
          unfolding eq by simp
      qed
      done
    subgoal
      apply (rule impI)
      subgoal premises h
      proof -
        have eq: "firebaseDocumentIteratorWithRetry x it init = documentIteratorLoop x it n 0 err ?s0"
          using iterator_valid[of x it init] nv by simp
        have bk: "Iter_Next x (backendCalls ?s0) it = (r5, Some e5)"
          using h b0 by simp
        have nc: "Error e5 \<noteq> ClosingTransportError" "e5 \<noteq> IteratorDone"
          using h by simp_all
        from documentIteratorLoop_fatal[OF lt bk nc, where err = err] b0 r0
        show ?thesis
          unfolding eq by simp
      qed
      done
    done
qed

theorem non_transient_error_fatal_witness:
  "fst (addEntityToFirestore (scripted ''1'' (\<lambda>k. Some (ErrorString ''permission denied'')) neverFails)
         (Some 0) ''users'' (Some []) init) =
     Returned (None, Some (ErrorString
       (''Unsuccessful adding data to the '' @ quoted ''users''
         @ '' collection, Error: permission denied'')))
   \<and> backendCalls (snd (getEntityFromFirestore
         (scripted ''1'' (\<lambda>k. Some (ErrorString ''permission denied'')) neverFails)
         (Some 0) ''users'' ''u1'' init)) = 1
   \<and> refreshCalls (snd (editEntityInFirestore
         (scripted ''1'' (\<lambda>k. Some (ErrorString ''permission denied'')) neverFails)
         (Some 0) ''users'' ''u1'' (Some []) init)) = 0
   \<and> backendCalls (snd (deleteEntityFromFirestore
         (scripted ''1'' (\<lambda>k. Some (ErrorString ''permission denied'')) neverFails)
         (Some 0) ''users'' ''u1'' init)) = 1
   \<and> fst (firebaseDocumentIteratorWithRetry
         (scripted ''1'' (\<lambda>k. Some (ErrorString ''permission denied'')) neverFails) (Some 0) init) =
     Returned (None, Some (ErrorString ''Unsuccessful document iteration, Error: permission denied''))"
proof -
  let ?e = "ErrorString ''permission denied''"
  let ?x = "scripted ''1'' (\<lambda>k. Some ?e) neverFails"
  have h1: "fst (readRetriesNumber ?x init) = (1, None)"
    by (simp add: readRetriesNumber_def scripted_sel decimalAtoi_def)
  have h2: "(1::int) \<le> 1" by simp
  have ne: "Error ?e \<noteq> ClosingTransportError"
    "\<not> strings_Contains (Error ?e) ''The service is temporarily unavailable''"
    "\<not> strings_Contains (Error ?e) UnavailableServiceError"
    by (simp_all add: ClosingTransportError_def UnavailableServiceError_def strings_Contains_def
        sublist_code)
  note t = non_transient_error_fatal[OF h1 h2, where c = "''users''" and d = "''u1''"
      and ent = "Some []" and cl = "Some 0" and it = "Some 0"
      and ?e1.0 = ?e and ?e2.0 = ?e and ?e3.0 = ?e and ?e4.0 = ?e and ?e5.0 = ?e
      and ?r1.0 = None and ?r2.0 = None and ?r4.0 = None and ?r5.0 = None]
  have A: "fst (addEntityToFirestore ?x (Some 0) ''users'' (Some []) init) =
     Returned (None, Some (ErrorString
       (''Unsuccessful adding data to the '' @ quoted ''users''
         @ '' collection, Error: permission denied'')))"
    using t[THEN conjunct1] ne by (simp add: users_exists scripted_sel)
  have B: "backendCalls (snd (getEntityFromFirestore ?x (Some 0) ''users'' ''u1'' init)) = 1"
    using t[THEN conjunct2, THEN conjunct1] ne by (simp add: users_exists scripted_sel)
  have C: "refreshCalls (snd (editEntityInFirestore ?x (Some 0) ''users'' ''u1'' (Some []) init)) = 0"
    using t[THEN conjunct2, THEN conjunct2, THEN conjunct1] ne by (simp add: users_exists scripted_sel)
  have D: "backendCalls (snd (deleteEntityFromFirestore ?x (Some 0) ''users'' ''u1'' init)) = 1"
    using t[THEN conjunct2, THEN conjunct2, THEN conjunct2, THEN conjunct1] ne
    by (simp add: users_exists scripted_sel)
  have I: "fst (firebaseDocumentIteratorWithRetry ?x (Some 0) init) =
     Returned (None, Some (ErrorString ''Unsuccessful document iteration, Error: permission denied''))"
    using t[THEN conjunct2, THEN conjunct2, THEN conjunct2, THEN conjunct2] ne
    by (simp add: scripted_sel)
  from A B C D I show ?thesis by blast
qed

text \<open>
  The claim C8 as it is written fails for the iterator: the error it returns for a
  permission-denied failure of \<^verbatim>\<open>Next\<close> names the operation and carries no collection; in
  particular neither name of \<open>FirestoreCollectionNames\<close> occurs in it.
\<close>

theorem iterator_wrapper_counterexample:
  "fst (firebaseDocumentIteratorWithRetry
         (scripted ''1'' (\<lambda>k. Some (ErrorString ''permission denied'')) neverFails) (Some 0) init) =
     Returned (None, Some (ErrorString ''Unsuccessful document iteration, Error: permission denied''))
   \<and> \<not> strings_Contains ''Unsuccessful document iteration, Error: permission denied'' UsersCollection
   \<and> \<not> strings_Contains ''Unsuccessful document iteration, Error: permission denied''
         PromoItemsCollection"
  by code_simp

text \<open>
  C9. When \<^verbatim>\<open>strconv.Atoi\<close> returns an error for the value of the environment variable (it
  is unset, so the value is empty, or it is not a numeral), the retry count is 1 and the
  informational line is the first line logged by each of the five operations. The count is
  exactly 1: a call that passes validation makes exactly one backend invocation. The
  missing configuration does not make the call fail: when that one invocation succeeds, the
  operation returns its result.
\<close>

theorem retries_number_missing_defaults_to_one:
  assumes "strconv_Atoi x (os_Getenv x ''FIRESTORE_RETRIES_NUMBER'') = (n, Some e)"
  shows "fst (readRetriesNumber x init) = (1, Some e)
       \<and> logLines (snd (readRetriesNumber x init)) = [retriesNumberMissingLine]
       \<and> prefix [retriesNumberMissingLine] (logLines (snd (addEntityToFirestore x cl c ent init)))
       \<and> prefix [retriesNumberMissingLine] (logLines (snd (getEntityFromFirestore x cl c d init)))
       \<and> prefix [retriesNumberMissingLine] (logLines (snd (editEntityInFirestore x cl c d ent init)))
       \<and> prefix [retriesNumberMissingLine] (logLines (snd (deleteEntityFromFirestore x cl c d init)))
       \<and> prefix [retriesNumberMissingLine] (logLines (snd (firebaseDocumentIteratorWithRetry x it init)))
       \<and> (firestoreCollectionExists c \<longrightarrow>
            backendCalls (snd (addEntityToFirestore x cl c ent init)) = 1)
       \<and> (firestoreCollectionExists c \<and> d \<noteq> [] \<longrightarrow>
            backendCalls (snd (getEntityFromFirestore x cl c d init)) = 1
            \<and> backendCalls (snd (editEntityInFirestore x cl c d ent init)) = 1
            \<and> backendCalls (snd (deleteEntityFromFirestore x cl c d init)) = 1)
       \<and> backendCalls (snd (firebaseDocumentIteratorWithRetry x it init)) = 1
       \<and> (\<forall>r. firestoreCollectionExists c \<and> Collection_Add x 0 cl c ent = (r, None) \<longrightarrow>
            fst (addEntityToFirestore x cl c ent init) = Returned (r, None))
       \<and> (\<forall>r. firestoreCollectionExists c \<and> d \<noteq> [] \<and> Doc_Get x 0 cl c d = (r, None) \<longrightarrow>
            fst (getEntityFromFirestore x cl c d init) = Returned (r, None))
       \<and> (firestoreCollectionExists c \<and> d \<noteq> [] \<and> Doc_Set x 0 cl c d ent = None \<longrightarrow>
            fst (editEntityInFirestore x cl c d ent init) = Returned None)
       \<and> (\<forall>r. firestoreCollectionExists c \<and> d \<noteq> [] \<and> Doc_Delete x 0 cl c d = (r, None) \<longrightarrow>
            fst (deleteEntityFromFirestore x cl c d init) = Returned (r, None))
       \<and> (\<forall>r. Iter_Next x 0 it = (r, None) \<longrightarrow>
            fst (firebaseDocumentIteratorWithRetry x it init) = Returned (r, None))"
proof -
  let ?s0 = "snd (readRetriesNumber x init)"
  have rr: "readRetriesNumber x init =
      ((1, Some e), LogWrite LogTypeInfo 0 ''FIRESTORE_RETRIES_NUMBER is missing, was set to: 1'' [] init)"
    by (rule readRetries_failed[OF assms])
  have c1: "fst (readRetriesNumber x init) = (1, Some e)" by (simp add: rr)
  have n1: "fst (fst (readRetriesNumber x init)) = 1" by (simp add: rr)
  have lg: "logLines ?s0 = [retriesNumberMissingLine]"
    unfolding rr by (simp add: init_def retriesNumberMissingLine_def)
  have b0: "backendCalls ?s0 = 0" by (simp add: readRetries_init)
  have pre: "\<And>t. extends ?s0 t \<Longrightarrow> prefix [retriesNumberMissingLine] (logLines t)"
    using lg by (simp add: extends_def)
  have lt: "(0::int) < 1" by simp
  have p1: "prefix [retriesNumberMissingLine] (logLines (snd (addEntityToFirestore x cl c ent init)))"
    by (rule pre[OF add_extends])
  have p2: "prefix [retriesNumberMissingLine] (logLines (snd (getEntityFromFirestore x cl c d init)))"
    by (rule pre[OF get_extends])
  have p3: "prefix [retriesNumberMissingLine] (logLines (snd (editEntityInFirestore x cl c d ent init)))"
    by (rule pre[OF edit_extends])
  have p4: "prefix [retriesNumberMissingLine] (logLines (snd (deleteEntityFromFirestore x cl c d init)))"
    by (rule pre[OF delete_extends])
  have p5: "prefix [retriesNumberMissingLine] (logLines (snd (firebaseDocumentIteratorWithRetry x it init)))"
    by (rule pre[OF iterator_extends])
  have k1: "firestoreCollectionExists c \<longrightarrow>
      backendCalls (snd (addEntityToFirestore x cl c ent init)) = 1"
    by (simp add: add_valid n1 addEntityLoop_once b0)
  have k2: "firestoreCollectionExists c \<and> d \<noteq> [] \<longrightarrow>
            backendCalls (snd (getEntityFromFirestore x cl c d init)) = 1
            \<and> backendCalls (snd (editEntityInFirestore x cl c d ent init)) = 1
            \<and> backendCalls (snd (deleteEntityFromFirestore x cl c d init)) = 1"
    by (simp add: get_valid edit_valid delete_valid n1 getEntityLoop_once editEntityLoop_once
        deleteEntityLoop_once b0)
  have k3: "backendCalls (snd (firebaseDocumentIteratorWithRetry x it init)) = 1"
    by (simp add: iterator_valid n1 documentIteratorLoop_once b0)
  have g1: "\<forall>r. firestoreCollectionExists c \<and> Collection_Add x 0 cl c ent = (r, None) \<longrightarrow>
            fst (addEntityToFirestore x cl c ent init) = Returned (r, None)"
    by (simp add: add_valid n1 addEntityLoop_success[OF lt] b0)
  have g2: "\<forall>r. firestoreCollectionExists c \<and> d \<noteq> [] \<and> Doc_Get x 0 cl c d = (r, None) \<longrightarrow>
            fst (getEntityFromFirestore x cl c d init) = Returned (r, None)"
    by (simp add: get_valid n1 getEntityLoop_success[OF lt] b0)
  have g3: "firestoreCollectionExists c \<and> d \<noteq> [] \<and> Doc_Set x 0 cl c d ent = None \<longrightarrow>
            fst (editEntityInFirestore x cl c d ent init) = Returned None"
    by (simp add: edit_valid n1 editEntityLoop_success[OF lt] b0)
  have g4: "\<forall>r. firestoreCollectionExists c \<and> d \<noteq> [] \<and> Doc_Delete x 0 cl c d = (r, None) \<longrightarrow>
            fst (deleteEntityFromFirestore x cl c d init) = Returned (r, None)"
    by (simp add: delete_valid n1 deleteEntityLoop_success[OF lt] b0)
  have g5: "\<forall>r. Iter_Next x 0 it = (r, None) \<longrightarrow>
            fst (firebaseDocumentIteratorWithRetry x it init) = Returned (r, None)"
    by (simp add: iterator_valid n1 documentIteratorLoop_success[OF lt] b0)
  from c1 lg p1 p2 p3 p4 p5 k1 k2 k3 g1 g2 g3 g4 g5 show ?thesis by blast
qed

theorem retries_number_missing_defaults_to_one_witness:
  "fst (readRetriesNumber (scripted [] neverFails neverFails) init)
     = (1, Some (atoiError [] ''invalid syntax''))
   \<and> fst (readRetriesNumber (scripted ''three'' neverFails neverFails) init)
     = (1, Some (atoiError ''three'' ''invalid syntax''))
   \<and> prefix [retriesNumberMissingLine]
       (logLines (snd (getEntityFromFirestore (scripted [] neverFails neverFails)
          (Some 0) ''users'' ''u1'' init)))
   \<and> backendCalls (snd (deleteEntityFromFirestore (scripted [] neverFails neverFails)
          (Some 0) ''users'' ''u1'' init)) = 1
   \<and> fst (addEntityToFirestore (scripted [] neverFails neverFails) (Some 0) ''users'' (Some []) init)
       = Returned (Some 0, None)"
proof -
  let ?x = "scripted [] neverFails neverFails"
  let ?y = "scripted ''three'' neverFails neverFails"
  have h1: "strconv_Atoi ?x (os_Getenv ?x ''FIRESTORE_RETRIES_NUMBER'')
      = (0, Some (atoiError [] ''invalid syntax''))"
    by (simp add: scripted_sel decimalAtoi_def)
  have h2: "strconv_Atoi ?y (os_Getenv ?y ''FIRESTORE_RETRIES_NUMBER'')
      = (0, Some (atoiError ''three'' ''invalid syntax''))"
    by (simp add: scripted_sel decimalAtoi_def)
  have h3: "Collection_Add ?x 0 (Some 0) ''users'' (Some []) = (Some 0, None)"
    by (simp add: scripted_sel neverFails_def)
  from retries_number_missing_defaults_to_one[OF h1, of "Some 0" "''users''" "Some []" "''u1''" "Some 0"]
    retries_number_missing_defaults_to_one[OF h2, of "Some 0" "''users''" "Some []" "''u1''" "Some 0"]
    h3 users_exists
  show ?thesis by simp
qed

text \<open>
  C10. When \<^verbatim>\<open>strconv.Atoi\<close> succeeds with a retry count of 0 or less, each of the four
  operations, called with an allowlisted collection (and a non-empty identifier where one is
  required), panics: the loop body never runs, so the state is the initial one (no backend
  invocation, no refresh, no log line), and the code after the loop calls \<^verbatim>\<open>Error()\<close> on
  the nil error that \<^verbatim>\<open>strconv.Atoi\<close> returned.
\<close>

theorem nonpositive_retries_panic:
  assumes "strconv_Atoi x (os_Getenv x ''FIRESTORE_RETRIES_NUMBER'') = (n, None)"
    and "n \<le> 0"
    and "firestoreCollectionExists c"
    and "d \<noteq> []"
  shows "addEntityToFirestore x cl c ent s = (Panicked, s)
       \<and> getEntityFromFirestore x cl c d s = (Panicked, s)
       \<and> editEntityInFirestore x cl c d ent s = (Panicked, s)
       \<and> deleteEntityFromFirestore x cl c d s = (Panicked, s)"
proof -
  have "\<not> 0 < n" using assms(2) by simp
  then show ?thesis
    using assms(3,4)
    by (simp add: add_valid get_valid edit_valid delete_valid readRetries_parsed[OF assms(1)]
        addEntityLoop_exit getEntityLoop_exit editEntityLoop_exit deleteEntityLoop_exit)
qed

theorem nonpositive_retries_panic_witness:
  "addEntityToFirestore (scripted ''0'' neverFails neverFails) (Some 0) ''users'' (Some []) init
     = (Panicked, init)
   \<and> getEntityFromFirestore (scripted ''0'' neverFails neverFails) (Some 0) ''users'' ''u1'' init
     = (Panicked, init)
   \<and> editEntityInFirestore (scripted ''0'' neverFails neverFails) (Some 0) ''users'' ''u1'' (Some []) init
     = (Panicked, init)
   \<and> deleteEntityFromFirestore (scripted ''0'' neverFails neverFails) (Some 0) ''users'' ''u1'' init
     = (Panicked, init)"
  by (rule nonpositive_retries_panic[where n = 0])
     (simp_all add: scripted_sel decimalAtoi_def users_exists)


end
